theory Spec2Isabelle
  imports Complex_Main
begin

section \<open>Data model\<close>

text \<open>
  The handlers of \<^verbatim>\<open>src/handlers/swap-handler.ts\<close> (the swap handler and, after the
  separator, the liquidity handler) work on entities kept by a persistence layer
  reached through \<^verbatim>\<open>context.<Entity>.get(key)\<close> and \<^verbatim>\<open>context.<Entity>.set(entity)\<close>.

  \<^item> \<^verbatim>\<open>BigDecimal\<close> values are exact decimals; \<^verbatim>\<open>plus\<close>, \<^verbatim>\<open>minus\<close> and \<^verbatim>\<open>times\<close>
    are exact, so they are the operations of \<^typ>\<open>rat\<close>. \<^verbatim>\<open>div\<close> rounds the quotient
    (\<open>BigDecimal_div\<close> below).
  \<^item> \<^verbatim>\<open>bigint\<close> values are unbounded integers: \<^typ>\<open>int\<close>. The number of decimals
    of a token is a \<^typ>\<open>nat\<close>.
  \<^item> An identifier built by a template literal such as
    \<^verbatim>\<open>`${event.chainId}_${event.params.id}`\<close> is kept as the tuple of its parts
    (here the chain id and the pool id): the literal determines the parts, since a
    chain id is a decimal numeral and the separator is not a digit.
  \<^item> A nullable field (\<^verbatim>\<open>pool.tick ?? 0n\<close>) is an \<^typ>\<open>'a option\<close>.
  \<^item> A field \<^verbatim>\<open>f\<close> of an entity of type \<^verbatim>\<open>E\<close> is \<open>E_f\<close>, so that the local variables
    of the handlers keep their names.
\<close>

text \<open>
  \<^verbatim>\<open>a.div(b)\<close> of the decimal library: the quotient rounded to 20 decimal places, a half
  away from zero (the library's default \<^verbatim>\<open>DECIMAL_PLACES\<close> and \<^verbatim>\<open>ROUNDING_MODE\<close>). The
  handlers divide by the constants 2 and 1000000 only.
\<close>

definition BigDecimal_div :: "rat \<Rightarrow> rat \<Rightarrow> rat" where
  "BigDecimal_div a b =
     (let q = a / b in sgn q * of_int \<lfloor>\<bar>q\<bar> * 10 ^ 20 + 1 / 2\<rfloor> / 10 ^ 20)"

type_synonym ChainId = int
type_synonym PoolKey = "ChainId \<times> string"
type_synonym TickKey = "PoolKey \<times> int"

record Bundle =
  Bundle_id :: ChainId
  Bundle_ethPriceUSD :: rat

record Token =
  Token_id :: string
  Token_decimals :: nat
  Token_derivedETH :: rat
  Token_totalValueLocked :: rat

record Pool =
  Pool_id :: PoolKey
  Pool_token0 :: string
  Pool_token1 :: string
  Pool_hooks :: string
  Pool_feeTier :: int
  Pool_txCount :: int
  Pool_sqrtPrice :: "int option"
  Pool_tick :: "int option"
  Pool_token0Price :: rat
  Pool_token1Price :: rat
  Pool_liquidity :: int
  Pool_totalValueLockedToken0 :: rat
  Pool_totalValueLockedToken1 :: rat
  Pool_totalValueLockedETH :: rat
  Pool_totalValueLockedUSD :: rat
  Pool_volumeToken0 :: rat
  Pool_volumeToken1 :: rat
  Pool_volumeUSD :: rat
  Pool_untrackedVolumeUSD :: rat
  Pool_feesUSD :: rat
  Pool_feesUSDUntracked :: rat
  Pool_collectedFeesToken0 :: rat
  Pool_collectedFeesToken1 :: rat
  Pool_collectedFeesUSD :: rat

record PoolManager =
  PoolManager_id :: "ChainId \<times> string"
  PoolManager_txCount :: int
  PoolManager_totalVolumeETH :: rat
  PoolManager_totalVolumeUSD :: rat
  PoolManager_untrackedVolumeUSD :: rat
  PoolManager_totalFeesETH :: rat
  PoolManager_totalFeesUSD :: rat
  PoolManager_totalValueLockedETH :: rat
  PoolManager_totalValueLockedUSD :: rat
  PoolManager_numberOfSwaps :: int
  PoolManager_hookedSwaps :: int

record HookStats =
  HookStats_id :: "ChainId \<times> string"
  HookStats_numberOfSwaps :: int
  HookStats_totalVolumeUSD :: rat
  HookStats_untrackedVolumeUSD :: rat
  HookStats_totalFeesUSD :: rat
  HookStats_totalValueLockedUSD :: rat

record Tick =
  Tick_id :: TickKey
  Tick_tickIdx :: int
  Tick_pool :: PoolKey
  Tick_chainId :: int
  Tick_createdAtTimestamp :: int
  Tick_createdAtBlockNumber :: int
  Tick_liquidityGross :: int
  Tick_liquidityNet :: int

record Swap =
  Swap_id :: "ChainId \<times> int \<times> int"
  Swap_chainId :: int
  Swap_transaction :: string
  Swap_timestamp :: int
  Swap_pool :: PoolKey
  Swap_token0_id :: string
  Swap_token1_id :: string
  Swap_sender :: string
  Swap_origin :: string
  Swap_amount0 :: rat
  Swap_amount1 :: rat
  Swap_amountUSD :: rat
  Swap_sqrtPriceX96 :: int
  Swap_tick :: int
  Swap_logIndex :: int

record ModifyLiquidity =
  ModifyLiquidity_id :: "ChainId \<times> string \<times> int"
  ModifyLiquidity_chainId :: int
  ModifyLiquidity_transaction :: string
  ModifyLiquidity_timestamp :: int
  ModifyLiquidity_pool_id :: PoolKey
  ModifyLiquidity_token0_id :: string
  ModifyLiquidity_token1_id :: string
  ModifyLiquidity_sender :: string
  ModifyLiquidity_origin :: string
  ModifyLiquidity_amount :: int
  ModifyLiquidity_amount0 :: rat
  ModifyLiquidity_amount1 :: rat
  ModifyLiquidity_amountUSD :: rat
  ModifyLiquidity_tickLower :: int
  ModifyLiquidity_tickUpper :: int
  ModifyLiquidity_logIndex :: int

subsection \<open>Events\<close>

text \<open>
  The fields of \<^verbatim>\<open>event\<close> the handlers read: \<^verbatim>\<open>event.block.number\<close> is
  \<open>event_block_number\<close>, \<^verbatim>\<open>event.params.tick\<close> of a swap is \<open>Swap_params_tick\<close>, and so
  on. \<^verbatim>\<open>event.transaction.from\<close> may be undefined.
\<close>

record Event =
  event_chainId :: ChainId
  event_srcAddress :: string
  event_block_number :: int
  event_block_timestamp :: int
  event_logIndex :: int
  event_transaction_hash :: string
  event_transaction_from :: "string option"

record PoolManager_Swap_event = Event +
  Swap_params_id :: string
  Swap_params_sender :: string
  Swap_params_amount0 :: int
  Swap_params_amount1 :: int
  Swap_params_sqrtPriceX96 :: int
  Swap_params_tick :: int
  Swap_params_liquidity :: int

record PoolManager_ModifyLiquidity_event = Event +
  ModifyLiquidity_params_id :: string
  ModifyLiquidity_params_sender :: string
  ModifyLiquidity_params_tickLower :: int
  ModifyLiquidity_params_tickUpper :: int
  ModifyLiquidity_params_liquidityDelta :: int

subsection \<open>The persistence context\<close>

text \<open>
  A table lists the persisted entities of one type. \<open>get\<close> returns the entity stored
  under a key, \<open>set\<close> replaces the entity that has the new entity's \<open>id\<close>, or adds the
  entity when there is none (an upsert keyed by \<open>id\<close>). Every \<open>set\<close> is also recorded,
  in order, in the \<open>writes\<close> log of the context, so that "no write" is a statement
  about the context. \<open>isPreload\<close> is the flag \<^verbatim>\<open>context.isPreload\<close>.
\<close>

datatype EntityKind =
  BundleEntity | PoolEntity | PoolManagerEntity | SwapEntity | TokenEntity
  | HookStatsEntity | TickEntity | ModifyLiquidityEntity

record LoaderContext =
  isPreload :: bool
  Bundles :: "Bundle list"
  Tokens :: "Token list"
  Pools :: "Pool list"
  PoolManagers :: "PoolManager list"
  HookStatsTable :: "HookStats list"
  Ticks :: "Tick list"
  Swaps :: "Swap list"
  ModifyLiquidities :: "ModifyLiquidity list"
  writes :: "EntityKind list"

definition lookup :: "('e \<Rightarrow> 'k) \<Rightarrow> 'k \<Rightarrow> 'e list \<Rightarrow> 'e option" where
  "lookup key k es = find (\<lambda>e. key e = k) es"

fun upsert :: "('e \<Rightarrow> 'k) \<Rightarrow> 'e \<Rightarrow> 'e list \<Rightarrow> 'e list" where
  "upsert key e [] = [e]"
| "upsert key e (x # xs) = (if key x = key e then e # xs else x # upsert key e xs)"

definition Bundle_get :: "LoaderContext \<Rightarrow> ChainId \<Rightarrow> Bundle option" where
  "Bundle_get ctx k = lookup Bundle_id k (Bundles ctx)"

definition Bundle_set :: "Bundle \<Rightarrow> LoaderContext \<Rightarrow> LoaderContext" where
  "Bundle_set e ctx =
     ctx\<lparr>Bundles := upsert Bundle_id e (Bundles ctx), writes := writes ctx @ [BundleEntity]\<rparr>"

definition Token_get :: "LoaderContext \<Rightarrow> string \<Rightarrow> Token option" where
  "Token_get ctx k = lookup Token_id k (Tokens ctx)"

definition Token_set :: "Token \<Rightarrow> LoaderContext \<Rightarrow> LoaderContext" where
  "Token_set e ctx =
     ctx\<lparr>Tokens := upsert Token_id e (Tokens ctx), writes := writes ctx @ [TokenEntity]\<rparr>"

definition Pool_get :: "LoaderContext \<Rightarrow> PoolKey \<Rightarrow> Pool option" where
  "Pool_get ctx k = lookup Pool_id k (Pools ctx)"

definition Pool_set :: "Pool \<Rightarrow> LoaderContext \<Rightarrow> LoaderContext" where
  "Pool_set e ctx =
     ctx\<lparr>Pools := upsert Pool_id e (Pools ctx), writes := writes ctx @ [PoolEntity]\<rparr>"

definition PoolManager_get :: "LoaderContext \<Rightarrow> ChainId \<times> string \<Rightarrow> PoolManager option" where
  "PoolManager_get ctx k = lookup PoolManager_id k (PoolManagers ctx)"

definition PoolManager_set :: "PoolManager \<Rightarrow> LoaderContext \<Rightarrow> LoaderContext" where
  "PoolManager_set e ctx =
     ctx\<lparr>PoolManagers := upsert PoolManager_id e (PoolManagers ctx),
         writes := writes ctx @ [PoolManagerEntity]\<rparr>"

definition HookStats_get :: "LoaderContext \<Rightarrow> ChainId \<times> string \<Rightarrow> HookStats option" where
  "HookStats_get ctx k = lookup HookStats_id k (HookStatsTable ctx)"

definition HookStats_set :: "HookStats \<Rightarrow> LoaderContext \<Rightarrow> LoaderContext" where
  "HookStats_set e ctx =
     ctx\<lparr>HookStatsTable := upsert HookStats_id e (HookStatsTable ctx),
         writes := writes ctx @ [HookStatsEntity]\<rparr>"

definition Tick_get :: "LoaderContext \<Rightarrow> TickKey \<Rightarrow> Tick option" where
  "Tick_get ctx k = lookup Tick_id k (Ticks ctx)"

definition Tick_set :: "Tick \<Rightarrow> LoaderContext \<Rightarrow> LoaderContext" where
  "Tick_set e ctx =
     ctx\<lparr>Ticks := upsert Tick_id e (Ticks ctx), writes := writes ctx @ [TickEntity]\<rparr>"

definition Swap_set :: "Swap \<Rightarrow> LoaderContext \<Rightarrow> LoaderContext" where
  "Swap_set e ctx =
     ctx\<lparr>Swaps := upsert Swap_id e (Swaps ctx), writes := writes ctx @ [SwapEntity]\<rparr>"

definition ModifyLiquidity_set :: "ModifyLiquidity \<Rightarrow> LoaderContext \<Rightarrow> LoaderContext" where
  "ModifyLiquidity_set e ctx =
     ctx\<lparr>ModifyLiquidities := upsert ModifyLiquidity_id e (ModifyLiquidities ctx),
         writes := writes ctx @ [ModifyLiquidityEntity]\<rparr>"

section \<open>Configuration and helpers that are not among the sources\<close>

text \<open>
  \<^verbatim>\<open>getChainConfig\<close> (\<^verbatim>\<open>../utils/chains\<close>) returns the static configuration of a chain;
  these are the fields the handlers and the metadata resolver read.
\<close>

record NativeTokenDetails =
  NativeTokenDetails_symbol :: string
  NativeTokenDetails_name :: string
  NativeTokenDetails_decimals :: nat

record TokenOverride =
  TokenOverride_address :: string
  TokenOverride_symbol :: string
  TokenOverride_name :: string
  TokenOverride_decimals :: nat

record ChainConfig =
  poolsToSkip :: "string list"
  wrappedNativeAddress :: string
  stablecoinAddresses :: "string list"
  minimumNativeLocked :: rat
  stablecoinWrappedNativePoolId :: string
  stablecoinIsToken0 :: bool
  nativeTokenDetails :: NativeTokenDetails
  whitelistTokens :: "string list"
  tokenOverrides :: "TokenOverride list"

text \<open>
  The pricing and liquidity-math helpers the handlers import (\<^verbatim>\<open>../utils/pricing\<close>,
  \<^verbatim>\<open>../utils/liquidityMath/liquidityAmounts\<close>, \<^verbatim>\<open>../utils/chains\<close>) are not among the
  sources. The handlers take them as a parameter, with the arguments the call sites pass;
  the helpers that get the context only read it. Every theorem below holds for all
  helpers of these types.
\<close>

record Utils =
  getChainConfig :: "ChainId \<Rightarrow> ChainConfig"
  findNativePerToken :: "LoaderContext \<Rightarrow> Token \<Rightarrow> string \<Rightarrow> string list \<Rightarrow> rat \<Rightarrow> rat"
  getNativePriceInUSD :: "LoaderContext \<Rightarrow> ChainId \<Rightarrow> string \<Rightarrow> bool \<Rightarrow> rat"
  sqrtPriceX96ToTokenPrices :: "int \<Rightarrow> Token \<Rightarrow> Token \<Rightarrow> NativeTokenDetails \<Rightarrow> rat \<times> rat"
  getTrackedAmountUSD ::
    "LoaderContext \<Rightarrow> rat \<Rightarrow> Token \<Rightarrow> rat \<Rightarrow> Token \<Rightarrow> ChainId \<Rightarrow> string list \<Rightarrow> rat"
  getAmount0 :: "int \<Rightarrow> int \<Rightarrow> int \<Rightarrow> int \<Rightarrow> int \<Rightarrow> int"
  getAmount1 :: "int \<Rightarrow> int \<Rightarrow> int \<Rightarrow> int \<Rightarrow> int \<Rightarrow> int"

text \<open>
  Modelled from the spec: \<^verbatim>\<open>safeDiv\<close> (\<^verbatim>\<open>../utils/index\<close>) is not among the sources.
  Section 4.1 of the specification: "\<^verbatim>\<open>safeDivide(a, b)\<close> returns the zero value when
  \<^verbatim>\<open>b\<close> is exactly zero rather than failing"; otherwise it divides, over exact decimals.
\<close>

definition safeDiv :: "rat \<Rightarrow> rat \<Rightarrow> rat" where
  "safeDiv a b = (if b = 0 then 0 else a / b)"

text \<open>
  Modelled from the spec: \<^verbatim>\<open>convertTokenToDecimal\<close> (\<^verbatim>\<open>../utils\<close>) is not among the
  sources. Section 4.1 of the specification: "a raw-integer-to-decimal conversion that
  divides a signed integer quantity by \<^verbatim>\<open>10^decimals\<close>".
\<close>

definition convertTokenToDecimal :: "int \<Rightarrow> nat \<Rightarrow> rat" where
  "convertTokenToDecimal tokenAmount exchangeDecimals = of_int tokenAmount / 10 ^ exchangeDecimals"

text \<open>
  Modelled from the spec: \<^verbatim>\<open>createInitialTick\<close> (\<^verbatim>\<open>../utils/tick\<close>) is not among the
  sources. Sections 3 and 4.4 of the specification: a tick record holds the pool, the
  tick index, gross and net liquidity and the creation block and time, and is "created
  lazily the first time a liquidity event references it"; the record is built from the
  arguments of the call, with no liquidity yet.
\<close>

definition createInitialTick :: "TickKey \<Rightarrow> int \<Rightarrow> PoolKey \<Rightarrow> int \<Rightarrow> int \<Rightarrow> int \<Rightarrow> Tick" where
  "createInitialTick tickId tickIndex poolId chain blockTimestamp blockNumber =
     \<lparr>Tick_id = tickId, Tick_tickIdx = tickIndex, Tick_pool = poolId, Tick_chainId = chain,
      Tick_createdAtTimestamp = blockTimestamp, Tick_createdAtBlockNumber = blockNumber,
      Tick_liquidityGross = 0, Tick_liquidityNet = 0\<rparr>"

definition ADDRESS_ZERO :: string where
  "ADDRESS_ZERO = ''0x0000000000000000000000000000000000000000''"

section \<open>The tick ledger\<close>

text \<open>
  \<^verbatim>\<open>updateTicks\<close>: both tick records are read before either is written
  (\<^verbatim>\<open>Promise.all\<close>), a missing one is created, and the lower tick is written before
  the upper one. \<^verbatim>\<open>Number(event.params.tickLower)\<close> is the tick itself.
\<close>

definition updateTicks ::
  "LoaderContext \<Rightarrow> PoolManager_ModifyLiquidity_event \<Rightarrow> PoolKey \<Rightarrow> LoaderContext" where
  "updateTicks ctx event poolId =
    (let lowerTickIdx = ModifyLiquidity_params_tickLower event;
         upperTickIdx = ModifyLiquidity_params_tickUpper event;
         lowerTickId = (poolId, ModifyLiquidity_params_tickLower event);
         upperTickId = (poolId, ModifyLiquidity_params_tickUpper event);
         lowerTick = Tick_get ctx lowerTickId;
         upperTick = Tick_get ctx upperTickId
     in if isPreload ctx then ctx
        else
          let lowerTick = (case lowerTick of
                 None \<Rightarrow> createInitialTick lowerTickId lowerTickIdx poolId (event_chainId event)
                   (event_block_timestamp event) (event_block_number event)
               | Some t \<Rightarrow> t);
              upperTick = (case upperTick of
                 None \<Rightarrow> createInitialTick upperTickId upperTickIdx poolId (event_chainId event)
                   (event_block_timestamp event) (event_block_number event)
               | Some t \<Rightarrow> t);
              amount = ModifyLiquidity_params_liquidityDelta event;
              lowerTick = lowerTick\<lparr>Tick_liquidityGross := Tick_liquidityGross lowerTick + amount,
                                    Tick_liquidityNet := Tick_liquidityNet lowerTick + amount\<rparr>;
              upperTick = upperTick\<lparr>Tick_liquidityGross := Tick_liquidityGross upperTick + amount,
                                    Tick_liquidityNet := Tick_liquidityNet upperTick - amount\<rparr>
          in Tick_set upperTick (Tick_set lowerTick ctx))"

section \<open>The liquidity handler\<close>

text \<open>
  \<^verbatim>\<open>context.PoolManager.getOrThrow\<close> raises when the entity is absent. A handler
  returns the context after its writes (\<open>Inr\<close>), or raises (\<open>Inl\<close>): then the result is
  the error together with the context as it is at the raise, with the writes made
  until then.
\<close>

datatype HandlerError = EntityNotFound EntityKind

text \<open>
  Each local constant of \<^verbatim>\<open>PoolManager.ModifyLiquidity\<close>'s loader is a function of the
  values the loader has read: the event, the pool, the two tokens, the bundle and the
  manager. First the amounts of the liquidity change.
\<close>

definition liquidity_currTick :: "Pool \<Rightarrow> int" where
  "liquidity_currTick pool = (case Pool_tick pool of None \<Rightarrow> 0 | Some t \<Rightarrow> t)"

definition liquidity_currSqrtPriceX96 :: "Pool \<Rightarrow> int" where
  "liquidity_currSqrtPriceX96 pool = (case Pool_sqrtPrice pool of None \<Rightarrow> 0 | Some x \<Rightarrow> x)"

definition liquidity_amount0Raw :: "Utils \<Rightarrow> PoolManager_ModifyLiquidity_event \<Rightarrow> Pool \<Rightarrow> int" where
  "liquidity_amount0Raw utils event pool =
     getAmount0 utils (ModifyLiquidity_params_tickLower event)
       (ModifyLiquidity_params_tickUpper event) (liquidity_currTick pool)
       (ModifyLiquidity_params_liquidityDelta event) (liquidity_currSqrtPriceX96 pool)"

definition liquidity_amount1Raw :: "Utils \<Rightarrow> PoolManager_ModifyLiquidity_event \<Rightarrow> Pool \<Rightarrow> int" where
  "liquidity_amount1Raw utils event pool =
     getAmount1 utils (ModifyLiquidity_params_tickLower event)
       (ModifyLiquidity_params_tickUpper event) (liquidity_currTick pool)
       (ModifyLiquidity_params_liquidityDelta event) (liquidity_currSqrtPriceX96 pool)"

definition liquidity_amount0 ::
  "Utils \<Rightarrow> PoolManager_ModifyLiquidity_event \<Rightarrow> Pool \<Rightarrow> Token \<Rightarrow> rat" where
  "liquidity_amount0 utils event pool token0 =
     convertTokenToDecimal (liquidity_amount0Raw utils event pool) (Token_decimals token0)"

definition liquidity_amount1 ::
  "Utils \<Rightarrow> PoolManager_ModifyLiquidity_event \<Rightarrow> Pool \<Rightarrow> Token \<Rightarrow> rat" where
  "liquidity_amount1 utils event pool token1 =
     convertTokenToDecimal (liquidity_amount1Raw utils event pool) (Token_decimals token1)"

definition liquidity_amountUSD ::
  "Utils \<Rightarrow> PoolManager_ModifyLiquidity_event \<Rightarrow> Pool \<Rightarrow> Token \<Rightarrow> Token \<Rightarrow> Bundle \<Rightarrow> rat" where
  "liquidity_amountUSD utils event pool token0 token1 bundle =
     (liquidity_amount0 utils event pool token0 * Token_derivedETH token0
      + liquidity_amount1 utils event pool token1 * Token_derivedETH token1)
     * Bundle_ethPriceUSD bundle"

text \<open>
  The pool after "Update pool TVL" and "Only update liquidity if position is in range";
  its \<open>totalValueLockedETH\<close> and \<open>totalValueLockedUSD\<close> are still the stored ones,
  which the loader keeps as \<^verbatim>\<open>currentPoolTvlETH\<close> and \<^verbatim>\<open>currentPoolTvlUSD\<close>.
\<close>

definition liquidity_poolBalances ::
  "Utils \<Rightarrow> PoolManager_ModifyLiquidity_event \<Rightarrow> Pool \<Rightarrow> Token \<Rightarrow> Token \<Rightarrow> Pool" where
  "liquidity_poolBalances utils event pool token0 token1 =
    (let pool = pool\<lparr>Pool_totalValueLockedToken0 :=
                     Pool_totalValueLockedToken0 pool + liquidity_amount0 utils event pool token0,
                    Pool_totalValueLockedToken1 :=
                     Pool_totalValueLockedToken1 pool + liquidity_amount1 utils event pool token1\<rparr>
     in if ModifyLiquidity_params_tickLower event
             \<le> (case Pool_tick pool of None \<Rightarrow> 0 | Some t \<Rightarrow> t)
           \<and> ModifyLiquidity_params_tickUpper event
             > (case Pool_tick pool of None \<Rightarrow> 0 | Some t \<Rightarrow> t)
        then pool\<lparr>Pool_liquidity :=
               Pool_liquidity pool + ModifyLiquidity_params_liquidityDelta event\<rparr>
        else pool)"

definition liquidity_token0 ::
  "Utils \<Rightarrow> PoolManager_ModifyLiquidity_event \<Rightarrow> Pool \<Rightarrow> Token \<Rightarrow> Token" where
  "liquidity_token0 utils event pool token0 =
     token0\<lparr>Token_totalValueLocked :=
       Token_totalValueLocked token0 + liquidity_amount0 utils event pool token0\<rparr>"

definition liquidity_token1 ::
  "Utils \<Rightarrow> PoolManager_ModifyLiquidity_event \<Rightarrow> Pool \<Rightarrow> Token \<Rightarrow> Token" where
  "liquidity_token1 utils event pool token1 =
     token1\<lparr>Token_totalValueLocked :=
       Token_totalValueLocked token1 + liquidity_amount1 utils event pool token1\<rparr>"

text \<open>
  "After updating token TVLs, calculate ETH and USD values": the pool that is written.
\<close>

definition liquidity_pool ::
  "Utils \<Rightarrow> PoolManager_ModifyLiquidity_event \<Rightarrow> Pool \<Rightarrow> Token \<Rightarrow> Token \<Rightarrow> Bundle \<Rightarrow> Pool" where
  "liquidity_pool utils event pool token0 token1 bundle =
    (let newPool = liquidity_poolBalances utils event pool token0 token1;
         token0 = liquidity_token0 utils event pool token0;
         token1 = liquidity_token1 utils event pool token1;
         newPool = newPool\<lparr>Pool_totalValueLockedETH :=
                  Pool_totalValueLockedToken0 newPool * Token_derivedETH token0
                  + Pool_totalValueLockedToken1 newPool * Token_derivedETH token1\<rparr>;
         newPool = newPool\<lparr>Pool_totalValueLockedUSD :=
                  Pool_totalValueLockedETH newPool * Bundle_ethPriceUSD bundle\<rparr>
     in newPool)"

text \<open>"Update PoolManager": the manager that is written.\<close>

definition liquidity_poolManager ::
  "Utils \<Rightarrow> PoolManager_ModifyLiquidity_event \<Rightarrow> Pool \<Rightarrow> Token \<Rightarrow> Token \<Rightarrow> Bundle
     \<Rightarrow> PoolManager \<Rightarrow> PoolManager" where
  "liquidity_poolManager utils event pool token0 token1 bundle poolManager =
    (let currentPoolTvlETH =
           Pool_totalValueLockedETH (liquidity_poolBalances utils event pool token0 token1);
         pool = liquidity_pool utils event pool token0 token1 bundle;
         poolManager = poolManager\<lparr>PoolManager_txCount := PoolManager_txCount poolManager + 1,
                  PoolManager_totalValueLockedETH :=
                    PoolManager_totalValueLockedETH poolManager - currentPoolTvlETH
                    + Pool_totalValueLockedETH pool\<rparr>;
         poolManager = poolManager\<lparr>PoolManager_totalValueLockedUSD :=
                  PoolManager_totalValueLockedETH poolManager * Bundle_ethPriceUSD bundle\<rparr>
     in poolManager)"

text \<open>
  The event record. \<^verbatim>\<open>event.transaction.from || "NONE"\<close> is \<^verbatim>\<open>"NONE"\<close> for an undefined
  or empty sender.
\<close>

definition originOf :: "string option \<Rightarrow> string" where
  "originOf sender = (case sender of None \<Rightarrow> ''NONE'' | Some a \<Rightarrow> if a = [] then ''NONE'' else a)"

definition liquidity_modifyLiquidity ::
  "Utils \<Rightarrow> PoolManager_ModifyLiquidity_event \<Rightarrow> Pool \<Rightarrow> Token \<Rightarrow> Token \<Rightarrow> Bundle
     \<Rightarrow> ModifyLiquidity" where
  "liquidity_modifyLiquidity utils event pool token0 token1 bundle =
     \<lparr>ModifyLiquidity_id =
        (event_chainId event, event_transaction_hash event, event_logIndex event),
      ModifyLiquidity_chainId = event_chainId event,
      ModifyLiquidity_transaction = event_transaction_hash event,
      ModifyLiquidity_timestamp = event_block_timestamp event,
      ModifyLiquidity_pool_id = Pool_id pool,
      ModifyLiquidity_token0_id = Token_id token0,
      ModifyLiquidity_token1_id = Token_id token1,
      ModifyLiquidity_sender = ModifyLiquidity_params_sender event,
      ModifyLiquidity_origin = originOf (event_transaction_from event),
      ModifyLiquidity_amount = ModifyLiquidity_params_liquidityDelta event,
      ModifyLiquidity_amount0 = liquidity_amount0 utils event pool token0,
      ModifyLiquidity_amount1 = liquidity_amount1 utils event pool token1,
      ModifyLiquidity_amountUSD = liquidity_amountUSD utils event pool token0 token1 bundle,
      ModifyLiquidity_tickLower = ModifyLiquidity_params_tickLower event,
      ModifyLiquidity_tickUpper = ModifyLiquidity_params_tickUpper event,
      ModifyLiquidity_logIndex = event_logIndex event\<rparr>"

text \<open>
  "Check if this is a hooked pool and update HookStats": the hook statistics are read
  here, after the tick ledger was written, and written when they exist.
\<close>

definition liquidity_updateHookStats ::
  "Utils \<Rightarrow> LoaderContext \<Rightarrow> PoolManager_ModifyLiquidity_event \<Rightarrow> Pool \<Rightarrow> Token \<Rightarrow> Token
     \<Rightarrow> Bundle \<Rightarrow> LoaderContext" where
  "liquidity_updateHookStats utils ctx event pool token0 token1 bundle =
    (let currentPoolTvlUSD =
           Pool_totalValueLockedUSD (liquidity_poolBalances utils event pool token0 token1);
         pool = liquidity_pool utils event pool token0 token1 bundle;
         isHookedPool = (Pool_hooks pool \<noteq> ADDRESS_ZERO)
     in if isHookedPool
        then (case HookStats_get ctx (event_chainId event, Pool_hooks pool) of
                None \<Rightarrow> ctx
              | Some hookStats \<Rightarrow>
                  HookStats_set (hookStats\<lparr>HookStats_totalValueLockedUSD :=
                      HookStats_totalValueLockedUSD hookStats - currentPoolTvlUSD
                      + Pool_totalValueLockedETH pool * Bundle_ethPriceUSD bundle\<rparr>) ctx)
        else ctx)"

text \<open>
  The part of the loader after its last early return: the hook statistics, then the
  five writes at the end, in the order of the source.
\<close>

definition ModifyLiquidityCommit ::
  "Utils \<Rightarrow> LoaderContext \<Rightarrow> PoolManager_ModifyLiquidity_event \<Rightarrow> Pool \<Rightarrow> Token \<Rightarrow> Token
     \<Rightarrow> Bundle \<Rightarrow> PoolManager \<Rightarrow> LoaderContext" where
  "ModifyLiquidityCommit utils ctx event pool token0 token1 bundle poolManager =
    (let ctx = liquidity_updateHookStats utils ctx event pool token0 token1 bundle;
         ctx = ModifyLiquidity_set (liquidity_modifyLiquidity utils event pool token0 token1 bundle) ctx;
         ctx = PoolManager_set
                 (liquidity_poolManager utils event pool token0 token1 bundle poolManager) ctx;
         ctx = Pool_set (liquidity_pool utils event pool token0 token1 bundle) ctx;
         ctx = Token_set (liquidity_token0 utils event pool token0) ctx;
         ctx = Token_set (liquidity_token1 utils event pool token1) ctx
     in ctx)"

text \<open>
  \<^verbatim>\<open>PoolManager.ModifyLiquidity.handlerWithLoader\<close>: the exclusion list, then the pool,
  both tokens and the bundle (each absence returns), then the manager
  (\<^verbatim>\<open>getOrThrow\<close>), the tick ledger, the preload check and the rest. The
  \<^verbatim>\<open>handler\<close> part is empty.
\<close>

definition ModifyLiquidityHandler ::
  "Utils \<Rightarrow> LoaderContext \<Rightarrow> PoolManager_ModifyLiquidity_event
     \<Rightarrow> HandlerError \<times> LoaderContext + LoaderContext" where
  "ModifyLiquidityHandler utils ctx event =
    (let chainConfig = getChainConfig utils (event_chainId event)
     in if ModifyLiquidity_params_id event \<in> set (poolsToSkip chainConfig) then Inr ctx
        else
          (case Pool_get ctx (event_chainId event, ModifyLiquidity_params_id event) of
             None \<Rightarrow> Inr ctx
           | Some pool \<Rightarrow>
              (case Token_get ctx (Pool_token0 pool) of
                 None \<Rightarrow> Inr ctx
               | Some token0 \<Rightarrow>
                  (case Token_get ctx (Pool_token1 pool) of
                     None \<Rightarrow> Inr ctx
                   | Some token1 \<Rightarrow>
                      (case Bundle_get ctx (event_chainId event) of
                         None \<Rightarrow> Inr ctx
                       | Some bundle \<Rightarrow>
                          (case PoolManager_get ctx (event_chainId event, event_srcAddress event) of
                             None \<Rightarrow> Inl (EntityNotFound PoolManagerEntity, ctx)
                           | Some poolManager \<Rightarrow>
                              (let ctx = updateTicks ctx event (Pool_id pool)
                               in if isPreload ctx then Inr ctx
                                  else Inr (ModifyLiquidityCommit utils ctx event pool
                                              token0 token1 bundle poolManager))))))))"

section \<open>The swap handler\<close>

text \<open>
  The local constants of \<^verbatim>\<open>PoolManager.Swap\<close>'s loader after its preload check, as
  functions of what the loader holds then: the event, the chain configuration, the
  manager, the pool, \<open>bundle\<close> (the bundle as loaded, or the default with price 0) and
  \<open>token0\<close>, \<open>token1\<close> (the tokens with the refreshed \<open>derivedETH\<close>).
\<close>

definition swap_amount0 :: "PoolManager_Swap_event \<Rightarrow> Token \<Rightarrow> rat" where
  "swap_amount0 event token0 =
     convertTokenToDecimal (Swap_params_amount0 event) (Token_decimals token0) * (- 1)"

definition swap_amount1 :: "PoolManager_Swap_event \<Rightarrow> Token \<Rightarrow> rat" where
  "swap_amount1 event token1 =
     convertTokenToDecimal (Swap_params_amount1 event) (Token_decimals token1) * (- 1)"

definition swap_amount0Abs :: "PoolManager_Swap_event \<Rightarrow> Token \<Rightarrow> rat" where
  "swap_amount0Abs event token0 =
     (let amount0 = swap_amount0 event token0 in if amount0 < 0 then amount0 * (- 1) else amount0)"

definition swap_amount1Abs :: "PoolManager_Swap_event \<Rightarrow> Token \<Rightarrow> rat" where
  "swap_amount1Abs event token1 =
     (let amount1 = swap_amount1 event token1 in if amount1 < 0 then amount1 * (- 1) else amount1)"

definition swap_amount0USD :: "PoolManager_Swap_event \<Rightarrow> Bundle \<Rightarrow> Token \<Rightarrow> rat" where
  "swap_amount0USD event bundle token0 =
     (let amount0ETH = swap_amount0Abs event token0 * Token_derivedETH token0
      in amount0ETH * Bundle_ethPriceUSD bundle)"

definition swap_amount1USD :: "PoolManager_Swap_event \<Rightarrow> Bundle \<Rightarrow> Token \<Rightarrow> rat" where
  "swap_amount1USD event bundle token1 =
     (let amount1ETH = swap_amount1Abs event token1 * Token_derivedETH token1
      in amount1ETH * Bundle_ethPriceUSD bundle)"

definition swap_amountTotalUSDTracked ::
  "Utils \<Rightarrow> LoaderContext \<Rightarrow> PoolManager_Swap_event \<Rightarrow> ChainConfig \<Rightarrow> Token \<Rightarrow> Token \<Rightarrow> rat" where
  "swap_amountTotalUSDTracked utils ctx event chainConfig token0 token1 =
     (let trackedAmountUSD = getTrackedAmountUSD utils ctx (swap_amount0Abs event token0) token0
            (swap_amount1Abs event token1) token1 (event_chainId event)
            (whitelistTokens chainConfig)
      in BigDecimal_div trackedAmountUSD 2)"

definition swap_amountTotalETHTracked ::
  "Utils \<Rightarrow> LoaderContext \<Rightarrow> PoolManager_Swap_event \<Rightarrow> ChainConfig \<Rightarrow> Bundle \<Rightarrow> Token \<Rightarrow> Token
     \<Rightarrow> rat" where
  "swap_amountTotalETHTracked utils ctx event chainConfig bundle token0 token1 =
     safeDiv (swap_amountTotalUSDTracked utils ctx event chainConfig token0 token1)
       (Bundle_ethPriceUSD bundle)"

definition swap_amountTotalUSDUntracked ::
  "PoolManager_Swap_event \<Rightarrow> Bundle \<Rightarrow> Token \<Rightarrow> Token \<Rightarrow> rat" where
  "swap_amountTotalUSDUntracked event bundle token0 token1 =
     BigDecimal_div (swap_amount0USD event bundle token0 + swap_amount1USD event bundle token1) 2"

definition swap_feesETH ::
  "Utils \<Rightarrow> LoaderContext \<Rightarrow> PoolManager_Swap_event \<Rightarrow> ChainConfig \<Rightarrow> Pool \<Rightarrow> Bundle \<Rightarrow> Token
     \<Rightarrow> Token \<Rightarrow> rat" where
  "swap_feesETH utils ctx event chainConfig pool bundle token0 token1 =
     BigDecimal_div
       (swap_amountTotalETHTracked utils ctx event chainConfig bundle token0 token1
          * of_int (Pool_feeTier pool)) 1000000"

definition swap_feesUSD ::
  "Utils \<Rightarrow> LoaderContext \<Rightarrow> PoolManager_Swap_event \<Rightarrow> ChainConfig \<Rightarrow> Pool \<Rightarrow> Token \<Rightarrow> Token
     \<Rightarrow> rat" where
  "swap_feesUSD utils ctx event chainConfig pool token0 token1 =
     BigDecimal_div
       (swap_amountTotalUSDTracked utils ctx event chainConfig token0 token1
          * of_int (Pool_feeTier pool)) 1000000"

definition swap_feesUSDUntracked ::
  "PoolManager_Swap_event \<Rightarrow> Pool \<Rightarrow> Bundle \<Rightarrow> Token \<Rightarrow> Token \<Rightarrow> rat" where
  "swap_feesUSDUntracked event pool bundle token0 token1 =
     swap_amountTotalUSDUntracked event bundle token0 token1
       * BigDecimal_div (of_int (Pool_feeTier pool)) 1000000"

definition swap_feesToken0 :: "PoolManager_Swap_event \<Rightarrow> Pool \<Rightarrow> Token \<Rightarrow> rat" where
  "swap_feesToken0 event pool token0 =
     BigDecimal_div (swap_amount0Abs event token0 * of_int (Pool_feeTier pool)) 1000000"

definition swap_feesToken1 :: "PoolManager_Swap_event \<Rightarrow> Pool \<Rightarrow> Token \<Rightarrow> rat" where
  "swap_feesToken1 event pool token1 =
     BigDecimal_div (swap_amount1Abs event token1 * of_int (Pool_feeTier pool)) 1000000"

text \<open>
  "Update pool values" and the two recomputations of the TVL that follow: the pool
  that is written.
\<close>

definition swap_pool ::
  "Utils \<Rightarrow> LoaderContext \<Rightarrow> PoolManager_Swap_event \<Rightarrow> ChainConfig \<Rightarrow> Pool \<Rightarrow> Bundle \<Rightarrow> Token
     \<Rightarrow> Token \<Rightarrow> Pool" where
  "swap_pool utils ctx event chainConfig pool bundle token0 token1 =
    (let prices = sqrtPriceX96ToTokenPrices utils (Swap_params_sqrtPriceX96 event) token0 token1
            (nativeTokenDetails chainConfig);
         amountTotalUSDTracked = swap_amountTotalUSDTracked utils ctx event chainConfig token0 token1;
         amountTotalUSDUntracked = swap_amountTotalUSDUntracked event bundle token0 token1;
         feesUSD = swap_feesUSD utils ctx event chainConfig pool token0 token1;
         pool = pool\<lparr>Pool_txCount := Pool_txCount pool + 1,
                    Pool_sqrtPrice := Some (Swap_params_sqrtPriceX96 event),
                    Pool_tick := Some (Swap_params_tick event),
                    Pool_token0Price := fst prices,
                    Pool_token1Price := snd prices,
                    Pool_totalValueLockedToken0 :=
                      Pool_totalValueLockedToken0 pool + swap_amount0 event token0,
                    Pool_totalValueLockedToken1 :=
                      Pool_totalValueLockedToken1 pool + swap_amount1 event token1,
                    Pool_liquidity := Swap_params_liquidity event,
                    Pool_volumeToken0 := Pool_volumeToken0 pool + swap_amount0Abs event token0,
                    Pool_volumeToken1 := Pool_volumeToken1 pool + swap_amount1Abs event token1,
                    Pool_volumeUSD := Pool_volumeUSD pool + amountTotalUSDTracked,
                    Pool_untrackedVolumeUSD := Pool_untrackedVolumeUSD pool + amountTotalUSDUntracked,
                    Pool_feesUSD := Pool_feesUSD pool + feesUSD,
                    Pool_feesUSDUntracked := Pool_feesUSDUntracked pool
                      + swap_feesUSDUntracked event pool bundle token0 token1,
                    Pool_collectedFeesToken0 := Pool_collectedFeesToken0 pool
                      + swap_feesToken0 event pool token0,
                    Pool_collectedFeesToken1 := Pool_collectedFeesToken1 pool
                      + swap_feesToken1 event pool token1,
                    Pool_collectedFeesUSD := Pool_collectedFeesUSD pool + feesUSD\<rparr>;
         pool = pool\<lparr>Pool_totalValueLockedETH :=
                  Pool_totalValueLockedToken0 pool * Token_derivedETH token0
                  + Pool_totalValueLockedToken1 pool * Token_derivedETH token1\<rparr>;
         pool = pool\<lparr>Pool_totalValueLockedUSD :=
                  Pool_totalValueLockedETH pool * Bundle_ethPriceUSD bundle\<rparr>
     in pool)"

text \<open>
  "Update PoolManager aggregates": the manager of the first write.
  \<^verbatim>\<open>currentPoolTvlETH\<close> is the \<open>totalValueLockedETH\<close> of the pool as loaded.
\<close>

definition swap_poolManager ::
  "Utils \<Rightarrow> LoaderContext \<Rightarrow> PoolManager_Swap_event \<Rightarrow> ChainConfig \<Rightarrow> PoolManager \<Rightarrow> Pool
     \<Rightarrow> Bundle \<Rightarrow> Token \<Rightarrow> Token \<Rightarrow> PoolManager" where
  "swap_poolManager utils ctx event chainConfig poolManager pool bundle token0 token1 =
    (let amountTotalUSDTracked = swap_amountTotalUSDTracked utils ctx event chainConfig token0 token1;
         feesETH = swap_feesETH utils ctx event chainConfig pool bundle token0 token1;
         feesUSD = swap_feesUSD utils ctx event chainConfig pool token0 token1;
         currentPoolTvlETH = Pool_totalValueLockedETH pool;
         pool = swap_pool utils ctx event chainConfig pool bundle token0 token1;
         poolManager = poolManager\<lparr>PoolManager_txCount := PoolManager_txCount poolManager + 1,
                  PoolManager_totalVolumeETH := PoolManager_totalVolumeETH poolManager
                    + swap_amountTotalETHTracked utils ctx event chainConfig bundle token0 token1,
                  PoolManager_totalVolumeUSD :=
                    PoolManager_totalVolumeUSD poolManager + amountTotalUSDTracked,
                  PoolManager_untrackedVolumeUSD := PoolManager_untrackedVolumeUSD poolManager
                    + swap_amountTotalUSDUntracked event bundle token0 token1,
                  PoolManager_totalFeesETH := PoolManager_totalFeesETH poolManager + feesETH,
                  PoolManager_totalFeesUSD := PoolManager_totalFeesUSD poolManager + feesUSD,
                  PoolManager_totalValueLockedETH :=
                    PoolManager_totalValueLockedETH poolManager - currentPoolTvlETH
                    + Pool_totalValueLockedETH pool\<rparr>;
         poolManager = poolManager\<lparr>PoolManager_totalValueLockedUSD :=
                  PoolManager_totalValueLockedETH poolManager * Bundle_ethPriceUSD bundle\<rparr>
     in poolManager)"

text \<open>The manager of the second write, with the swap counters.\<close>

definition swap_poolManagerCounted ::
  "Utils \<Rightarrow> LoaderContext \<Rightarrow> PoolManager_Swap_event \<Rightarrow> ChainConfig \<Rightarrow> PoolManager \<Rightarrow> Pool
     \<Rightarrow> Bundle \<Rightarrow> Token \<Rightarrow> Token \<Rightarrow> bool \<Rightarrow> PoolManager" where
  "swap_poolManagerCounted utils ctx event chainConfig poolManager pool bundle token0 token1
      isHookedPool =
    (let poolManager = swap_poolManager utils ctx event chainConfig poolManager pool bundle
                         token0 token1
     in poolManager\<lparr>PoolManager_numberOfSwaps := PoolManager_numberOfSwaps poolManager + 1,
          PoolManager_hookedSwaps :=
            (if isHookedPool then PoolManager_hookedSwaps poolManager + 1
             else PoolManager_hookedSwaps poolManager)\<rparr>)"

definition swap_finalAmountUSD ::
  "Utils \<Rightarrow> LoaderContext \<Rightarrow> PoolManager_Swap_event \<Rightarrow> ChainConfig \<Rightarrow> Bundle \<Rightarrow> Token \<Rightarrow> Token
     \<Rightarrow> rat" where
  "swap_finalAmountUSD utils ctx event chainConfig bundle token0 token1 =
     (if swap_amountTotalUSDTracked utils ctx event chainConfig token0 token1 > 0
      then swap_amountTotalUSDTracked utils ctx event chainConfig token0 token1
      else swap_amountTotalUSDUntracked event bundle token0 token1)"

definition swap_entity ::
  "Utils \<Rightarrow> LoaderContext \<Rightarrow> PoolManager_Swap_event \<Rightarrow> ChainConfig \<Rightarrow> Bundle \<Rightarrow> Token \<Rightarrow> Token
     \<Rightarrow> Swap" where
  "swap_entity utils ctx event chainConfig bundle token0 token1 =
     \<lparr>Swap_id = (event_chainId event, event_block_number event, event_logIndex event),
      Swap_chainId = event_chainId event,
      Swap_transaction = event_transaction_hash event,
      Swap_timestamp = event_block_timestamp event,
      Swap_pool = (event_chainId event, Swap_params_id event),
      Swap_token0_id = Token_id token0,
      Swap_token1_id = Token_id token1,
      Swap_sender = Swap_params_sender event,
      Swap_origin = originOf (event_transaction_from event),
      Swap_amount0 = swap_amount0 event token0,
      Swap_amount1 = swap_amount1 event token1,
      Swap_amountUSD = swap_finalAmountUSD utils ctx event chainConfig bundle token0 token1,
      Swap_sqrtPriceX96 = Swap_params_sqrtPriceX96 event,
      Swap_tick = Swap_params_tick event,
      Swap_logIndex = event_logIndex event\<rparr>"

text \<open>
  "After processing the swap, update HookStats if it's a hooked pool": the hook
  statistics that are written when the loader found some.
  \<^verbatim>\<open>currentPoolTvlUSD\<close> is the \<open>totalValueLockedUSD\<close> of the pool as loaded.
\<close>

definition swap_hookStats ::
  "Utils \<Rightarrow> LoaderContext \<Rightarrow> PoolManager_Swap_event \<Rightarrow> ChainConfig \<Rightarrow> Pool \<Rightarrow> Bundle \<Rightarrow> Token
     \<Rightarrow> Token \<Rightarrow> HookStats \<Rightarrow> HookStats" where
  "swap_hookStats utils ctx event chainConfig pool bundle token0 token1 poolHookStats =
    (let amountTotalUSDTracked = swap_amountTotalUSDTracked utils ctx event chainConfig token0 token1;
         amountTotalUSDUntracked = swap_amountTotalUSDUntracked event bundle token0 token1;
         feesUSD = swap_feesUSD utils ctx event chainConfig pool token0 token1;
         currentPoolTvlUSD = Pool_totalValueLockedUSD pool;
         pool = swap_pool utils ctx event chainConfig pool bundle token0 token1;
         volumeToAdd = (if amountTotalUSDTracked > 0 then amountTotalUSDTracked
                        else amountTotalUSDUntracked);
         feesToAdd = (if amountTotalUSDTracked > 0 then feesUSD
                      else amountTotalUSDUntracked
                             * BigDecimal_div (of_int (Pool_feeTier pool)) 1000000)
     in poolHookStats\<lparr>HookStats_numberOfSwaps := HookStats_numberOfSwaps poolHookStats + 1,
          HookStats_totalVolumeUSD := HookStats_totalVolumeUSD poolHookStats + volumeToAdd,
          HookStats_untrackedVolumeUSD :=
            HookStats_untrackedVolumeUSD poolHookStats + amountTotalUSDUntracked,
          HookStats_totalFeesUSD := HookStats_totalFeesUSD poolHookStats + feesToAdd,
          HookStats_totalValueLockedUSD :=
            HookStats_totalValueLockedUSD poolHookStats - currentPoolTvlUSD
            + Pool_totalValueLockedUSD pool\<rparr>)"

text \<open>
  The writes of the loader, in the order of the source. \<open>ethPriceUSD\<close> is the refreshed
  native price; it is only written to the bundle.
\<close>

definition SwapCommit ::
  "Utils \<Rightarrow> LoaderContext \<Rightarrow> PoolManager_Swap_event \<Rightarrow> ChainConfig \<Rightarrow> PoolManager \<Rightarrow> Pool
     \<Rightarrow> Bundle \<Rightarrow> Token \<Rightarrow> Token \<Rightarrow> HookStats option \<Rightarrow> bool \<Rightarrow> rat \<Rightarrow> LoaderContext" where
  "SwapCommit utils ctx0 event chainConfig poolManager pool bundle token0 token1
      poolHookStats isHookedPool ethPriceUSD =
    (let ctx = Bundle_set (bundle\<lparr>Bundle_ethPriceUSD := ethPriceUSD\<rparr>) ctx0;
         ctx = Pool_set (swap_pool utils ctx0 event chainConfig pool bundle token0 token1) ctx;
         ctx = PoolManager_set
                 (swap_poolManager utils ctx0 event chainConfig poolManager pool bundle
                    token0 token1) ctx;
         ctx = Swap_set (swap_entity utils ctx0 event chainConfig bundle token0 token1) ctx;
         ctx = Token_set token0 ctx;
         ctx = Token_set token1 ctx;
         ctx = PoolManager_set
                 (swap_poolManagerCounted utils ctx0 event chainConfig poolManager pool bundle
                    token0 token1 isHookedPool) ctx
     in case poolHookStats of
          None \<Rightarrow> ctx
        | Some poolHookStats \<Rightarrow>
            HookStats_set
              (swap_hookStats utils ctx0 event chainConfig pool bundle token0 token1
                 poolHookStats) ctx)"

text \<open>
  \<^verbatim>\<open>bundle = bundle || {id: event.chainId.toString(), ethPriceUSD: new BigDecimal("0")}\<close>
  and "Update tokens' derivedETH values first".
\<close>

definition swap_bundle :: "Bundle option \<Rightarrow> PoolManager_Swap_event \<Rightarrow> Bundle" where
  "swap_bundle bundle event =
     (case bundle of
        None \<Rightarrow> \<lparr>Bundle_id = event_chainId event, Bundle_ethPriceUSD = 0\<rparr>
      | Some b \<Rightarrow> b)"

definition swap_token :: "Utils \<Rightarrow> LoaderContext \<Rightarrow> ChainConfig \<Rightarrow> Token \<Rightarrow> Token" where
  "swap_token utils ctx chainConfig token =
     token\<lparr>Token_derivedETH :=
       findNativePerToken utils ctx token (wrappedNativeAddress chainConfig)
         (stablecoinAddresses chainConfig) (minimumNativeLocked chainConfig)\<rparr>"

text \<open>
  \<^verbatim>\<open>PoolManager.Swap.handlerWithLoader\<close>: manager, pool and bundle are read together;
  an absent pool or manager returns; then the tokens (and the hook statistics of a
  hooked pool); an absent token returns; then the exclusion list; a missing bundle is
  replaced by one with price 0; both tokens' \<open>derivedETH\<close> and the native price are
  refreshed; the preload check; then the rest. No step of this loader raises.
\<close>

definition SwapHandler :: "Utils \<Rightarrow> LoaderContext \<Rightarrow> PoolManager_Swap_event \<Rightarrow> LoaderContext" where
  "SwapHandler utils ctx event =
    (let poolManager = PoolManager_get ctx (event_chainId event, event_srcAddress event);
         pool = Pool_get ctx (event_chainId event, Swap_params_id event);
         bundle = Bundle_get ctx (event_chainId event)
     in case pool of
          None \<Rightarrow> ctx
        | Some pool \<Rightarrow>
           (case poolManager of
              None \<Rightarrow> ctx
            | Some poolManager \<Rightarrow>
               (let isHookedPool = (Pool_hooks pool \<noteq> ADDRESS_ZERO);
                    token0 = Token_get ctx (Pool_token0 pool);
                    token1 = Token_get ctx (Pool_token1 pool);
                    poolHookStats = (if isHookedPool
                       then HookStats_get ctx (event_chainId event, Pool_hooks pool) else None)
                in case token0 of
                     None \<Rightarrow> ctx
                   | Some token0 \<Rightarrow>
                      (case token1 of
                         None \<Rightarrow> ctx
                       | Some token1 \<Rightarrow>
                          (let chainConfig = getChainConfig utils (event_chainId event)
                           in if Swap_params_id event \<in> set (poolsToSkip chainConfig) then ctx
                              else
                                (let bundle = swap_bundle bundle event;
                                     token0 = swap_token utils ctx chainConfig token0;
                                     token1 = swap_token utils ctx chainConfig token1;
                                     ethPriceUSD = getNativePriceInUSD utils ctx (event_chainId event)
                                          (stablecoinWrappedNativePoolId chainConfig)
                                          (stablecoinIsToken0 chainConfig)
                                 in if isPreload ctx then ctx
                                    else SwapCommit utils ctx event chainConfig poolManager pool
                                           bundle token0 token1 poolHookStats isHookedPool
                                           ethPriceUSD))))))"

section \<open>Sequences of events\<close>

text \<open>
  Events of a chain are delivered one at a time, in order. A handler that raises stops
  the processing; the context then is the one at the raise.
\<close>

datatype EventLog =
  SwapLog PoolManager_Swap_event
  | ModifyLiquidityLog PoolManager_ModifyLiquidity_event

fun handleEvent ::
  "Utils \<Rightarrow> LoaderContext \<Rightarrow> EventLog \<Rightarrow> HandlerError \<times> LoaderContext + LoaderContext" where
  "handleEvent utils ctx (SwapLog event) = Inr (SwapHandler utils ctx event)"
| "handleEvent utils ctx (ModifyLiquidityLog event) = ModifyLiquidityHandler utils ctx event"

fun processEvents ::
  "Utils \<Rightarrow> LoaderContext \<Rightarrow> EventLog list \<Rightarrow> HandlerError option \<times> LoaderContext" where
  "processEvents utils ctx [] = (None, ctx)"
| "processEvents utils ctx (e # es) =
     (case handleEvent utils ctx e of
        Inl raised \<Rightarrow> (Some (fst raised), snd raised)
      | Inr ctx' \<Rightarrow> processEvents utils ctx' es)"

section \<open>Token metadata\<close>

text \<open>
  The metadata resolver (\<^verbatim>\<open>getTokenMetadata\<close> and \<^verbatim>\<open>fetchTokenMetadataMulticall\<close>), as far
  as the \<open>decimals\<close> of its result go. \<^verbatim>\<open>getRpcUrl\<close> raises for a chain without a
  configured endpoint, and so do \<^verbatim>\<open>getClient\<close> and the fetch; \<open>env\<close> is
  \<^verbatim>\<open>process.env\<close>, where an unset or empty variable gives the default endpoint.
\<close>

datatype MetadataError = NoRpcUrlConfigured int

definition envOr :: "(string \<Rightarrow> string option) \<Rightarrow> string \<Rightarrow> string \<Rightarrow> string" where
  "envOr env var fallback =
     (case env var of None \<Rightarrow> fallback | Some v \<Rightarrow> if v = [] then fallback else v)"

definition getRpcUrl :: "(string \<Rightarrow> string option) \<Rightarrow> int \<Rightarrow> MetadataError + string" where
  "getRpcUrl env chain =
    (if chain = 1 then Inr (envOr env ''ENVIO_MAINNET_RPC_URL'' ''https://eth.drpc.org'')
     else if chain = 42161 then Inr (envOr env ''ENVIO_ARBITRUM_RPC_URL'' ''https://arbitrum.drpc.org'')
     else if chain = 10 then Inr (envOr env ''ENVIO_OPTIMISM_RPC_URL'' ''https://optimism.drpc.org'')
     else if chain = 8453 then Inr (envOr env ''ENVIO_BASE_RPC_URL'' ''https://base.drpc.org'')
     else if chain = 137 then Inr (envOr env ''ENVIO_POLYGON_RPC_URL'' ''https://polygon.drpc.org'')
     else if chain = 43114 then Inr (envOr env ''ENVIO_AVALANCHE_RPC_URL'' ''https://avalanche.drpc.org'')
     else if chain = 56 then Inr (envOr env ''ENVIO_BSC_RPC_URL'' ''https://bsc.drpc.org'')
     else if chain = 81457 then Inr (envOr env ''ENVIO_BLAST_RPC_URL'' ''https://blast.drpc.org'')
     else if chain = 7777777 then Inr (envOr env ''ENVIO_ZORA_RPC_URL'' ''https://zora.drpc.org'')
     else if chain = 1868 then Inr (envOr env ''ENVIO_SONIEUM_RPC_URL'' ''https://sonieum.drpc.org'')
     else if chain = 130 then Inr (envOr env ''ENVIO_UNICHAIN_RPC_URL'' ''https://unichain.drpc.org'')
     else if chain = 57073 then Inr (envOr env ''ENVIO_INK_RPC_URL'' ''https://ink.drpc.org'')
     else if chain = 480 then Inr (envOr env ''ENVIO_WORLDCHAIN_RPC_URL'' ''https://worldchain.drpc.org'')
     else Inl (NoRpcUrlConfigured chain))"

text \<open>
  \<^verbatim>\<open>contract.read.decimals().catch(() => 18)\<close>: the outcome of the on-chain read is
  \<open>None\<close> when the read fails. The ABI declares \<^verbatim>\<open>decimals\<close> as \<^verbatim>\<open>uint8\<close>, which the
  client decodes as a JavaScript number, as is the default 18; so
  \<^verbatim>\<open>typeof decimalsResult === "number"\<close> holds, and what is left of the returned
  \<open>decimals\<close> is the comparison with 50.
\<close>

definition decimalsPromise :: "nat option \<Rightarrow> nat" where
  "decimalsPromise readOutcome = (case readOutcome of None \<Rightarrow> 18 | Some d \<Rightarrow> d)"

definition fetchTokenMetadataMulticall_decimals ::
  "(string \<Rightarrow> string option) \<Rightarrow> int \<Rightarrow> nat option \<Rightarrow> MetadataError + nat" where
  "fetchTokenMetadataMulticall_decimals env chain readOutcome =
    (case getRpcUrl env chain of
       Inl e \<Rightarrow> Inl e
     | Inr client \<Rightarrow>
        (let decimalsResult = decimalsPromise readOutcome
         in Inr (if decimalsResult \<le> 50 then decimalsResult else 18)))"

text \<open>\<^verbatim>\<open>toLowerCase\<close> on the ASCII letters of an address.\<close>

definition toLowerCase :: "string \<Rightarrow> string" where
  "toLowerCase str =
     map (\<lambda>c. if 65 \<le> (of_char c :: nat) \<and> (of_char c :: nat) \<le> 90
              then char_of (of_char c + 32 :: nat) else c) str"

definition getTokenMetadata_decimals ::
  "ChainConfig \<Rightarrow> (string \<Rightarrow> string option) \<Rightarrow> string \<Rightarrow> int \<Rightarrow> nat option \<Rightarrow> MetadataError + nat" where
  "getTokenMetadata_decimals chainConfig env addr chain readOutcome =
    (if toLowerCase addr = toLowerCase ADDRESS_ZERO
     then Inr (NativeTokenDetails_decimals (nativeTokenDetails chainConfig))
     else
       (case find (\<lambda>t. toLowerCase (TokenOverride_address t) = toLowerCase addr)
               (tokenOverrides chainConfig) of
          Some tokenOverride \<Rightarrow> Inr (TokenOverride_decimals tokenOverride)
        | None \<Rightarrow> fetchTokenMetadataMulticall_decimals env chain readOutcome))"

section \<open>Notions used in the statements\<close>

text \<open>The swap records are only written by the handlers; this reads one back.\<close>

definition Swap_get :: "LoaderContext \<Rightarrow> ChainId \<times> int \<times> int \<Rightarrow> Swap option" where
  "Swap_get ctx k = lookup Swap_id k (Swaps ctx)"

text \<open>
  The tick record \<open>updateTicks\<close> starts from: the stored one, or the one it creates.
\<close>

definition loadTick ::
  "LoaderContext \<Rightarrow> PoolManager_ModifyLiquidity_event \<Rightarrow> PoolKey \<Rightarrow> int \<Rightarrow> Tick" where
  "loadTick ctx event poolId tickIndex =
     (case Tick_get ctx (poolId, tickIndex) of
        None \<Rightarrow> createInitialTick (poolId, tickIndex) tickIndex poolId (event_chainId event)
                 (event_block_timestamp event) (event_block_number event)
      | Some t \<Rightarrow> t)"

text \<open>
  The native price the handlers compute with: the price of the bundle stored when the
  event arrives, and 0 when there is none (the swap handler's default bundle).
\<close>

definition loadedEthPriceUSD :: "LoaderContext \<Rightarrow> ChainId \<Rightarrow> rat" where
  "loadedEthPriceUSD ctx chain =
     (case Bundle_get ctx chain of None \<Rightarrow> 0 | Some b \<Rightarrow> Bundle_ethPriceUSD b)"

text \<open>
  A swap is processed (not skipped) when the manager, the pool and both tokens are
  stored, the pool is not excluded and the run is not a preload.
\<close>

definition SwapProcessed ::
  "Utils \<Rightarrow> LoaderContext \<Rightarrow> PoolManager_Swap_event \<Rightarrow> PoolManager \<Rightarrow> Pool \<Rightarrow> Token \<Rightarrow> Token \<Rightarrow> bool" where
  "SwapProcessed utils ctx event poolManager pool token0 token1 \<longleftrightarrow>
     PoolManager_get ctx (event_chainId event, event_srcAddress event) = Some poolManager
     \<and> Pool_get ctx (event_chainId event, Swap_params_id event) = Some pool
     \<and> Token_get ctx (Pool_token0 pool) = Some token0
     \<and> Token_get ctx (Pool_token1 pool) = Some token1
     \<and> Swap_params_id event \<notin> set (poolsToSkip (getChainConfig utils (event_chainId event)))
     \<and> \<not> isPreload ctx"

text \<open>
  A liquidity change is processed when, in addition, the bundle is stored.
\<close>

definition ModifyLiquidityProcessed ::
  "Utils \<Rightarrow> LoaderContext \<Rightarrow> PoolManager_ModifyLiquidity_event \<Rightarrow> PoolManager \<Rightarrow> Pool \<Rightarrow> Token
     \<Rightarrow> Token \<Rightarrow> Bundle \<Rightarrow> bool" where
  "ModifyLiquidityProcessed utils ctx event poolManager pool token0 token1 bundle \<longleftrightarrow>
     PoolManager_get ctx (event_chainId event, event_srcAddress event) = Some poolManager
     \<and> Pool_get ctx (event_chainId event, ModifyLiquidity_params_id event) = Some pool
     \<and> Token_get ctx (Pool_token0 pool) = Some token0
     \<and> Token_get ctx (Pool_token1 pool) = Some token1
     \<and> Bundle_get ctx (event_chainId event) = Some bundle
     \<and> ModifyLiquidity_params_id event
          \<notin> set (poolsToSkip (getChainConfig utils (event_chainId event)))
     \<and> \<not> isPreload ctx"

text \<open>
  What a processed swap writes, in terms of what was stored: the pool, the manager (of
  the second write) and the bundle, from the pool, the manager and the tokens as
  loaded. The tokens written are \<open>swap_token\<close> of the loaded ones.
\<close>

definition swap_writtenPool ::
  "Utils \<Rightarrow> LoaderContext \<Rightarrow> PoolManager_Swap_event \<Rightarrow> Pool \<Rightarrow> Token \<Rightarrow> Token \<Rightarrow> Pool" where
  "swap_writtenPool utils ctx event pool token0 token1 =
     swap_pool utils ctx event (getChainConfig utils (event_chainId event)) pool
       (swap_bundle (Bundle_get ctx (event_chainId event)) event)
       (swap_token utils ctx (getChainConfig utils (event_chainId event)) token0)
       (swap_token utils ctx (getChainConfig utils (event_chainId event)) token1)"

definition swap_writtenManager ::
  "Utils \<Rightarrow> LoaderContext \<Rightarrow> PoolManager_Swap_event \<Rightarrow> PoolManager \<Rightarrow> Pool \<Rightarrow> Token \<Rightarrow> Token
     \<Rightarrow> PoolManager" where
  "swap_writtenManager utils ctx event poolManager pool token0 token1 =
     swap_poolManagerCounted utils ctx event (getChainConfig utils (event_chainId event))
       poolManager pool
       (swap_bundle (Bundle_get ctx (event_chainId event)) event)
       (swap_token utils ctx (getChainConfig utils (event_chainId event)) token0)
       (swap_token utils ctx (getChainConfig utils (event_chainId event)) token1)
       (Pool_hooks pool \<noteq> ADDRESS_ZERO)"

definition swap_writtenBundle :: "Utils \<Rightarrow> LoaderContext \<Rightarrow> PoolManager_Swap_event \<Rightarrow> Bundle" where
  "swap_writtenBundle utils ctx event =
     (swap_bundle (Bundle_get ctx (event_chainId event)) event)
       \<lparr>Bundle_ethPriceUSD :=
          getNativePriceInUSD utils ctx (event_chainId event)
            (stablecoinWrappedNativePoolId (getChainConfig utils (event_chainId event)))
            (stablecoinIsToken0 (getChainConfig utils (event_chainId event)))\<rparr>"

text \<open>The sums of the pools' TVL fields over the pools of a chain.\<close>

definition poolsOfChain :: "LoaderContext \<Rightarrow> ChainId \<Rightarrow> Pool list" where
  "poolsOfChain ctx chain = filter (\<lambda>p. fst (Pool_id p) = chain) (Pools ctx)"

definition poolsTotalValueLockedETH :: "LoaderContext \<Rightarrow> ChainId \<Rightarrow> rat" where
  "poolsTotalValueLockedETH ctx chain = sum_list (map Pool_totalValueLockedETH (poolsOfChain ctx chain))"

definition poolsTotalValueLockedUSD :: "LoaderContext \<Rightarrow> ChainId \<Rightarrow> rat" where
  "poolsTotalValueLockedUSD ctx chain = sum_list (map Pool_totalValueLockedUSD (poolsOfChain ctx chain))"

text \<open>
  The manager of a chain, when stored, holds the sum of its pools' native TVL;
  respectively of their USD TVL.
\<close>

definition managerMatchesPoolsETH :: "LoaderContext \<Rightarrow> ChainId \<Rightarrow> string \<Rightarrow> bool" where
  "managerMatchesPoolsETH ctx chain manager =
     (case PoolManager_get ctx (chain, manager) of
        None \<Rightarrow> True
      | Some m \<Rightarrow> PoolManager_totalValueLockedETH m = poolsTotalValueLockedETH ctx chain)"

definition managerMatchesPoolsUSD :: "LoaderContext \<Rightarrow> ChainId \<Rightarrow> string \<Rightarrow> bool" where
  "managerMatchesPoolsUSD ctx chain manager =
     (case PoolManager_get ctx (chain, manager) of
        None \<Rightarrow> True
      | Some m \<Rightarrow> PoolManager_totalValueLockedUSD m = poolsTotalValueLockedUSD ctx chain)"

text \<open>The chain and the emitting contract of an event.\<close>

fun eventLogChainId :: "EventLog \<Rightarrow> ChainId" where
  "eventLogChainId (SwapLog event) = event_chainId event"
| "eventLogChainId (ModifyLiquidityLog event) = event_chainId event"

fun eventLogSrcAddress :: "EventLog \<Rightarrow> string" where
  "eventLogSrcAddress (SwapLog event) = event_srcAddress event"
| "eventLogSrcAddress (ModifyLiquidityLog event) = event_srcAddress event"

section \<open>Example data\<close>

text \<open>
  A chain with one manager, two pools over the same pair of tokens (a 6-decimal and an
  18-decimal one) and a bundle; helpers that answer with fixed values; and events on
  that chain. The stored figures are consistent: pool A holds 10 and 5 units at a
  native price of 1 each, the bundle price is 2000, pool B is empty, and the manager
  holds the sums.
\<close>

definition exampleConfig :: ChainConfig where
  "exampleConfig =
     \<lparr>poolsToSkip = [''0xskipped''],
      wrappedNativeAddress = ''0xweth'',
      stablecoinAddresses = [''0xusdc''],
      minimumNativeLocked = 1,
      stablecoinWrappedNativePoolId = ''0xref'',
      stablecoinIsToken0 = True,
      nativeTokenDetails =
        \<lparr>NativeTokenDetails_symbol = ''ETH'', NativeTokenDetails_name = ''Ether'',
         NativeTokenDetails_decimals = 18\<rparr>,
      whitelistTokens = [''0xweth'', ''0xusdc''],
      tokenOverrides =
        [\<lparr>TokenOverride_address = ''0xAbC1'', TokenOverride_symbol = ''OVR'',
          TokenOverride_name = ''Override'', TokenOverride_decimals = 9\<rparr>]\<rparr>"

definition exampleUtils :: "rat \<Rightarrow> rat \<Rightarrow> int \<Rightarrow> int \<Rightarrow> Utils" where
  "exampleUtils derived native raw0 raw1 =
     \<lparr>getChainConfig = (\<lambda>_. exampleConfig),
      findNativePerToken = (\<lambda>_ _ _ _ _. derived),
      getNativePriceInUSD = (\<lambda>_ _ _ _. native),
      sqrtPriceX96ToTokenPrices = (\<lambda>_ _ _ _. (0, 0)),
      getTrackedAmountUSD = (\<lambda>_ _ _ _ _ _ _. 0),
      getAmount0 = (\<lambda>_ _ _ _ _. raw0),
      getAmount1 = (\<lambda>_ _ _ _ _. raw1)\<rparr>"

definition exampleToken0 :: Token where
  "exampleToken0 =
     \<lparr>Token_id = ''1_0xusdc'', Token_decimals = 6, Token_derivedETH = 1,
      Token_totalValueLocked = 10\<rparr>"

definition exampleToken1 :: Token where
  "exampleToken1 =
     \<lparr>Token_id = ''1_0xweth'', Token_decimals = 18, Token_derivedETH = 1,
      Token_totalValueLocked = 5\<rparr>"

definition examplePool :: "string \<Rightarrow> rat \<Rightarrow> rat \<Rightarrow> rat \<Rightarrow> rat \<Rightarrow> Pool" where
  "examplePool poolId tvl0 tvl1 tvlETH tvlUSD =
     \<lparr>Pool_id = (1, poolId), Pool_token0 = ''1_0xusdc'', Pool_token1 = ''1_0xweth'',
      Pool_hooks = ADDRESS_ZERO, Pool_feeTier = 3000, Pool_txCount = 0,
      Pool_sqrtPrice = None, Pool_tick = Some 0, Pool_token0Price = 0, Pool_token1Price = 0,
      Pool_liquidity = 500, Pool_totalValueLockedToken0 = tvl0,
      Pool_totalValueLockedToken1 = tvl1, Pool_totalValueLockedETH = tvlETH,
      Pool_totalValueLockedUSD = tvlUSD, Pool_volumeToken0 = 0, Pool_volumeToken1 = 0,
      Pool_volumeUSD = 0, Pool_untrackedVolumeUSD = 0, Pool_feesUSD = 0,
      Pool_feesUSDUntracked = 0, Pool_collectedFeesToken0 = 0, Pool_collectedFeesToken1 = 0,
      Pool_collectedFeesUSD = 0\<rparr>"

definition exampleManager :: PoolManager where
  "exampleManager =
     \<lparr>PoolManager_id = (1, ''0xmanager''), PoolManager_txCount = 0,
      PoolManager_totalVolumeETH = 0, PoolManager_totalVolumeUSD = 0,
      PoolManager_untrackedVolumeUSD = 0, PoolManager_totalFeesETH = 0,
      PoolManager_totalFeesUSD = 0, PoolManager_totalValueLockedETH = 15,
      PoolManager_totalValueLockedUSD = 30000, PoolManager_numberOfSwaps = 0,
      PoolManager_hookedSwaps = 0\<rparr>"

definition exampleContext :: LoaderContext where
  "exampleContext =
     \<lparr>isPreload = False,
      Bundles = [\<lparr>Bundle_id = 1, Bundle_ethPriceUSD = 2000\<rparr>],
      Tokens = [exampleToken0, exampleToken1],
      Pools = [examplePool ''0xpoolA'' 10 5 15 30000, examplePool ''0xpoolB'' 0 0 0 0],
      PoolManagers = [exampleManager],
      HookStatsTable = [], Ticks = [], Swaps = [], ModifyLiquidities = [], writes = []\<rparr>"

definition exampleSwap :: "string \<Rightarrow> int \<Rightarrow> int \<Rightarrow> PoolManager_Swap_event" where
  "exampleSwap poolId raw0 raw1 =
     \<lparr>event_chainId = 1, event_srcAddress = ''0xmanager'', event_block_number = 100,
      event_block_timestamp = 1700000000, event_logIndex = 7,
      event_transaction_hash = ''0xhash'', event_transaction_from = Some ''0xtrader'',
      Swap_params_id = poolId, Swap_params_sender = ''0xrouter'',
      Swap_params_amount0 = raw0, Swap_params_amount1 = raw1,
      Swap_params_sqrtPriceX96 = 79228162514264337593543950336, Swap_params_tick = 0,
      Swap_params_liquidity = 500\<rparr>"

definition exampleModifyLiquidity ::
  "string \<Rightarrow> int \<Rightarrow> int \<Rightarrow> int \<Rightarrow> PoolManager_ModifyLiquidity_event" where
  "exampleModifyLiquidity poolId lower upper delta =
     \<lparr>event_chainId = 1, event_srcAddress = ''0xmanager'', event_block_number = 101,
      event_block_timestamp = 1700000012, event_logIndex = 3,
      event_transaction_hash = ''0xhash2'', event_transaction_from = Some ''0xprovider'',
      ModifyLiquidity_params_id = poolId, ModifyLiquidity_params_sender = ''0xposm'',
      ModifyLiquidity_params_tickLower = lower, ModifyLiquidity_params_tickUpper = upper,
      ModifyLiquidity_params_liquidityDelta = delta\<rparr>"

section \<open>Tables, frames and the parts of the handlers\<close>

text \<open>The rounding of \<^verbatim>\<open>div\<close>: exact when 20 places suffice, to the nearest otherwise.\<close>

lemma BigDecimal_div_examples:
  "BigDecimal_div 3 2000 = 3 / 2000"
  "BigDecimal_div 1 3 = 33333333333333333333 / 10 ^ 20"
  "BigDecimal_div 2 3 = 66666666666666666667 / 10 ^ 20"
  "BigDecimal_div (- 2) 3 = - 66666666666666666667 / 10 ^ 20"
  "BigDecimal_div 0 2 = 0"
  by code_simp+

lemma lookup_upsert:
  "lookup key k (upsert key e es) = (if k = key e then Some e else lookup key k es)"
  by (induction es) (auto simp: lookup_def)

lemma lookup_Some_key: "lookup key k es = Some e \<Longrightarrow> key e = k"
  by (auto simp: lookup_def find_Some_iff)

lemmas get_defs = Bundle_get_def Token_get_def Pool_get_def PoolManager_get_def
  HookStats_get_def Tick_get_def Swap_get_def

lemmas set_defs = Bundle_set_def Token_set_def Pool_set_def PoolManager_set_def
  HookStats_set_def Tick_set_def Swap_set_def ModifyLiquidity_set_def

lemma Tick_get_updateTicks_lower:
  assumes "\<not> isPreload ctx"
      and "ModifyLiquidity_params_tickLower event \<noteq> ModifyLiquidity_params_tickUpper event"
  shows "Tick_get (updateTicks ctx event poolId) (poolId, ModifyLiquidity_params_tickLower event)
       = Some ((loadTick ctx event poolId (ModifyLiquidity_params_tickLower event))
           \<lparr>Tick_liquidityGross :=
              Tick_liquidityGross (loadTick ctx event poolId (ModifyLiquidity_params_tickLower event))
              + ModifyLiquidity_params_liquidityDelta event,
            Tick_liquidityNet :=
              Tick_liquidityNet (loadTick ctx event poolId (ModifyLiquidity_params_tickLower event))
              + ModifyLiquidity_params_liquidityDelta event\<rparr>)"
  using assms
  by (auto simp: updateTicks_def loadTick_def Let_def get_defs set_defs lookup_upsert
        createInitialTick_def dest: lookup_Some_key split: option.splits)

lemma Tick_get_updateTicks_upper:
  assumes "\<not> isPreload ctx"
  shows "Tick_get (updateTicks ctx event poolId) (poolId, ModifyLiquidity_params_tickUpper event)
       = Some ((loadTick ctx event poolId (ModifyLiquidity_params_tickUpper event))
           \<lparr>Tick_liquidityGross :=
              Tick_liquidityGross (loadTick ctx event poolId (ModifyLiquidity_params_tickUpper event))
              + ModifyLiquidity_params_liquidityDelta event,
            Tick_liquidityNet :=
              Tick_liquidityNet (loadTick ctx event poolId (ModifyLiquidity_params_tickUpper event))
              - ModifyLiquidity_params_liquidityDelta event\<rparr>)"
  using assms
  by (auto simp: updateTicks_def loadTick_def Let_def get_defs set_defs lookup_upsert
        createInitialTick_def dest: lookup_Some_key split: option.splits)

lemma isPreload_updateTicks: "isPreload (updateTicks ctx event poolId) = isPreload ctx"
  by (simp add: updateTicks_def Let_def set_defs)


lemma loadTick_Some: "Tick_get ctx (poolId, i) = Some t \<Longrightarrow> loadTick ctx event poolId i = t"
  by (simp add: loadTick_def)

lemma updateTicks_round_trip_aux:
  assumes np: "\<not> isPreload ctx"
      and lo: "ModifyLiquidity_params_tickLower event' = ModifyLiquidity_params_tickLower event"
      and up: "ModifyLiquidity_params_tickUpper event' = ModifyLiquidity_params_tickUpper event"
      and neg: "ModifyLiquidity_params_liquidityDelta event' = - ModifyLiquidity_params_liquidityDelta event"
  shows "Tick_get (updateTicks (updateTicks ctx event poolId) event' poolId)
           (poolId, ModifyLiquidity_params_tickLower event)
         = Some (loadTick ctx event poolId (ModifyLiquidity_params_tickLower event))"
    and "Tick_get (updateTicks (updateTicks ctx event poolId) event' poolId)
           (poolId, ModifyLiquidity_params_tickUpper event)
         = Some (loadTick ctx event poolId (ModifyLiquidity_params_tickUpper event))"
proof -
  let ?ctx1 = "updateTicks ctx event poolId"
  have np1: "\<not> isPreload ?ctx1" using np by (simp add: isPreload_updateTicks)
  have U1: "Tick_get ?ctx1 (poolId, ModifyLiquidity_params_tickUpper event') = Some
      ((loadTick ctx event poolId (ModifyLiquidity_params_tickUpper event))
           \<lparr>Tick_liquidityGross :=
              Tick_liquidityGross (loadTick ctx event poolId (ModifyLiquidity_params_tickUpper event))
              + ModifyLiquidity_params_liquidityDelta event,
            Tick_liquidityNet :=
              Tick_liquidityNet (loadTick ctx event poolId (ModifyLiquidity_params_tickUpper event))
              - ModifyLiquidity_params_liquidityDelta event\<rparr>)"
    using Tick_get_updateTicks_upper [OF np, of event poolId] by (simp add: up)
  show "Tick_get (updateTicks ?ctx1 event' poolId) (poolId, ModifyLiquidity_params_tickUpper event)
         = Some (loadTick ctx event poolId (ModifyLiquidity_params_tickUpper event))"
    using Tick_get_updateTicks_upper [OF np1, of event' poolId] loadTick_Some [OF U1, of event']
    by (simp add: up neg)
  show "Tick_get (updateTicks ?ctx1 event' poolId) (poolId, ModifyLiquidity_params_tickLower event)
         = Some (loadTick ctx event poolId (ModifyLiquidity_params_tickLower event))"
  proof (cases "ModifyLiquidity_params_tickLower event = ModifyLiquidity_params_tickUpper event")
    case True
    then show ?thesis
      using Tick_get_updateTicks_upper [OF np1, of event' poolId] loadTick_Some [OF U1, of event']
      by (simp add: up neg)
  next
    case False
    have L1: "Tick_get ?ctx1 (poolId, ModifyLiquidity_params_tickLower event') = Some
      ((loadTick ctx event poolId (ModifyLiquidity_params_tickLower event))
           \<lparr>Tick_liquidityGross :=
              Tick_liquidityGross (loadTick ctx event poolId (ModifyLiquidity_params_tickLower event))
              + ModifyLiquidity_params_liquidityDelta event,
            Tick_liquidityNet :=
              Tick_liquidityNet (loadTick ctx event poolId (ModifyLiquidity_params_tickLower event))
              + ModifyLiquidity_params_liquidityDelta event\<rparr>)"
      using Tick_get_updateTicks_lower [OF np False, of poolId] by (simp add: lo)
    from False have ne': "ModifyLiquidity_params_tickLower event' \<noteq> ModifyLiquidity_params_tickUpper event'"
      by (simp add: lo up)
    show ?thesis
      using Tick_get_updateTicks_lower [OF np1 ne', of poolId] loadTick_Some [OF L1, of event']
      by (simp add: lo neg)
  qed
qed


lemma ModifyLiquidityHandler_processed:
  assumes "ModifyLiquidityProcessed utils ctx event poolManager pool token0 token1 bundle"
  shows "ModifyLiquidityHandler utils ctx event
       = Inr (ModifyLiquidityCommit utils (updateTicks ctx event (Pool_id pool)) event pool
                token0 token1 bundle poolManager)"
  using assms
  by (simp add: ModifyLiquidityProcessed_def ModifyLiquidityHandler_def Let_def isPreload_updateTicks)

lemma updateTicks_frame:
  "Pools (updateTicks ctx event poolId) = Pools ctx"
  "Tokens (updateTicks ctx event poolId) = Tokens ctx"
  "Bundles (updateTicks ctx event poolId) = Bundles ctx"
  "PoolManagers (updateTicks ctx event poolId) = PoolManagers ctx"
  "HookStatsTable (updateTicks ctx event poolId) = HookStatsTable ctx"
  "Swaps (updateTicks ctx event poolId) = Swaps ctx"
  by (simp_all add: updateTicks_def Let_def set_defs)

lemma liquidity_updateHookStats_frame:
  "Pools (liquidity_updateHookStats utils ctx event pool token0 token1 bundle) = Pools ctx"
  "Tokens (liquidity_updateHookStats utils ctx event pool token0 token1 bundle) = Tokens ctx"
  "Bundles (liquidity_updateHookStats utils ctx event pool token0 token1 bundle) = Bundles ctx"
  "PoolManagers (liquidity_updateHookStats utils ctx event pool token0 token1 bundle) = PoolManagers ctx"
  "Ticks (liquidity_updateHookStats utils ctx event pool token0 token1 bundle) = Ticks ctx"
  "Swaps (liquidity_updateHookStats utils ctx event pool token0 token1 bundle) = Swaps ctx"
  "isPreload (liquidity_updateHookStats utils ctx event pool token0 token1 bundle) = isPreload ctx"
  by (simp_all add: liquidity_updateHookStats_def Let_def set_defs split: option.split)

lemma ModifyLiquidityCommit_tables:
  "Pools (ModifyLiquidityCommit utils ctx event pool token0 token1 bundle poolManager)
     = upsert Pool_id (liquidity_pool utils event pool token0 token1 bundle) (Pools ctx)"
  "Tokens (ModifyLiquidityCommit utils ctx event pool token0 token1 bundle poolManager)
     = upsert Token_id (liquidity_token1 utils event pool token1)
         (upsert Token_id (liquidity_token0 utils event pool token0) (Tokens ctx))"
  "PoolManagers (ModifyLiquidityCommit utils ctx event pool token0 token1 bundle poolManager)
     = upsert PoolManager_id (liquidity_poolManager utils event pool token0 token1 bundle poolManager)
         (PoolManagers ctx)"
  "Bundles (ModifyLiquidityCommit utils ctx event pool token0 token1 bundle poolManager) = Bundles ctx"
  "Ticks (ModifyLiquidityCommit utils ctx event pool token0 token1 bundle poolManager) = Ticks ctx"
  "Swaps (ModifyLiquidityCommit utils ctx event pool token0 token1 bundle poolManager) = Swaps ctx"
  "isPreload (ModifyLiquidityCommit utils ctx event pool token0 token1 bundle poolManager) = isPreload ctx"
  by (simp_all add: ModifyLiquidityCommit_def Let_def set_defs liquidity_updateHookStats_frame)

lemma liquidity_poolBalances_simps:
  "Pool_id (liquidity_poolBalances utils event pool token0 token1) = Pool_id pool"
  "Pool_token0 (liquidity_poolBalances utils event pool token0 token1) = Pool_token0 pool"
  "Pool_token1 (liquidity_poolBalances utils event pool token0 token1) = Pool_token1 pool"
  "Pool_totalValueLockedETH (liquidity_poolBalances utils event pool token0 token1)
     = Pool_totalValueLockedETH pool"
  "Pool_totalValueLockedUSD (liquidity_poolBalances utils event pool token0 token1)
     = Pool_totalValueLockedUSD pool"
  "Pool_totalValueLockedToken0 (liquidity_poolBalances utils event pool token0 token1)
     = Pool_totalValueLockedToken0 pool + liquidity_amount0 utils event pool token0"
  "Pool_totalValueLockedToken1 (liquidity_poolBalances utils event pool token0 token1)
     = Pool_totalValueLockedToken1 pool + liquidity_amount1 utils event pool token1"
  "Pool_liquidity (liquidity_poolBalances utils event pool token0 token1)
     = (if ModifyLiquidity_params_tickLower event \<le> liquidity_currTick pool
           \<and> liquidity_currTick pool < ModifyLiquidity_params_tickUpper event
        then Pool_liquidity pool + ModifyLiquidity_params_liquidityDelta event
        else Pool_liquidity pool)"
  by (simp_all add: liquidity_poolBalances_def liquidity_currTick_def Let_def)

lemma liquidity_token_simps:
  "Token_id (liquidity_token0 utils event pool token0) = Token_id token0"
  "Token_id (liquidity_token1 utils event pool token1) = Token_id token1"
  "Token_derivedETH (liquidity_token0 utils event pool token0) = Token_derivedETH token0"
  "Token_derivedETH (liquidity_token1 utils event pool token1) = Token_derivedETH token1"
  by (simp_all add: liquidity_token0_def liquidity_token1_def)

lemma liquidity_pool_simps:
  "Pool_id (liquidity_pool utils event pool token0 token1 bundle) = Pool_id pool"
  "Pool_token0 (liquidity_pool utils event pool token0 token1 bundle) = Pool_token0 pool"
  "Pool_token1 (liquidity_pool utils event pool token0 token1 bundle) = Pool_token1 pool"
  "Pool_totalValueLockedToken0 (liquidity_pool utils event pool token0 token1 bundle)
     = Pool_totalValueLockedToken0 pool + liquidity_amount0 utils event pool token0"
  "Pool_totalValueLockedToken1 (liquidity_pool utils event pool token0 token1 bundle)
     = Pool_totalValueLockedToken1 pool + liquidity_amount1 utils event pool token1"
  "Pool_liquidity (liquidity_pool utils event pool token0 token1 bundle)
     = (if ModifyLiquidity_params_tickLower event \<le> liquidity_currTick pool
           \<and> liquidity_currTick pool < ModifyLiquidity_params_tickUpper event
        then Pool_liquidity pool + ModifyLiquidity_params_liquidityDelta event
        else Pool_liquidity pool)"
  "Pool_totalValueLockedETH (liquidity_pool utils event pool token0 token1 bundle)
     = (Pool_totalValueLockedToken0 pool + liquidity_amount0 utils event pool token0)
         * Token_derivedETH token0
       + (Pool_totalValueLockedToken1 pool + liquidity_amount1 utils event pool token1)
         * Token_derivedETH token1"
  "Pool_totalValueLockedUSD (liquidity_pool utils event pool token0 token1 bundle)
     = Pool_totalValueLockedETH (liquidity_pool utils event pool token0 token1 bundle)
       * Bundle_ethPriceUSD bundle"
  by (simp_all add: liquidity_pool_def Let_def liquidity_poolBalances_simps liquidity_token_simps)

lemma liquidity_poolManager_simps:
  "PoolManager_id (liquidity_poolManager utils event pool token0 token1 bundle poolManager)
     = PoolManager_id poolManager"
  "PoolManager_totalValueLockedETH (liquidity_poolManager utils event pool token0 token1 bundle poolManager)
     = PoolManager_totalValueLockedETH poolManager - Pool_totalValueLockedETH pool
       + Pool_totalValueLockedETH (liquidity_pool utils event pool token0 token1 bundle)"
  "PoolManager_totalValueLockedUSD (liquidity_poolManager utils event pool token0 token1 bundle poolManager)
     = PoolManager_totalValueLockedETH
         (liquidity_poolManager utils event pool token0 token1 bundle poolManager)
       * Bundle_ethPriceUSD bundle"
  by (simp_all add: liquidity_poolManager_def Let_def liquidity_poolBalances_simps)


lemma SwapHandler_processed:
  assumes "SwapProcessed utils ctx event poolManager pool token0 token1"
  shows "SwapHandler utils ctx event
       = SwapCommit utils ctx event (getChainConfig utils (event_chainId event)) poolManager pool
           (swap_bundle (Bundle_get ctx (event_chainId event)) event)
           (swap_token utils ctx (getChainConfig utils (event_chainId event)) token0)
           (swap_token utils ctx (getChainConfig utils (event_chainId event)) token1)
           (if Pool_hooks pool \<noteq> ADDRESS_ZERO
            then HookStats_get ctx (event_chainId event, Pool_hooks pool) else None)
           (Pool_hooks pool \<noteq> ADDRESS_ZERO)
           (getNativePriceInUSD utils ctx (event_chainId event)
              (stablecoinWrappedNativePoolId (getChainConfig utils (event_chainId event)))
              (stablecoinIsToken0 (getChainConfig utils (event_chainId event))))"
  using assms by (simp add: SwapProcessed_def SwapHandler_def Let_def)

lemma SwapHandler_cases:
  "SwapHandler utils ctx event = ctx
   \<or> (\<exists>poolManager pool token0 token1. SwapProcessed utils ctx event poolManager pool token0 token1)"
  by (auto simp: SwapProcessed_def SwapHandler_def Let_def split: option.splits)

lemma ModifyLiquidityHandler_cases:
  "ModifyLiquidityHandler utils ctx event = Inr ctx
   \<or> ModifyLiquidityHandler utils ctx event = Inl (EntityNotFound PoolManagerEntity, ctx)
   \<or> (\<exists>poolManager pool token0 token1 bundle.
        ModifyLiquidityProcessed utils ctx event poolManager pool token0 token1 bundle)"
  by (auto simp: ModifyLiquidityProcessed_def ModifyLiquidityHandler_def Let_def updateTicks_def
      split: option.splits)

lemma SwapCommit_tables:
  "Pools (SwapCommit utils ctx event chainConfig poolManager pool bundle token0 token1
            poolHookStats isHookedPool ethPriceUSD)
     = upsert Pool_id (swap_pool utils ctx event chainConfig pool bundle token0 token1) (Pools ctx)"
  "Tokens (SwapCommit utils ctx event chainConfig poolManager pool bundle token0 token1
            poolHookStats isHookedPool ethPriceUSD)
     = upsert Token_id token1 (upsert Token_id token0 (Tokens ctx))"
  "PoolManagers (SwapCommit utils ctx event chainConfig poolManager pool bundle token0 token1
            poolHookStats isHookedPool ethPriceUSD)
     = upsert PoolManager_id
         (swap_poolManagerCounted utils ctx event chainConfig poolManager pool bundle token0 token1
            isHookedPool)
         (upsert PoolManager_id
            (swap_poolManager utils ctx event chainConfig poolManager pool bundle token0 token1)
            (PoolManagers ctx))"
  "Bundles (SwapCommit utils ctx event chainConfig poolManager pool bundle token0 token1
            poolHookStats isHookedPool ethPriceUSD)
     = upsert Bundle_id (bundle\<lparr>Bundle_ethPriceUSD := ethPriceUSD\<rparr>) (Bundles ctx)"
  "Swaps (SwapCommit utils ctx event chainConfig poolManager pool bundle token0 token1
            poolHookStats isHookedPool ethPriceUSD)
     = upsert Swap_id (swap_entity utils ctx event chainConfig bundle token0 token1) (Swaps ctx)"
  "Ticks (SwapCommit utils ctx event chainConfig poolManager pool bundle token0 token1
            poolHookStats isHookedPool ethPriceUSD) = Ticks ctx"
  "isPreload (SwapCommit utils ctx event chainConfig poolManager pool bundle token0 token1
            poolHookStats isHookedPool ethPriceUSD) = isPreload ctx"
  by (simp_all add: SwapCommit_def Let_def set_defs split: option.split)

lemma swap_pool_simps:
  "Pool_id (swap_pool utils ctx event chainConfig pool bundle token0 token1) = Pool_id pool"
  "Pool_token0 (swap_pool utils ctx event chainConfig pool bundle token0 token1) = Pool_token0 pool"
  "Pool_token1 (swap_pool utils ctx event chainConfig pool bundle token0 token1) = Pool_token1 pool"
  "Pool_totalValueLockedToken0 (swap_pool utils ctx event chainConfig pool bundle token0 token1)
     = Pool_totalValueLockedToken0 pool + swap_amount0 event token0"
  "Pool_totalValueLockedToken1 (swap_pool utils ctx event chainConfig pool bundle token0 token1)
     = Pool_totalValueLockedToken1 pool + swap_amount1 event token1"
  "Pool_volumeToken0 (swap_pool utils ctx event chainConfig pool bundle token0 token1)
     = Pool_volumeToken0 pool + swap_amount0Abs event token0"
  "Pool_volumeToken1 (swap_pool utils ctx event chainConfig pool bundle token0 token1)
     = Pool_volumeToken1 pool + swap_amount1Abs event token1"
  "Pool_totalValueLockedETH (swap_pool utils ctx event chainConfig pool bundle token0 token1)
     = (Pool_totalValueLockedToken0 pool + swap_amount0 event token0) * Token_derivedETH token0
       + (Pool_totalValueLockedToken1 pool + swap_amount1 event token1) * Token_derivedETH token1"
  "Pool_totalValueLockedUSD (swap_pool utils ctx event chainConfig pool bundle token0 token1)
     = Pool_totalValueLockedETH (swap_pool utils ctx event chainConfig pool bundle token0 token1)
       * Bundle_ethPriceUSD bundle"
  by (simp_all add: swap_pool_def Let_def)

lemma swap_poolManager_simps:
  "PoolManager_id (swap_poolManager utils ctx event chainConfig poolManager pool bundle token0 token1)
     = PoolManager_id poolManager"
  "PoolManager_totalValueLockedETH
      (swap_poolManager utils ctx event chainConfig poolManager pool bundle token0 token1)
     = PoolManager_totalValueLockedETH poolManager - Pool_totalValueLockedETH pool
       + Pool_totalValueLockedETH (swap_pool utils ctx event chainConfig pool bundle token0 token1)"
  "PoolManager_totalValueLockedUSD
      (swap_poolManager utils ctx event chainConfig poolManager pool bundle token0 token1)
     = PoolManager_totalValueLockedETH
         (swap_poolManager utils ctx event chainConfig poolManager pool bundle token0 token1)
       * Bundle_ethPriceUSD bundle"
  by (simp_all add: swap_poolManager_def Let_def)

lemma swap_poolManagerCounted_simps:
  "PoolManager_id (swap_poolManagerCounted utils ctx event chainConfig poolManager pool bundle
       token0 token1 isHookedPool) = PoolManager_id poolManager"
  "PoolManager_totalValueLockedETH
      (swap_poolManagerCounted utils ctx event chainConfig poolManager pool bundle token0 token1
         isHookedPool)
     = PoolManager_totalValueLockedETH poolManager - Pool_totalValueLockedETH pool
       + Pool_totalValueLockedETH (swap_pool utils ctx event chainConfig pool bundle token0 token1)"
  "PoolManager_totalValueLockedUSD
      (swap_poolManagerCounted utils ctx event chainConfig poolManager pool bundle token0 token1
         isHookedPool)
     = PoolManager_totalValueLockedETH
         (swap_poolManagerCounted utils ctx event chainConfig poolManager pool bundle token0 token1
            isHookedPool)
       * Bundle_ethPriceUSD bundle"
  by (simp_all add: swap_poolManagerCounted_def Let_def swap_poolManager_simps)

lemma swap_token_simps:
  "Token_id (swap_token utils ctx chainConfig token) = Token_id token"
  "Token_decimals (swap_token utils ctx chainConfig token) = Token_decimals token"
  "Token_totalValueLocked (swap_token utils ctx chainConfig token) = Token_totalValueLocked token"
  by (simp_all add: swap_token_def)

lemma swap_bundle_price:
  "Bundle_ethPriceUSD (swap_bundle (Bundle_get ctx (event_chainId event)) event)
     = loadedEthPriceUSD ctx (event_chainId event)"
  by (simp add: swap_bundle_def loadedEthPriceUSD_def split: option.split)

lemma swap_bundle_id:
  "Bundle_id (swap_bundle (Bundle_get ctx (event_chainId event)) event) = event_chainId event"
  by (auto simp: swap_bundle_def get_defs dest: lookup_Some_key split: option.split)

lemma example_not_preload: "\<not> isPreload exampleContext"
  by (simp add: exampleContext_def)

lemma example_address:
  "toLowerCase ''0xA0b8'' \<noteq> toLowerCase ADDRESS_ZERO"
  "find (\<lambda>t. toLowerCase (TokenOverride_address t) = toLowerCase ''0xA0b8'')
      (tokenOverrides exampleConfig) = None"
  by (simp_all add: toLowerCase_def ADDRESS_ZERO_def exampleConfig_def)

section \<open>The tick ledger: round trip\<close>

text \<open>
  C4. Applying the tick-ledger update for a liquidity delta \<open>d\<close> and then for \<open>- d\<close>
  over the same tick range puts both boundary ticks back: each is again the record the
  first update started from (the stored tick, or the tick it created), so its
  \<open>liquidityGross\<close> and \<open>liquidityNet\<close> are the values before the add. This holds for
  all ticks and deltas, also when the two boundaries coincide. One application adds
  \<open>d\<close> to the upper tick's gross and subtracts it from its net liquidity, and, when
  the lower tick is another record, adds \<open>d\<close> to the lower tick's gross and net.
\<close>

theorem updateTicks_round_trip:
  assumes "\<not> isPreload ctx"
      and "ModifyLiquidity_params_tickLower event' = ModifyLiquidity_params_tickLower event"
      and "ModifyLiquidity_params_tickUpper event' = ModifyLiquidity_params_tickUpper event"
      and "ModifyLiquidity_params_liquidityDelta event' = - ModifyLiquidity_params_liquidityDelta event"
  shows "Tick_get (updateTicks (updateTicks ctx event poolId) event' poolId)
           (poolId, ModifyLiquidity_params_tickLower event)
         = Some (loadTick ctx event poolId (ModifyLiquidity_params_tickLower event))
       \<and> Tick_get (updateTicks (updateTicks ctx event poolId) event' poolId)
           (poolId, ModifyLiquidity_params_tickUpper event)
         = Some (loadTick ctx event poolId (ModifyLiquidity_params_tickUpper event))
       \<and> Tick_get (updateTicks ctx event poolId) (poolId, ModifyLiquidity_params_tickUpper event)
           = Some ((loadTick ctx event poolId (ModifyLiquidity_params_tickUpper event))
               \<lparr>Tick_liquidityGross :=
                  Tick_liquidityGross (loadTick ctx event poolId (ModifyLiquidity_params_tickUpper event))
                  + ModifyLiquidity_params_liquidityDelta event,
                Tick_liquidityNet :=
                  Tick_liquidityNet (loadTick ctx event poolId (ModifyLiquidity_params_tickUpper event))
                  - ModifyLiquidity_params_liquidityDelta event\<rparr>)
       \<and> (ModifyLiquidity_params_tickLower event \<noteq> ModifyLiquidity_params_tickUpper event \<longrightarrow>
            Tick_get (updateTicks ctx event poolId) (poolId, ModifyLiquidity_params_tickLower event)
              = Some ((loadTick ctx event poolId (ModifyLiquidity_params_tickLower event))
                  \<lparr>Tick_liquidityGross :=
                     Tick_liquidityGross (loadTick ctx event poolId (ModifyLiquidity_params_tickLower event))
                     + ModifyLiquidity_params_liquidityDelta event,
                   Tick_liquidityNet :=
                     Tick_liquidityNet (loadTick ctx event poolId (ModifyLiquidity_params_tickLower event))
                     + ModifyLiquidity_params_liquidityDelta event\<rparr>))"
  using updateTicks_round_trip_aux [OF assms, of poolId]
    Tick_get_updateTicks_lower [OF assms(1), of event poolId]
    Tick_get_updateTicks_upper [OF assms(1), of event poolId]
  by blast

theorem updateTicks_round_trip_witness:
  "\<not> isPreload exampleContext
   \<and> ModifyLiquidity_params_tickLower (exampleModifyLiquidity ''0xpoolA'' (- 60) 60 (- 1000))
       = ModifyLiquidity_params_tickLower (exampleModifyLiquidity ''0xpoolA'' (- 60) 60 1000)
   \<and> ModifyLiquidity_params_tickUpper (exampleModifyLiquidity ''0xpoolA'' (- 60) 60 (- 1000))
       = ModifyLiquidity_params_tickUpper (exampleModifyLiquidity ''0xpoolA'' (- 60) 60 1000)
   \<and> ModifyLiquidity_params_liquidityDelta (exampleModifyLiquidity ''0xpoolA'' (- 60) 60 (- 1000))
       = - ModifyLiquidity_params_liquidityDelta (exampleModifyLiquidity ''0xpoolA'' (- 60) 60 1000)
   \<and> ModifyLiquidity_params_tickLower (exampleModifyLiquidity ''0xpoolA'' (- 60) 60 1000)
       \<noteq> ModifyLiquidity_params_tickUpper (exampleModifyLiquidity ''0xpoolA'' (- 60) 60 1000)
   \<and> map_option Tick_liquidityGross
       (Tick_get (updateTicks exampleContext (exampleModifyLiquidity ''0xpoolA'' (- 60) 60 1000)
                   (1, ''0xpoolA'')) ((1, ''0xpoolA''), - 60)) = Some 1000
   \<and> map_option Tick_liquidityNet
       (Tick_get (updateTicks exampleContext (exampleModifyLiquidity ''0xpoolA'' (- 60) 60 1000)
                   (1, ''0xpoolA'')) ((1, ''0xpoolA''), 60)) = Some (- 1000)
   \<and> map_option Tick_liquidityGross
       (Tick_get (updateTicks (updateTicks exampleContext
                     (exampleModifyLiquidity ''0xpoolA'' (- 60) 60 1000) (1, ''0xpoolA''))
                   (exampleModifyLiquidity ''0xpoolA'' (- 60) 60 (- 1000)) (1, ''0xpoolA''))
          ((1, ''0xpoolA''), - 60)) = Some 0
   \<and> map_option Tick_liquidityNet
       (Tick_get (updateTicks (updateTicks exampleContext
                     (exampleModifyLiquidity ''0xpoolA'' (- 60) 60 1000) (1, ''0xpoolA''))
                   (exampleModifyLiquidity ''0xpoolA'' (- 60) 60 (- 1000)) (1, ''0xpoolA''))
          ((1, ''0xpoolA''), 60)) = Some 0"
proof -
  have h: "ModifyLiquidity_params_tickLower (exampleModifyLiquidity ''0xpoolA'' (- 60) 60 (- 1000))
       = ModifyLiquidity_params_tickLower (exampleModifyLiquidity ''0xpoolA'' (- 60) 60 1000)"
    "ModifyLiquidity_params_tickUpper (exampleModifyLiquidity ''0xpoolA'' (- 60) 60 (- 1000))
       = ModifyLiquidity_params_tickUpper (exampleModifyLiquidity ''0xpoolA'' (- 60) 60 1000)"
    "ModifyLiquidity_params_liquidityDelta (exampleModifyLiquidity ''0xpoolA'' (- 60) 60 (- 1000))
       = - ModifyLiquidity_params_liquidityDelta (exampleModifyLiquidity ''0xpoolA'' (- 60) 60 1000)"
    by (simp_all add: exampleModifyLiquidity_def)
  have t: "Tick_get exampleContext k = None" for k
    by (simp add: exampleContext_def Tick_get_def lookup_def)
  show ?thesis
    using updateTicks_round_trip [OF example_not_preload h, of "(1, ''0xpoolA'')"]
    by (simp add: example_not_preload loadTick_def t createInitialTick_def exampleModifyLiquidity_def)
qed

section \<open>Division by zero\<close>

text \<open>
  C7. \<open>safeDiv x 0\<close> is zero for every \<open>x\<close>, and for a divisor other than zero
  \<open>safeDiv a b\<close> is the exact quotient; \<open>safeDiv\<close> is a total function, it has no
  failing case.
\<close>

theorem safeDiv_total:
  "safeDiv x 0 = 0 \<and> (b \<noteq> 0 \<longrightarrow> safeDiv a b = a / b)"
  by (simp add: safeDiv_def)

theorem safeDiv_total_witness:
  "safeDiv 7 0 = 0 \<and> (4::rat) \<noteq> 0 \<and> safeDiv 3 4 = 3 / 4"
  using safeDiv_total [of 7 4 3] by simp

section \<open>Token decimals\<close>

text \<open>
  C8. For a token that is not the native token and has no override, on a chain with a
  configured endpoint, the resolver returns 18 decimals when the on-chain read fails or
  the value read is greater than 50, and the value read otherwise.
\<close>

theorem getTokenMetadata_decimals_fallback:
  assumes "toLowerCase addr \<noteq> toLowerCase ADDRESS_ZERO"
      and "find (\<lambda>t. toLowerCase (TokenOverride_address t) = toLowerCase addr)
              (tokenOverrides chainConfig) = None"
      and "getRpcUrl env chain = Inr url"
  shows "getTokenMetadata_decimals chainConfig env addr chain readOutcome
       = Inr (case readOutcome of
                None \<Rightarrow> 18
              | Some queried \<Rightarrow> if queried > 50 then 18 else queried)"
  using assms
  by (simp add: getTokenMetadata_decimals_def fetchTokenMetadataMulticall_decimals_def
        decimalsPromise_def Let_def split: option.split)

theorem getTokenMetadata_decimals_fallback_witness:
  "toLowerCase ''0xA0b8'' \<noteq> toLowerCase ADDRESS_ZERO
   \<and> find (\<lambda>t. toLowerCase (TokenOverride_address t) = toLowerCase ''0xA0b8'')
        (tokenOverrides exampleConfig) = None
   \<and> getRpcUrl (\<lambda>_. None) 1 = Inr ''https://eth.drpc.org''
   \<and> getTokenMetadata_decimals exampleConfig (\<lambda>_. None) ''0xA0b8'' 1 (Some 6) = Inr 6
   \<and> getTokenMetadata_decimals exampleConfig (\<lambda>_. None) ''0xA0b8'' 1 (Some 50) = Inr 50
   \<and> getTokenMetadata_decimals exampleConfig (\<lambda>_. None) ''0xA0b8'' 1 (Some 51) = Inr 18
   \<and> getTokenMetadata_decimals exampleConfig (\<lambda>_. None) ''0xA0b8'' 1 None = Inr 18"
proof -
  have u: "getRpcUrl (\<lambda>_. None) 1 = Inr ''https://eth.drpc.org''"
    by (simp add: getRpcUrl_def envOr_def)
  show ?thesis
    using getTokenMetadata_decimals_fallback [OF example_address u, of "Some 6"]
      getTokenMetadata_decimals_fallback [OF example_address u, of "Some 50"]
      getTokenMetadata_decimals_fallback [OF example_address u, of "Some 51"]
      getTokenMetadata_decimals_fallback [OF example_address u, of None]
      example_address u
    by simp
qed

lemma Ticks_updateTicks:
  assumes "\<not> isPreload ctx"
  shows "updateTicks ctx event poolId
       = Tick_set
           ((loadTick ctx event poolId (ModifyLiquidity_params_tickUpper event))
              \<lparr>Tick_liquidityGross :=
                 Tick_liquidityGross (loadTick ctx event poolId (ModifyLiquidity_params_tickUpper event))
                 + ModifyLiquidity_params_liquidityDelta event,
               Tick_liquidityNet :=
                 Tick_liquidityNet (loadTick ctx event poolId (ModifyLiquidity_params_tickUpper event))
                 - ModifyLiquidity_params_liquidityDelta event\<rparr>)
           (Tick_set
              ((loadTick ctx event poolId (ModifyLiquidity_params_tickLower event))
                 \<lparr>Tick_liquidityGross :=
                    Tick_liquidityGross (loadTick ctx event poolId (ModifyLiquidity_params_tickLower event))
                    + ModifyLiquidity_params_liquidityDelta event,
                  Tick_liquidityNet :=
                    Tick_liquidityNet (loadTick ctx event poolId (ModifyLiquidity_params_tickLower event))
                    + ModifyLiquidity_params_liquidityDelta event\<rparr>)
              ctx)"
  using assms by (simp add: updateTicks_def loadTick_def Let_def)

lemma Tick_id_loadTick: "Tick_id (loadTick ctx event poolId i) = (poolId, i)"
  by (auto simp: loadTick_def createInitialTick_def Tick_get_def dest: lookup_Some_key
      split: option.split)

lemma Tick_get_ModifyLiquidityCommit:
  "Tick_get (ModifyLiquidityCommit utils ctx event pool token0 token1 bundle poolManager) k
     = Tick_get ctx k"
  by (simp add: Tick_get_def ModifyLiquidityCommit_tables)

section \<open>The tick ledger: coinciding boundaries\<close>

text \<open>
  C10. For a liquidity change with \<open>tickLower = tickUpper\<close> both boundary updates
  target the same tick record: the tick ledger writes the record twice, first with the
  lower tick's update and then with the upper tick's, both computed from the record as
  it was read. The second write replaces the first, so after the event the tick's
  \<open>liquidityGross\<close> has changed by \<open>+ liquidityDelta\<close> and its \<open>liquidityNet\<close> by
  \<open>- liquidityDelta\<close>.
\<close>

theorem ModifyLiquidity_same_tick:
  assumes "ModifyLiquidity_params_tickLower event = ModifyLiquidity_params_tickUpper event"
  shows "(\<not> isPreload ctx \<longrightarrow>
           updateTicks ctx event poolId
             = Tick_set
                 ((loadTick ctx event poolId (ModifyLiquidity_params_tickLower event))
                    \<lparr>Tick_liquidityGross :=
                       Tick_liquidityGross (loadTick ctx event poolId (ModifyLiquidity_params_tickLower event))
                       + ModifyLiquidity_params_liquidityDelta event,
                     Tick_liquidityNet :=
                       Tick_liquidityNet (loadTick ctx event poolId (ModifyLiquidity_params_tickLower event))
                       - ModifyLiquidity_params_liquidityDelta event\<rparr>)
                 (Tick_set
                    ((loadTick ctx event poolId (ModifyLiquidity_params_tickLower event))
                       \<lparr>Tick_liquidityGross :=
                          Tick_liquidityGross (loadTick ctx event poolId (ModifyLiquidity_params_tickLower event))
                          + ModifyLiquidity_params_liquidityDelta event,
                        Tick_liquidityNet :=
                          Tick_liquidityNet (loadTick ctx event poolId (ModifyLiquidity_params_tickLower event))
                          + ModifyLiquidity_params_liquidityDelta event\<rparr>)
                    ctx)
           \<and> Tick_id (loadTick ctx event poolId (ModifyLiquidity_params_tickLower event))
               = (poolId, ModifyLiquidity_params_tickLower event))
       \<and> (ModifyLiquidityProcessed utils ctx event poolManager pool token0 token1 bundle \<longrightarrow>
           (\<exists>ctx'. ModifyLiquidityHandler utils ctx event = Inr ctx'
              \<and> Tick_get ctx' (Pool_id pool, ModifyLiquidity_params_tickLower event)
                  = Some ((loadTick ctx event (Pool_id pool) (ModifyLiquidity_params_tickLower event))
                      \<lparr>Tick_liquidityGross :=
                         Tick_liquidityGross
                           (loadTick ctx event (Pool_id pool) (ModifyLiquidity_params_tickLower event))
                         + ModifyLiquidity_params_liquidityDelta event,
                       Tick_liquidityNet :=
                         Tick_liquidityNet
                           (loadTick ctx event (Pool_id pool) (ModifyLiquidity_params_tickLower event))
                         - ModifyLiquidity_params_liquidityDelta event\<rparr>)))"
proof (intro conjI impI)
  assume np: "\<not> isPreload ctx"
  show "updateTicks ctx event poolId
             = Tick_set
                 ((loadTick ctx event poolId (ModifyLiquidity_params_tickLower event))
                    \<lparr>Tick_liquidityGross :=
                       Tick_liquidityGross (loadTick ctx event poolId (ModifyLiquidity_params_tickLower event))
                       + ModifyLiquidity_params_liquidityDelta event,
                     Tick_liquidityNet :=
                       Tick_liquidityNet (loadTick ctx event poolId (ModifyLiquidity_params_tickLower event))
                       - ModifyLiquidity_params_liquidityDelta event\<rparr>)
                 (Tick_set
                    ((loadTick ctx event poolId (ModifyLiquidity_params_tickLower event))
                       \<lparr>Tick_liquidityGross :=
                          Tick_liquidityGross (loadTick ctx event poolId (ModifyLiquidity_params_tickLower event))
                          + ModifyLiquidity_params_liquidityDelta event,
                        Tick_liquidityNet :=
                          Tick_liquidityNet (loadTick ctx event poolId (ModifyLiquidity_params_tickLower event))
                          + ModifyLiquidity_params_liquidityDelta event\<rparr>)
                    ctx)"
    using Ticks_updateTicks [OF np, of event poolId] by (simp add: assms)
  show "Tick_id (loadTick ctx event poolId (ModifyLiquidity_params_tickLower event))
               = (poolId, ModifyLiquidity_params_tickLower event)"
    by (rule Tick_id_loadTick)
next
  assume p: "ModifyLiquidityProcessed utils ctx event poolManager pool token0 token1 bundle"
  then have np: "\<not> isPreload ctx" by (simp add: ModifyLiquidityProcessed_def)
  show "\<exists>ctx'. ModifyLiquidityHandler utils ctx event = Inr ctx'
              \<and> Tick_get ctx' (Pool_id pool, ModifyLiquidity_params_tickLower event)
                  = Some ((loadTick ctx event (Pool_id pool) (ModifyLiquidity_params_tickLower event))
                      \<lparr>Tick_liquidityGross :=
                         Tick_liquidityGross
                           (loadTick ctx event (Pool_id pool) (ModifyLiquidity_params_tickLower event))
                         + ModifyLiquidity_params_liquidityDelta event,
                       Tick_liquidityNet :=
                         Tick_liquidityNet
                           (loadTick ctx event (Pool_id pool) (ModifyLiquidity_params_tickLower event))
                         - ModifyLiquidity_params_liquidityDelta event\<rparr>)"
    using ModifyLiquidityHandler_processed [OF p]
      Tick_get_updateTicks_upper [OF np, of event "Pool_id pool"]
    by (simp add: Tick_get_ModifyLiquidityCommit assms)
qed

lemma example_Tick_get: "Tick_get exampleContext k = None"
  by (simp add: exampleContext_def Tick_get_def lookup_def)

lemma example_liquidity_processed:
  "ModifyLiquidityProcessed (exampleUtils derived native raw0 raw1) exampleContext
     (exampleModifyLiquidity ''0xpoolB'' lower upper delta) exampleManager
     (examplePool ''0xpoolB'' 0 0 0 0) exampleToken0 exampleToken1
     \<lparr>Bundle_id = 1, Bundle_ethPriceUSD = 2000\<rparr>"
  by (simp add: ModifyLiquidityProcessed_def exampleUtils_def exampleContext_def
      exampleModifyLiquidity_def get_defs lookup_def exampleManager_def examplePool_def
      exampleToken0_def exampleToken1_def exampleConfig_def)

theorem ModifyLiquidity_same_tick_witness:
  "ModifyLiquidity_params_tickLower (exampleModifyLiquidity ''0xpoolB'' 60 60 1000)
     = ModifyLiquidity_params_tickUpper (exampleModifyLiquidity ''0xpoolB'' 60 60 1000)
   \<and> \<not> isPreload exampleContext
   \<and> ModifyLiquidityProcessed (exampleUtils 1 2000 0 0) exampleContext
       (exampleModifyLiquidity ''0xpoolB'' 60 60 1000) exampleManager
       (examplePool ''0xpoolB'' 0 0 0 0) exampleToken0 exampleToken1
       \<lparr>Bundle_id = 1, Bundle_ethPriceUSD = 2000\<rparr>
   \<and> (\<exists>ctx'. ModifyLiquidityHandler (exampleUtils 1 2000 0 0) exampleContext
                (exampleModifyLiquidity ''0xpoolB'' 60 60 1000) = Inr ctx'
         \<and> map_option Tick_liquidityGross (Tick_get ctx' ((1, ''0xpoolB''), 60)) = Some 1000
         \<and> map_option Tick_liquidityNet (Tick_get ctx' ((1, ''0xpoolB''), 60)) = Some (- 1000))"
proof -
  have e: "ModifyLiquidity_params_tickLower (exampleModifyLiquidity ''0xpoolB'' 60 60 1000)
     = ModifyLiquidity_params_tickUpper (exampleModifyLiquidity ''0xpoolB'' 60 60 1000)"
    by (simp add: exampleModifyLiquidity_def)
  have i: "Pool_id (examplePool ''0xpoolB'' 0 0 0 0) = (1, ''0xpoolB'')"
    by (simp add: examplePool_def)
  show ?thesis
    using ModifyLiquidity_same_tick [OF e, of exampleContext "(1, ''0xpoolB'')" "exampleUtils 1 2000 0 0"
        exampleManager "examplePool ''0xpoolB'' 0 0 0 0" exampleToken0 exampleToken1
        "\<lparr>Bundle_id = 1, Bundle_ethPriceUSD = 2000\<rparr>"]
      example_liquidity_processed [of 1 2000 0 0 60 60 1000] example_not_preload e
    by (auto simp: i loadTick_def example_Tick_get createInitialTick_def exampleModifyLiquidity_def)
qed

lemma Pool_get_ModifyLiquidityCommit:
  "Pool_get (ModifyLiquidityCommit utils ctx event pool token0 token1 bundle poolManager) k
     = (if k = Pool_id pool then Some (liquidity_pool utils event pool token0 token1 bundle)
        else Pool_get ctx k)"
  by (simp add: Pool_get_def ModifyLiquidityCommit_tables lookup_upsert liquidity_pool_simps)

lemma Pool_get_updateTicks: "Pool_get (updateTicks ctx event poolId) k = Pool_get ctx k"
  by (simp add: Pool_get_def updateTicks_frame)

lemma Pool_get_key: "Pool_get ctx k = Some pool \<Longrightarrow> Pool_id pool = k"
  by (auto simp: Pool_get_def dest: lookup_Some_key)

lemma Token_get_key: "Token_get ctx k = Some token \<Longrightarrow> Token_id token = k"
  by (auto simp: Token_get_def dest: lookup_Some_key)

lemma PoolManager_get_key: "PoolManager_get ctx k = Some m \<Longrightarrow> PoolManager_id m = k"
  by (auto simp: PoolManager_get_def dest: lookup_Some_key)

lemma Bundle_get_key: "Bundle_get ctx k = Some b \<Longrightarrow> Bundle_id b = k"
  by (auto simp: Bundle_get_def dest: lookup_Some_key)

section \<open>Active liquidity\<close>

lemma example_liquidity_processed_A:
  "ModifyLiquidityProcessed (exampleUtils derived native raw0 raw1) exampleContext
     (exampleModifyLiquidity ''0xpoolA'' lower upper delta) exampleManager
     (examplePool ''0xpoolA'' 10 5 15 30000) exampleToken0 exampleToken1
     \<lparr>Bundle_id = 1, Bundle_ethPriceUSD = 2000\<rparr>"
  by (simp add: ModifyLiquidityProcessed_def exampleUtils_def exampleContext_def
      exampleModifyLiquidity_def get_defs lookup_def exampleManager_def examplePool_def
      exampleToken0_def exampleToken1_def exampleConfig_def)




section \<open>Skipped events\<close>

text \<open>
  C3, as amended. A swap whose pool, manager, \<open>token0\<close> or \<open>token1\<close> is not stored, or
  whose pool is excluded, returns the context as it was: no write, no error. A
  liquidity change whose pool is excluded, or whose pool, \<open>token0\<close>, \<open>token1\<close> or
  bundle is not stored, does the same. A liquidity change on a pool that is not
  excluded and has its pool, tokens and bundle stored, but no manager, raises, and the
  context at the raise is the context as it was: no table and no entry of the write log
  has changed.
\<close>

theorem skipped_events_write_nothing:
  "((Pool_get ctx (event_chainId sev, Swap_params_id sev) = None
      \<or> PoolManager_get ctx (event_chainId sev, event_srcAddress sev) = None
      \<or> (\<exists>pool. Pool_get ctx (event_chainId sev, Swap_params_id sev) = Some pool
            \<and> (Token_get ctx (Pool_token0 pool) = None \<or> Token_get ctx (Pool_token1 pool) = None))
      \<or> Swap_params_id sev \<in> set (poolsToSkip (getChainConfig utils (event_chainId sev))))
     \<longrightarrow> SwapHandler utils ctx sev = ctx)
   \<and> ((ModifyLiquidity_params_id lev \<in> set (poolsToSkip (getChainConfig utils (event_chainId lev)))
      \<or> Pool_get ctx (event_chainId lev, ModifyLiquidity_params_id lev) = None
      \<or> (\<exists>pool. Pool_get ctx (event_chainId lev, ModifyLiquidity_params_id lev) = Some pool
            \<and> (Token_get ctx (Pool_token0 pool) = None \<or> Token_get ctx (Pool_token1 pool) = None))
      \<or> Bundle_get ctx (event_chainId lev) = None)
     \<longrightarrow> ModifyLiquidityHandler utils ctx lev = Inr ctx)
   \<and> ((ModifyLiquidity_params_id lev \<notin> set (poolsToSkip (getChainConfig utils (event_chainId lev)))
      \<and> (\<exists>pool token0 token1 bundle.
            Pool_get ctx (event_chainId lev, ModifyLiquidity_params_id lev) = Some pool
            \<and> Token_get ctx (Pool_token0 pool) = Some token0
            \<and> Token_get ctx (Pool_token1 pool) = Some token1
            \<and> Bundle_get ctx (event_chainId lev) = Some bundle)
      \<and> PoolManager_get ctx (event_chainId lev, event_srcAddress lev) = None)
     \<longrightarrow> ModifyLiquidityHandler utils ctx lev = Inl (EntityNotFound PoolManagerEntity, ctx))"
proof (intro conjI impI)
  assume "Pool_get ctx (event_chainId sev, Swap_params_id sev) = None
      \<or> PoolManager_get ctx (event_chainId sev, event_srcAddress sev) = None
      \<or> (\<exists>pool. Pool_get ctx (event_chainId sev, Swap_params_id sev) = Some pool
            \<and> (Token_get ctx (Pool_token0 pool) = None \<or> Token_get ctx (Pool_token1 pool) = None))
      \<or> Swap_params_id sev \<in> set (poolsToSkip (getChainConfig utils (event_chainId sev)))"
  then show "SwapHandler utils ctx sev = ctx"
    by (auto simp: SwapHandler_def Let_def split: option.splits)
next
  assume "ModifyLiquidity_params_id lev \<in> set (poolsToSkip (getChainConfig utils (event_chainId lev)))
      \<or> Pool_get ctx (event_chainId lev, ModifyLiquidity_params_id lev) = None
      \<or> (\<exists>pool. Pool_get ctx (event_chainId lev, ModifyLiquidity_params_id lev) = Some pool
            \<and> (Token_get ctx (Pool_token0 pool) = None \<or> Token_get ctx (Pool_token1 pool) = None))
      \<or> Bundle_get ctx (event_chainId lev) = None"
  then show "ModifyLiquidityHandler utils ctx lev = Inr ctx"
    by (auto simp: ModifyLiquidityHandler_def Let_def split: option.splits)
next
  assume "ModifyLiquidity_params_id lev \<notin> set (poolsToSkip (getChainConfig utils (event_chainId lev)))
      \<and> (\<exists>pool token0 token1 bundle.
            Pool_get ctx (event_chainId lev, ModifyLiquidity_params_id lev) = Some pool
            \<and> Token_get ctx (Pool_token0 pool) = Some token0
            \<and> Token_get ctx (Pool_token1 pool) = Some token1
            \<and> Bundle_get ctx (event_chainId lev) = Some bundle)
      \<and> PoolManager_get ctx (event_chainId lev, event_srcAddress lev) = None"
  then show "ModifyLiquidityHandler utils ctx lev = Inl (EntityNotFound PoolManagerEntity, ctx)"
    by (auto simp: ModifyLiquidityHandler_def Let_def)
qed

lemma example_without_manager:
  "ModifyLiquidity_params_id (exampleModifyLiquidity ''0xpoolA'' (- 60) 60 1000)
     \<notin> set (poolsToSkip (getChainConfig (exampleUtils 1 2000 0 0)
              (event_chainId (exampleModifyLiquidity ''0xpoolA'' (- 60) 60 1000))))"
  "Pool_get (exampleContext\<lparr>PoolManagers := []\<rparr>)
     (event_chainId (exampleModifyLiquidity ''0xpoolA'' (- 60) 60 1000),
      ModifyLiquidity_params_id (exampleModifyLiquidity ''0xpoolA'' (- 60) 60 1000))
     = Some (examplePool ''0xpoolA'' 10 5 15 30000)"
  "Token_get (exampleContext\<lparr>PoolManagers := []\<rparr>)
     (Pool_token0 (examplePool ''0xpoolA'' 10 5 15 30000)) = Some exampleToken0"
  "Token_get (exampleContext\<lparr>PoolManagers := []\<rparr>)
     (Pool_token1 (examplePool ''0xpoolA'' 10 5 15 30000)) = Some exampleToken1"
  "Bundle_get (exampleContext\<lparr>PoolManagers := []\<rparr>)
     (event_chainId (exampleModifyLiquidity ''0xpoolA'' (- 60) 60 1000))
     = Some \<lparr>Bundle_id = 1, Bundle_ethPriceUSD = 2000\<rparr>"
  "PoolManager_get (exampleContext\<lparr>PoolManagers := []\<rparr>)
     (event_chainId (exampleModifyLiquidity ''0xpoolA'' (- 60) 60 1000),
      event_srcAddress (exampleModifyLiquidity ''0xpoolA'' (- 60) 60 1000)) = None"
  by (simp_all add: exampleUtils_def exampleContext_def exampleModifyLiquidity_def get_defs
      lookup_def examplePool_def exampleToken0_def exampleToken1_def exampleConfig_def)

text \<open>
  C3 as stated fails: with the pool, both tokens and the bundle stored and the manager
  absent, the liquidity handler raises; it is not a silent return.
\<close>

theorem missing_manager_raises_counterexample:
  "ModifyLiquidityHandler (exampleUtils 1 2000 0 0) (exampleContext\<lparr>PoolManagers := []\<rparr>)
     (exampleModifyLiquidity ''0xpoolA'' (- 60) 60 1000)
   = Inl (EntityNotFound PoolManagerEntity, exampleContext\<lparr>PoolManagers := []\<rparr>)
   \<and> PoolManager_get (exampleContext\<lparr>PoolManagers := []\<rparr>)
       (event_chainId (exampleModifyLiquidity ''0xpoolA'' (- 60) 60 1000),
        event_srcAddress (exampleModifyLiquidity ''0xpoolA'' (- 60) 60 1000)) = None"
  by (simp add: ModifyLiquidityHandler_def Let_def example_without_manager)

theorem skipped_events_write_nothing_witness:
  "Swap_params_id (exampleSwap ''0xskipped'' 0 0)
     \<in> set (poolsToSkip (getChainConfig (exampleUtils 1 2000 0 0)
              (event_chainId (exampleSwap ''0xskipped'' 0 0))))
   \<and> SwapHandler (exampleUtils 1 2000 0 0) exampleContext (exampleSwap ''0xskipped'' 0 0)
       = exampleContext
   \<and> Bundle_get (exampleContext\<lparr>Bundles := []\<rparr>)
       (event_chainId (exampleModifyLiquidity ''0xpoolA'' (- 60) 60 1000)) = None
   \<and> ModifyLiquidityHandler (exampleUtils 1 2000 0 0) (exampleContext\<lparr>Bundles := []\<rparr>)
       (exampleModifyLiquidity ''0xpoolA'' (- 60) 60 1000)
       = Inr (exampleContext\<lparr>Bundles := []\<rparr>)
   \<and> ModifyLiquidity_params_id (exampleModifyLiquidity ''0xpoolA'' (- 60) 60 1000)
       \<notin> set (poolsToSkip (getChainConfig (exampleUtils 1 2000 0 0)
                (event_chainId (exampleModifyLiquidity ''0xpoolA'' (- 60) 60 1000))))
   \<and> (\<exists>pool token0 token1 bundle.
         Pool_get (exampleContext\<lparr>PoolManagers := []\<rparr>)
           (event_chainId (exampleModifyLiquidity ''0xpoolA'' (- 60) 60 1000),
            ModifyLiquidity_params_id (exampleModifyLiquidity ''0xpoolA'' (- 60) 60 1000)) = Some pool
         \<and> Token_get (exampleContext\<lparr>PoolManagers := []\<rparr>) (Pool_token0 pool) = Some token0
         \<and> Token_get (exampleContext\<lparr>PoolManagers := []\<rparr>) (Pool_token1 pool) = Some token1
         \<and> Bundle_get (exampleContext\<lparr>PoolManagers := []\<rparr>)
             (event_chainId (exampleModifyLiquidity ''0xpoolA'' (- 60) 60 1000)) = Some bundle)
   \<and> PoolManager_get (exampleContext\<lparr>PoolManagers := []\<rparr>)
       (event_chainId (exampleModifyLiquidity ''0xpoolA'' (- 60) 60 1000),
        event_srcAddress (exampleModifyLiquidity ''0xpoolA'' (- 60) 60 1000)) = None
   \<and> ModifyLiquidityHandler (exampleUtils 1 2000 0 0) (exampleContext\<lparr>PoolManagers := []\<rparr>)
       (exampleModifyLiquidity ''0xpoolA'' (- 60) 60 1000)
       = Inl (EntityNotFound PoolManagerEntity, exampleContext\<lparr>PoolManagers := []\<rparr>)"
proof -
  have s: "Swap_params_id (exampleSwap ''0xskipped'' 0 0)
     \<in> set (poolsToSkip (getChainConfig (exampleUtils 1 2000 0 0)
              (event_chainId (exampleSwap ''0xskipped'' 0 0))))"
    by (simp add: exampleSwap_def exampleUtils_def exampleConfig_def)
  have b: "Bundle_get (exampleContext\<lparr>Bundles := []\<rparr>)
       (event_chainId (exampleModifyLiquidity ''0xpoolA'' (- 60) 60 1000)) = None"
    by (simp add: Bundle_get_def lookup_def)
  have m: "\<exists>pool token0 token1 bundle.
         Pool_get (exampleContext\<lparr>PoolManagers := []\<rparr>)
           (event_chainId (exampleModifyLiquidity ''0xpoolA'' (- 60) 60 1000),
            ModifyLiquidity_params_id (exampleModifyLiquidity ''0xpoolA'' (- 60) 60 1000)) = Some pool
         \<and> Token_get (exampleContext\<lparr>PoolManagers := []\<rparr>) (Pool_token0 pool) = Some token0
         \<and> Token_get (exampleContext\<lparr>PoolManagers := []\<rparr>) (Pool_token1 pool) = Some token1
         \<and> Bundle_get (exampleContext\<lparr>PoolManagers := []\<rparr>)
             (event_chainId (exampleModifyLiquidity ''0xpoolA'' (- 60) 60 1000)) = Some bundle"
    using example_without_manager by blast
  have t1: "SwapHandler (exampleUtils 1 2000 0 0) exampleContext (exampleSwap ''0xskipped'' 0 0)
       = exampleContext"
    using skipped_events_write_nothing [of exampleContext "exampleSwap ''0xskipped'' 0 0"
        "exampleUtils 1 2000 0 0"] s by blast
  have t2: "ModifyLiquidityHandler (exampleUtils 1 2000 0 0) (exampleContext\<lparr>Bundles := []\<rparr>)
       (exampleModifyLiquidity ''0xpoolA'' (- 60) 60 1000)
       = Inr (exampleContext\<lparr>Bundles := []\<rparr>)"
    using skipped_events_write_nothing [of "exampleContext\<lparr>Bundles := []\<rparr>" _
        "exampleUtils 1 2000 0 0" "exampleModifyLiquidity ''0xpoolA'' (- 60) 60 1000"] b by blast
  have t3: "ModifyLiquidityHandler (exampleUtils 1 2000 0 0) (exampleContext\<lparr>PoolManagers := []\<rparr>)
       (exampleModifyLiquidity ''0xpoolA'' (- 60) 60 1000)
       = Inl (EntityNotFound PoolManagerEntity, exampleContext\<lparr>PoolManagers := []\<rparr>)"
    using skipped_events_write_nothing [of "exampleContext\<lparr>PoolManagers := []\<rparr>" _
        "exampleUtils 1 2000 0 0" "exampleModifyLiquidity ''0xpoolA'' (- 60) 60 1000"]
      m example_without_manager(1,6) by blast
  from s b m t1 t2 t3 example_without_manager(1,6) show ?thesis by blast
qed

lemma Pool_get_SwapCommit:
  "Pool_get (SwapCommit utils ctx event chainConfig poolManager pool bundle token0 token1
               poolHookStats isHookedPool ethPriceUSD) k
     = (if k = Pool_id pool
        then Some (swap_pool utils ctx event chainConfig pool bundle token0 token1)
        else Pool_get ctx k)"
  by (simp add: Pool_get_def SwapCommit_tables lookup_upsert swap_pool_simps)

lemma Token_get_SwapCommit:
  "Token_get (SwapCommit utils ctx event chainConfig poolManager pool bundle token0 token1
               poolHookStats isHookedPool ethPriceUSD) k
     = (if k = Token_id token1 then Some token1
        else if k = Token_id token0 then Some token0
        else Token_get ctx k)"
  by (simp add: Token_get_def SwapCommit_tables lookup_upsert)

lemma Swap_get_SwapCommit:
  "Swap_get (SwapCommit utils ctx event chainConfig poolManager pool bundle token0 token1
               poolHookStats isHookedPool ethPriceUSD)
       (event_chainId event, event_block_number event, event_logIndex event)
     = Some (swap_entity utils ctx event chainConfig bundle token0 token1)"
  by (simp add: Swap_get_def SwapCommit_tables lookup_upsert swap_entity_def)

lemma Bundle_get_SwapCommit:
  "Bundle_get (SwapCommit utils ctx event chainConfig poolManager pool bundle token0 token1
               poolHookStats isHookedPool ethPriceUSD) k
     = (if k = Bundle_id bundle then Some (bundle\<lparr>Bundle_ethPriceUSD := ethPriceUSD\<rparr>)
        else Bundle_get ctx k)"
  by (simp add: Bundle_get_def SwapCommit_tables lookup_upsert)

lemma PoolManager_get_SwapCommit:
  "PoolManager_get (SwapCommit utils ctx event chainConfig poolManager pool bundle token0 token1
               poolHookStats isHookedPool ethPriceUSD) k
     = (if k = PoolManager_id poolManager
        then Some (swap_poolManagerCounted utils ctx event chainConfig poolManager pool bundle
                     token0 token1 isHookedPool)
        else PoolManager_get ctx k)"
  by (simp add: PoolManager_get_def SwapCommit_tables lookup_upsert swap_poolManager_simps
      swap_poolManagerCounted_simps)

lemma swap_amountAbs:
  "swap_amount0Abs event token0 = \<bar>swap_amount0 event token0\<bar>"
  "swap_amount1Abs event token1 = \<bar>swap_amount1 event token1\<bar>"
  by (simp_all add: swap_amount0Abs_def swap_amount1Abs_def Let_def abs_if)

lemma SwapProcessed_keys:
  assumes "SwapProcessed utils ctx event poolManager pool token0 token1"
  shows "Pool_id pool = (event_chainId event, Swap_params_id event)"
    and "PoolManager_id poolManager = (event_chainId event, event_srcAddress event)"
    and "Token_id token0 = Pool_token0 pool"
    and "Token_id token1 = Pool_token1 pool"
  using assms
  by (auto simp: SwapProcessed_def dest: Pool_get_key PoolManager_get_key Token_get_key)

lemma SwapProcessed_same_token:
  assumes "SwapProcessed utils ctx event poolManager pool token0 token1"
      and "Token_id token0 = Token_id token1"
  shows "token0 = token1"
proof -
  from assms(1) have "Token_get ctx (Pool_token0 pool) = Some token0"
    "Token_get ctx (Pool_token1 pool) = Some token1"
    by (simp_all add: SwapProcessed_def)
  moreover from SwapProcessed_keys(3,4) [OF assms(1)] assms(2)
  have "Pool_token0 pool = Pool_token1 pool" by simp
  ultimately show ?thesis by simp
qed

section \<open>Swap amounts\<close>

text \<open>
  C6. For a processed swap the stored decimal amounts are the raw signed amounts
  divided by \<open>10 ^ decimals\<close> with the sign inverted; the pool's token balances
  change by these amounts and its volumes grow by their absolute values. A raw
  \<open>amount0\<close> of -1,000,000 on a 6-decimal token is stored as 1, with absolute value 1
  (the witness).
\<close>

theorem Swap_amounts_sign_inverted:
  assumes "SwapProcessed utils ctx event poolManager pool token0 token1"
  shows "\<exists>entity pool'.
           Swap_get (SwapHandler utils ctx event)
             (event_chainId event, event_block_number event, event_logIndex event) = Some entity
         \<and> Pool_get (SwapHandler utils ctx event) (event_chainId event, Swap_params_id event)
             = Some pool'
         \<and> Swap_amount0 entity
             = - (of_int (Swap_params_amount0 event) / 10 ^ Token_decimals token0)
         \<and> Swap_amount1 entity
             = - (of_int (Swap_params_amount1 event) / 10 ^ Token_decimals token1)
         \<and> Pool_totalValueLockedToken0 pool'
             = Pool_totalValueLockedToken0 pool
               - of_int (Swap_params_amount0 event) / 10 ^ Token_decimals token0
         \<and> Pool_totalValueLockedToken1 pool'
             = Pool_totalValueLockedToken1 pool
               - of_int (Swap_params_amount1 event) / 10 ^ Token_decimals token1
         \<and> Pool_volumeToken0 pool'
             = Pool_volumeToken0 pool
               + \<bar>of_int (Swap_params_amount0 event) / 10 ^ Token_decimals token0\<bar>
         \<and> Pool_volumeToken1 pool'
             = Pool_volumeToken1 pool
               + \<bar>of_int (Swap_params_amount1 event) / 10 ^ Token_decimals token1\<bar>"
  using SwapHandler_processed [OF assms] SwapProcessed_keys(1) [OF assms]
  by (simp add: Swap_get_SwapCommit Pool_get_SwapCommit swap_pool_simps swap_amountAbs
      swap_entity_def swap_amount0_def swap_amount1_def swap_token_simps convertTokenToDecimal_def)

lemma example_swap_processed:
  "SwapProcessed (exampleUtils derived native raw0 raw1) exampleContext
     (exampleSwap ''0xpoolA'' amount0 amount1) exampleManager
     (examplePool ''0xpoolA'' 10 5 15 30000) exampleToken0 exampleToken1"
  by (simp add: SwapProcessed_def exampleUtils_def exampleContext_def
      exampleSwap_def get_defs lookup_def exampleManager_def examplePool_def
      exampleToken0_def exampleToken1_def exampleConfig_def)

lemma example_swap_fields:
  "event_chainId (exampleSwap poolId amount0 amount1) = 1"
  "event_srcAddress (exampleSwap poolId amount0 amount1) = ''0xmanager''"
  "event_block_number (exampleSwap poolId amount0 amount1) = 100"
  "event_logIndex (exampleSwap poolId amount0 amount1) = 7"
  "Swap_params_id (exampleSwap poolId amount0 amount1) = poolId"
  "Swap_params_amount0 (exampleSwap poolId amount0 amount1) = amount0"
  "Swap_params_amount1 (exampleSwap poolId amount0 amount1) = amount1"
  by (simp_all add: exampleSwap_def)

lemma example_fields:
  "Token_id exampleToken0 = ''1_0xusdc''" "Token_id exampleToken1 = ''1_0xweth''"
  "Token_decimals exampleToken0 = 6" "Token_decimals exampleToken1 = 18"
  "Token_derivedETH exampleToken0 = 1" "Token_derivedETH exampleToken1 = 1"
  "Token_totalValueLocked exampleToken0 = 10" "Token_totalValueLocked exampleToken1 = 5"
  "Pool_id (examplePool poolId tvl0 tvl1 tvlETH tvlUSD) = (1, poolId)"
  "Pool_token0 (examplePool poolId tvl0 tvl1 tvlETH tvlUSD) = ''1_0xusdc''"
  "Pool_token1 (examplePool poolId tvl0 tvl1 tvlETH tvlUSD) = ''1_0xweth''"
  "Pool_liquidity (examplePool poolId tvl0 tvl1 tvlETH tvlUSD) = 500"
  "Pool_totalValueLockedToken0 (examplePool poolId tvl0 tvl1 tvlETH tvlUSD) = tvl0"
  "Pool_totalValueLockedToken1 (examplePool poolId tvl0 tvl1 tvlETH tvlUSD) = tvl1"
  "Pool_totalValueLockedETH (examplePool poolId tvl0 tvl1 tvlETH tvlUSD) = tvlETH"
  "Pool_totalValueLockedUSD (examplePool poolId tvl0 tvl1 tvlETH tvlUSD) = tvlUSD"
  "Pool_volumeToken0 (examplePool poolId tvl0 tvl1 tvlETH tvlUSD) = 0"
  "Pool_volumeToken1 (examplePool poolId tvl0 tvl1 tvlETH tvlUSD) = 0"
  "PoolManager_id exampleManager = (1, ''0xmanager'')"
  "PoolManager_totalValueLockedETH exampleManager = 15"
  "PoolManager_totalValueLockedUSD exampleManager = 30000"
  by (simp_all add: exampleToken0_def exampleToken1_def examplePool_def exampleManager_def)

theorem Swap_amounts_sign_inverted_witness:
  "SwapProcessed (exampleUtils 1 2500 0 0) exampleContext
     (exampleSwap ''0xpoolA'' (- 1000000) 500000000000000000) exampleManager
     (examplePool ''0xpoolA'' 10 5 15 30000) exampleToken0 exampleToken1
   \<and> (\<exists>entity pool'.
         Swap_get (SwapHandler (exampleUtils 1 2500 0 0) exampleContext
                     (exampleSwap ''0xpoolA'' (- 1000000) 500000000000000000)) (1, 100, 7)
           = Some entity
       \<and> Pool_get (SwapHandler (exampleUtils 1 2500 0 0) exampleContext
                     (exampleSwap ''0xpoolA'' (- 1000000) 500000000000000000)) (1, ''0xpoolA'')
           = Some pool'
       \<and> Swap_amount0 entity = 1
       \<and> Swap_amount1 entity = - (1 / 2)
       \<and> Pool_totalValueLockedToken0 pool' = 11
       \<and> Pool_totalValueLockedToken1 pool' = 9 / 2
       \<and> Pool_volumeToken0 pool' = 1
       \<and> Pool_volumeToken1 pool' = 1 / 2)"
  using Swap_amounts_sign_inverted
      [OF example_swap_processed [of 1 2500 0 0 "- 1000000" 500000000000000000]]
    example_swap_processed [of 1 2500 0 0 "- 1000000" 500000000000000000]
  by (auto simp: example_swap_fields example_fields)

section \<open>Tokens across a swap\<close>

text \<open>
  C9. For a processed swap, \<open>token0\<close> and \<open>token1\<close> are written back with only
  \<open>derivedETH\<close> replaced (by the refreshed native price): \<open>id\<close>, \<open>decimals\<close> and
  \<open>totalValueLocked\<close> are unchanged, and no other token changes, while the pool's
  balances \<open>totalValueLockedToken0\<close> and \<open>totalValueLockedToken1\<close> change by the swap
  amounts.
\<close>

theorem Swap_token_frame:
  assumes "SwapProcessed utils ctx event poolManager pool token0 token1"
  shows "Token_get (SwapHandler utils ctx event) (Pool_token0 pool)
           = Some (token0\<lparr>Token_derivedETH :=
                findNativePerToken utils ctx token0
                  (wrappedNativeAddress (getChainConfig utils (event_chainId event)))
                  (stablecoinAddresses (getChainConfig utils (event_chainId event)))
                  (minimumNativeLocked (getChainConfig utils (event_chainId event)))\<rparr>)
       \<and> Token_get (SwapHandler utils ctx event) (Pool_token1 pool)
           = Some (token1\<lparr>Token_derivedETH :=
                findNativePerToken utils ctx token1
                  (wrappedNativeAddress (getChainConfig utils (event_chainId event)))
                  (stablecoinAddresses (getChainConfig utils (event_chainId event)))
                  (minimumNativeLocked (getChainConfig utils (event_chainId event)))\<rparr>)
       \<and> (\<forall>k. k \<noteq> Pool_token0 pool \<and> k \<noteq> Pool_token1 pool \<longrightarrow>
             Token_get (SwapHandler utils ctx event) k = Token_get ctx k)
       \<and> (\<exists>pool'. Pool_get (SwapHandler utils ctx event) (event_chainId event, Swap_params_id event)
                     = Some pool'
             \<and> Pool_totalValueLockedToken0 pool'
                 = Pool_totalValueLockedToken0 pool + swap_amount0 event token0
             \<and> Pool_totalValueLockedToken1 pool'
                 = Pool_totalValueLockedToken1 pool + swap_amount1 event token1)"
proof -
  let ?cfg = "getChainConfig utils (event_chainId event)"
  note k = SwapProcessed_keys [OF assms]
  have same: "Token_id token0 = Token_id token1 \<Longrightarrow>
      swap_token utils ctx ?cfg token0 = swap_token utils ctx ?cfg token1"
    using SwapProcessed_same_token [OF assms] by simp
  have t0: "Token_get (SwapHandler utils ctx event) (Pool_token0 pool)
      = Some (swap_token utils ctx ?cfg token0)"
    using same by (auto simp: SwapHandler_processed [OF assms] Token_get_SwapCommit
        swap_token_simps k(3) [symmetric])
  have t1: "Token_get (SwapHandler utils ctx event) (Pool_token1 pool)
      = Some (swap_token utils ctx ?cfg token1)"
    by (simp add: SwapHandler_processed [OF assms] Token_get_SwapCommit
        swap_token_simps k(4) [symmetric])
  have other: "\<forall>k. k \<noteq> Pool_token0 pool \<and> k \<noteq> Pool_token1 pool \<longrightarrow>
             Token_get (SwapHandler utils ctx event) k = Token_get ctx k"
    by (simp add: SwapHandler_processed [OF assms] Token_get_SwapCommit
        swap_token_simps k(3,4))
  have p: "\<exists>pool'. Pool_get (SwapHandler utils ctx event) (event_chainId event, Swap_params_id event)
                     = Some pool'
             \<and> Pool_totalValueLockedToken0 pool'
                 = Pool_totalValueLockedToken0 pool + swap_amount0 event token0
             \<and> Pool_totalValueLockedToken1 pool'
                 = Pool_totalValueLockedToken1 pool + swap_amount1 event token1"
    by (simp add: SwapHandler_processed [OF assms] Pool_get_SwapCommit k(1) swap_pool_simps
        swap_amount0_def swap_amount1_def swap_token_simps)
  show ?thesis
    unfolding t0 t1 using other p by (simp add: swap_token_def)
qed

theorem Swap_token_frame_witness:
  "SwapProcessed (exampleUtils 3 2500 0 0) exampleContext
     (exampleSwap ''0xpoolA'' (- 1000000) 500000000000000000) exampleManager
     (examplePool ''0xpoolA'' 10 5 15 30000) exampleToken0 exampleToken1
   \<and> ''1_0xdai'' \<noteq> Pool_token0 (examplePool ''0xpoolA'' 10 5 15 30000)
   \<and> ''1_0xdai'' \<noteq> Pool_token1 (examplePool ''0xpoolA'' 10 5 15 30000)
   \<and> Token_get (SwapHandler (exampleUtils 3 2500 0 0) exampleContext
                  (exampleSwap ''0xpoolA'' (- 1000000) 500000000000000000)) ''1_0xusdc''
       = Some \<lparr>Token_id = ''1_0xusdc'', Token_decimals = 6, Token_derivedETH = 3,
               Token_totalValueLocked = 10\<rparr>
   \<and> Token_get (SwapHandler (exampleUtils 3 2500 0 0) exampleContext
                  (exampleSwap ''0xpoolA'' (- 1000000) 500000000000000000)) ''1_0xweth''
       = Some \<lparr>Token_id = ''1_0xweth'', Token_decimals = 18, Token_derivedETH = 3,
               Token_totalValueLocked = 5\<rparr>
   \<and> Token_get (SwapHandler (exampleUtils 3 2500 0 0) exampleContext
                  (exampleSwap ''0xpoolA'' (- 1000000) 500000000000000000)) ''1_0xdai''
       = Token_get exampleContext ''1_0xdai''
   \<and> (\<exists>pool'. Pool_get (SwapHandler (exampleUtils 3 2500 0 0) exampleContext
                  (exampleSwap ''0xpoolA'' (- 1000000) 500000000000000000)) (1, ''0xpoolA'')
                 = Some pool'
         \<and> Pool_totalValueLockedToken0 pool' = 11
         \<and> Pool_totalValueLockedToken1 pool' = 9 / 2)"
proof -
  let ?ev = "exampleSwap ''0xpoolA'' (- 1000000) 500000000000000000"
  let ?u = "exampleUtils 3 2500 0 0"
  note P = example_swap_processed [of 3 2500 0 0 "- 1000000" 500000000000000000]
  note T = Swap_token_frame [OF P]
  have a: "swap_amount0 ?ev exampleToken0 = 1" "swap_amount1 ?ev exampleToken1 = - (1 / 2)"
    by (simp_all add: swap_amount0_def swap_amount1_def convertTokenToDecimal_def
        example_swap_fields example_fields)
  have u: "findNativePerToken ?u = (\<lambda>_ _ _ _ _. 3)"
    by (simp add: exampleUtils_def)
  have n: "''1_0xdai'' \<noteq> Pool_token0 (examplePool ''0xpoolA'' 10 5 15 30000)"
    "''1_0xdai'' \<noteq> Pool_token1 (examplePool ''0xpoolA'' 10 5 15 30000)"
    by (simp_all add: example_fields)
  have A: "Token_get (SwapHandler ?u exampleContext ?ev) ''1_0xusdc''
       = Some \<lparr>Token_id = ''1_0xusdc'', Token_decimals = 6, Token_derivedETH = 3,
               Token_totalValueLocked = 10\<rparr>"
    using T [THEN conjunct1] by (simp add: example_fields u exampleToken0_def)
  have B: "Token_get (SwapHandler ?u exampleContext ?ev) ''1_0xweth''
       = Some \<lparr>Token_id = ''1_0xweth'', Token_decimals = 18, Token_derivedETH = 3,
               Token_totalValueLocked = 5\<rparr>"
    using T [THEN conjunct2, THEN conjunct1] by (simp add: example_fields u exampleToken1_def)
  have C: "Token_get (SwapHandler ?u exampleContext ?ev) ''1_0xdai''
       = Token_get exampleContext ''1_0xdai''"
    using T [THEN conjunct2, THEN conjunct2, THEN conjunct1, rule_format, of "''1_0xdai''"] n
    by simp
  have D: "\<exists>pool'. Pool_get (SwapHandler ?u exampleContext ?ev) (1, ''0xpoolA'') = Some pool'
         \<and> Pool_totalValueLockedToken0 pool' = 11
         \<and> Pool_totalValueLockedToken1 pool' = 9 / 2"
    using T [THEN conjunct2, THEN conjunct2, THEN conjunct2]
    by (simp add: example_swap_fields example_fields a)
  from P n A B C D show ?thesis by (intro conjI)
qed

section \<open>Sums over the pools and what a processed event stores\<close>

lemma sum_list_filter_upsert:
  fixes f :: "'e \<Rightarrow> rat"
  assumes "\<And>x y. key x = key y \<Longrightarrow> P x = P y"
  shows "sum_list (map f (filter P (upsert key e es)))
       = sum_list (map f (filter P es))
         - (case lookup key (key e) es of None \<Rightarrow> 0 | Some old \<Rightarrow> if P e then f old else 0)
         + (if P e then f e else 0)"
proof (induction es)
  case Nil
  then show ?case by (simp add: lookup_def)
next
  case (Cons x xs)
  show ?case
  proof (cases "key x = key e")
    case True
    with assms [of x e] show ?thesis by (simp add: lookup_def)
  next
    case False
    with Cons show ?thesis by (simp add: lookup_def)
  qed
qed

lemma poolsTotalValueLockedETH_upsert:
  assumes "Pools ctx' = upsert Pool_id pool' (Pools ctx)"
      and "Pool_get ctx (Pool_id pool') = Some pool"
  shows "poolsTotalValueLockedETH ctx' chain
       = poolsTotalValueLockedETH ctx chain
         - (if fst (Pool_id pool') = chain then Pool_totalValueLockedETH pool else 0)
         + (if fst (Pool_id pool') = chain then Pool_totalValueLockedETH pool' else 0)"
  using assms(2)
  by (simp add: poolsTotalValueLockedETH_def poolsOfChain_def assms(1) Pool_get_def
      sum_list_filter_upsert [where key = Pool_id and P = "\<lambda>p. fst (Pool_id p) = chain"])

lemma SwapHandler_preserves_ETH:
  assumes inv: "managerMatchesPoolsETH ctx chain manager"
      and one: "event_chainId event = chain \<longrightarrow> event_srcAddress event = manager"
  shows "managerMatchesPoolsETH (SwapHandler utils ctx event) chain manager"
proof -
  consider (skip) "SwapHandler utils ctx event = ctx"
    | (go) poolManager pool token0 token1
      where "SwapProcessed utils ctx event poolManager pool token0 token1"
    using SwapHandler_cases [of utils ctx event] by blast
  then show ?thesis
  proof cases
    case skip
    with inv show ?thesis by simp
  next
    case go
    note k = SwapProcessed_keys [OF go]
    let ?cfg = "getChainConfig utils (event_chainId event)"
    let ?pool' = "swap_pool utils ctx event ?cfg pool
        (swap_bundle (Bundle_get ctx (event_chainId event)) event)
        (swap_token utils ctx ?cfg token0) (swap_token utils ctx ?cfg token1)"
    from go have g: "Pool_get ctx (Pool_id ?pool') = Some pool"
      "PoolManager_get ctx (event_chainId event, event_srcAddress event) = Some poolManager"
      by (simp_all add: swap_pool_simps k(1) SwapProcessed_def)
    have s: "poolsTotalValueLockedETH (SwapHandler utils ctx event) chain
       = poolsTotalValueLockedETH ctx chain
         - (if event_chainId event = chain then Pool_totalValueLockedETH pool else 0)
         + (if event_chainId event = chain then Pool_totalValueLockedETH ?pool' else 0)"
      using poolsTotalValueLockedETH_upsert [OF _ g(1), of "SwapHandler utils ctx event" chain]
      by (simp add: SwapHandler_processed [OF go] SwapCommit_tables swap_pool_simps(1) k(1))
    have m: "PoolManager_get (SwapHandler utils ctx event) (chain, manager)
       = (if (chain, manager) = (event_chainId event, event_srcAddress event)
          then Some (swap_poolManagerCounted utils ctx event ?cfg poolManager pool
                 (swap_bundle (Bundle_get ctx (event_chainId event)) event)
                 (swap_token utils ctx ?cfg token0) (swap_token utils ctx ?cfg token1)
                 (Pool_hooks pool \<noteq> ADDRESS_ZERO))
          else PoolManager_get ctx (chain, manager))"
      unfolding SwapHandler_processed [OF go] PoolManager_get_SwapCommit k(2) ..
    show ?thesis
    proof (cases "event_chainId event = chain")
      case True
      with one have "(chain, manager) = (event_chainId event, event_srcAddress event)" by simp
      with inv g(2) True show ?thesis
        unfolding managerMatchesPoolsETH_def m s
        by (simp add: swap_poolManagerCounted_simps)
    next
      case False
      then have "(chain, manager) \<noteq> (event_chainId event, event_srcAddress event)" by auto
      with inv False show ?thesis
        unfolding managerMatchesPoolsETH_def m s by (simp split: option.splits)
    qed
  qed
qed

lemma ModifyLiquidityProcessed_keys:
  assumes "ModifyLiquidityProcessed utils ctx event poolManager pool token0 token1 bundle"
  shows "Pool_id pool = (event_chainId event, ModifyLiquidity_params_id event)"
    and "PoolManager_id poolManager = (event_chainId event, event_srcAddress event)"
    and "Token_id token0 = Pool_token0 pool"
    and "Token_id token1 = Pool_token1 pool"
    and "Bundle_id bundle = event_chainId event"
  using assms
  by (auto simp: ModifyLiquidityProcessed_def
      dest: Pool_get_key PoolManager_get_key Token_get_key Bundle_get_key)

lemma PoolManager_get_ModifyLiquidityCommit:
  "PoolManager_get (ModifyLiquidityCommit utils ctx event pool token0 token1 bundle poolManager) k
     = (if k = PoolManager_id poolManager
        then Some (liquidity_poolManager utils event pool token0 token1 bundle poolManager)
        else PoolManager_get ctx k)"
  by (simp add: PoolManager_get_def ModifyLiquidityCommit_tables lookup_upsert
      liquidity_poolManager_simps)

lemma PoolManager_get_updateTicks:
  "PoolManager_get (updateTicks ctx event poolId) k = PoolManager_get ctx k"
  by (simp add: PoolManager_get_def updateTicks_frame)

lemma poolsTotalValueLockedETH_updateTicks:
  "poolsTotalValueLockedETH (updateTicks ctx event poolId) chain = poolsTotalValueLockedETH ctx chain"
  by (simp add: poolsTotalValueLockedETH_def poolsOfChain_def updateTicks_frame)

lemma ModifyLiquidityHandler_preserves_ETH:
  assumes inv: "managerMatchesPoolsETH ctx chain manager"
      and one: "event_chainId event = chain \<longrightarrow> event_srcAddress event = manager"
      and run: "ModifyLiquidityHandler utils ctx event = Inr ctx'"
  shows "managerMatchesPoolsETH ctx' chain manager"
proof -
  consider (skip) "ModifyLiquidityHandler utils ctx event = Inr ctx"
    | (raise) "ModifyLiquidityHandler utils ctx event = Inl (EntityNotFound PoolManagerEntity, ctx)"
    | (go) poolManager pool token0 token1 bdl
      where "ModifyLiquidityProcessed utils ctx event poolManager pool token0 token1 bdl"
    using ModifyLiquidityHandler_cases [of utils ctx event] by blast
  then show ?thesis
  proof cases
    case skip
    with inv run show ?thesis by simp
  next
    case raise
    with run show ?thesis by simp
  next
    case go
    note k = ModifyLiquidityProcessed_keys [OF go]
    let ?ctx1 = "updateTicks ctx event (Pool_id pool)"
    let ?pool' = "liquidity_pool utils event pool token0 token1 bdl"
    from go have g: "Pool_get ?ctx1 (Pool_id ?pool') = Some pool"
      "PoolManager_get ctx (event_chainId event, event_srcAddress event) = Some poolManager"
      by (simp_all add: liquidity_pool_simps k(1) Pool_get_updateTicks ModifyLiquidityProcessed_def)
    from run have c: "ctx' = ModifyLiquidityCommit utils ?ctx1 event pool token0 token1 bdl poolManager"
      by (simp add: ModifyLiquidityHandler_processed [OF go])
    have s: "poolsTotalValueLockedETH ctx' chain
       = poolsTotalValueLockedETH ctx chain
         - (if event_chainId event = chain then Pool_totalValueLockedETH pool else 0)
         + (if event_chainId event = chain then Pool_totalValueLockedETH ?pool' else 0)"
      using poolsTotalValueLockedETH_upsert [OF _ g(1), of ctx' chain]
      by (simp add: c ModifyLiquidityCommit_tables liquidity_pool_simps(1) k(1)
          poolsTotalValueLockedETH_updateTicks)
    have m: "PoolManager_get ctx' (chain, manager)
       = (if (chain, manager) = (event_chainId event, event_srcAddress event)
          then Some (liquidity_poolManager utils event pool token0 token1 bdl poolManager)
          else PoolManager_get ctx (chain, manager))"
      unfolding c PoolManager_get_ModifyLiquidityCommit k(2) PoolManager_get_updateTicks ..
    show ?thesis
    proof (cases "event_chainId event = chain")
      case True
      with one have "(chain, manager) = (event_chainId event, event_srcAddress event)" by simp
      with inv g(2) True show ?thesis
        unfolding managerMatchesPoolsETH_def m s
        by (simp add: liquidity_poolManager_simps)
    next
      case False
      then have "(chain, manager) \<noteq> (event_chainId event, event_srcAddress event)" by auto
      with inv False show ?thesis
        unfolding managerMatchesPoolsETH_def m s by (simp split: option.splits)
    qed
  qed
qed

lemma handleEvent_raised:
  assumes "handleEvent utils ctx e = Inl raised"
  shows "raised = (EntityNotFound PoolManagerEntity, ctx)"
proof (cases e)
  case (SwapLog event)
  with assms show ?thesis by simp
next
  case (ModifyLiquidityLog event)
  with assms ModifyLiquidityHandler_cases [of utils ctx event] show ?thesis
    by (auto dest: ModifyLiquidityHandler_processed)
qed

lemma handleEvent_preserves_ETH:
  assumes "managerMatchesPoolsETH ctx chain manager"
      and "eventLogChainId e = chain \<longrightarrow> eventLogSrcAddress e = manager"
      and "handleEvent utils ctx e = Inr ctx'"
  shows "managerMatchesPoolsETH ctx' chain manager"
  using assms SwapHandler_preserves_ETH ModifyLiquidityHandler_preserves_ETH
  by (cases e) auto

lemma processEvents_preserves_ETH:
  assumes "managerMatchesPoolsETH ctx chain manager"
      and "\<forall>e\<in>set es. eventLogChainId e = chain \<longrightarrow> eventLogSrcAddress e = manager"
  shows "managerMatchesPoolsETH (snd (processEvents utils ctx es)) chain manager"
  using assms
proof (induction es arbitrary: ctx)
  case Nil
  then show ?case by simp
next
  case (Cons e es)
  show ?case
  proof (cases "handleEvent utils ctx e")
    case (Inl raised)
    with handleEvent_raised [of utils ctx e raised] Cons.prems(1) show ?thesis by simp
  next
    case (Inr ctx')
    with Cons.prems have "managerMatchesPoolsETH ctx' chain manager"
      using handleEvent_preserves_ETH [of ctx chain manager e utils ctx'] by simp
    with Cons.IH [of ctx'] Cons.prems(2) Inr show ?thesis by simp
  qed
qed

lemma Token_get_ModifyLiquidityCommit:
  "Token_get (ModifyLiquidityCommit utils ctx event pool token0 token1 bundle poolManager) k
     = (if k = Token_id token1 then Some (liquidity_token1 utils event pool token1)
        else if k = Token_id token0 then Some (liquidity_token0 utils event pool token0)
        else Token_get ctx k)"
  by (simp add: Token_get_def ModifyLiquidityCommit_tables lookup_upsert liquidity_token_simps)

lemma Bundle_get_ModifyLiquidityCommit:
  "Bundle_get (ModifyLiquidityCommit utils ctx event pool token0 token1 bundle poolManager) k
     = Bundle_get ctx k"
  by (simp add: Bundle_get_def ModifyLiquidityCommit_tables)

lemma Token_get_updateTicks: "Token_get (updateTicks ctx event poolId) k = Token_get ctx k"
  by (simp add: Token_get_def updateTicks_frame)

lemma Bundle_get_updateTicks: "Bundle_get (updateTicks ctx event poolId) k = Bundle_get ctx k"
  by (simp add: Bundle_get_def updateTicks_frame)

lemma ModifyLiquidityProcessed_same_token:
  assumes "ModifyLiquidityProcessed utils ctx event poolManager pool token0 token1 bundle"
      and "Token_id token0 = Token_id token1"
  shows "token0 = token1"
proof -
  from assms(1) have "Token_get ctx (Pool_token0 pool) = Some token0"
    "Token_get ctx (Pool_token1 pool) = Some token1"
    by (simp_all add: ModifyLiquidityProcessed_def)
  moreover from ModifyLiquidityProcessed_keys(3,4) [OF assms(1)] assms(2)
  have "Pool_token0 pool = Pool_token1 pool" by simp
  ultimately show ?thesis by simp
qed

lemma SwapHandler_pool_tvl:
  assumes go: "SwapProcessed utils ctx event poolManager pool token0 token1"
  shows "\<exists>pool' t0 t1 b.
           Pool_get (SwapHandler utils ctx event) (event_chainId event, Swap_params_id event)
             = Some pool'
         \<and> Token_get (SwapHandler utils ctx event) (Pool_token0 pool') = Some t0
         \<and> Token_get (SwapHandler utils ctx event) (Pool_token1 pool') = Some t1
         \<and> Bundle_get (SwapHandler utils ctx event) (event_chainId event) = Some b
         \<and> Pool_totalValueLockedETH pool'
             = Pool_totalValueLockedToken0 pool' * Token_derivedETH t0
               + Pool_totalValueLockedToken1 pool' * Token_derivedETH t1
         \<and> Pool_totalValueLockedUSD pool'
             = Pool_totalValueLockedETH pool' * loadedEthPriceUSD ctx (event_chainId event)
         \<and> Bundle_ethPriceUSD b
             = getNativePriceInUSD utils ctx (event_chainId event)
                 (stablecoinWrappedNativePoolId (getChainConfig utils (event_chainId event)))
                 (stablecoinIsToken0 (getChainConfig utils (event_chainId event)))"
proof -
  let ?cfg = "getChainConfig utils (event_chainId event)"
  let ?b = "swap_bundle (Bundle_get ctx (event_chainId event)) event"
  let ?t0 = "swap_token utils ctx ?cfg token0"
  let ?t1 = "swap_token utils ctx ?cfg token1"
  let ?pool' = "swap_pool utils ctx event ?cfg pool ?b ?t0 ?t1"
  let ?ctx' = "SwapHandler utils ctx event"
  note k = SwapProcessed_keys [OF go]
  have same: "Token_id token0 = Token_id token1 \<Longrightarrow> ?t0 = ?t1"
    using SwapProcessed_same_token [OF go] by simp
  have p: "Pool_get ?ctx' (event_chainId event, Swap_params_id event) = Some ?pool'"
    by (simp add: SwapHandler_processed [OF go] Pool_get_SwapCommit k(1))
  have t0: "Token_get ?ctx' (Pool_token0 ?pool') = Some ?t0"
    using same by (auto simp: SwapHandler_processed [OF go] Token_get_SwapCommit
        swap_token_simps swap_pool_simps k(3) [symmetric])
  have t1: "Token_get ?ctx' (Pool_token1 ?pool') = Some ?t1"
    by (simp add: SwapHandler_processed [OF go] Token_get_SwapCommit
        swap_token_simps swap_pool_simps k(4) [symmetric])
  have b: "Bundle_get ?ctx' (event_chainId event)
      = Some (?b\<lparr>Bundle_ethPriceUSD := getNativePriceInUSD utils ctx (event_chainId event)
                 (stablecoinWrappedNativePoolId ?cfg) (stablecoinIsToken0 ?cfg)\<rparr>)"
    by (simp add: SwapHandler_processed [OF go] Bundle_get_SwapCommit swap_bundle_id)
  have e: "Pool_totalValueLockedETH ?pool'
             = Pool_totalValueLockedToken0 ?pool' * Token_derivedETH ?t0
               + Pool_totalValueLockedToken1 ?pool' * Token_derivedETH ?t1"
    by (simp add: swap_pool_simps)
  have u: "Pool_totalValueLockedUSD ?pool'
             = Pool_totalValueLockedETH ?pool' * loadedEthPriceUSD ctx (event_chainId event)"
    by (simp add: swap_pool_simps(9) swap_bundle_price)
  from p t0 t1 b e u show ?thesis by simp
qed

lemma ModifyLiquidityHandler_pool_tvl:
  assumes go: "ModifyLiquidityProcessed utils ctx event poolManager pool token0 token1 bundle"
  shows "\<exists>ctx' pool' t0 t1.
           ModifyLiquidityHandler utils ctx event = Inr ctx'
         \<and> Pool_get ctx' (event_chainId event, ModifyLiquidity_params_id event) = Some pool'
         \<and> Token_get ctx' (Pool_token0 pool') = Some t0
         \<and> Token_get ctx' (Pool_token1 pool') = Some t1
         \<and> Bundle_get ctx' (event_chainId event) = Some bundle
         \<and> Pool_totalValueLockedETH pool'
             = Pool_totalValueLockedToken0 pool' * Token_derivedETH t0
               + Pool_totalValueLockedToken1 pool' * Token_derivedETH t1
         \<and> Pool_totalValueLockedUSD pool'
             = Pool_totalValueLockedETH pool' * Bundle_ethPriceUSD bundle"
proof -
  let ?t0 = "liquidity_token0 utils event pool token0"
  let ?t1 = "liquidity_token1 utils event pool token1"
  let ?pool' = "liquidity_pool utils event pool token0 token1 bundle"
  let ?ctx' = "ModifyLiquidityCommit utils (updateTicks ctx event (Pool_id pool)) event pool
                 token0 token1 bundle poolManager"
  note k = ModifyLiquidityProcessed_keys [OF go]
  note r = ModifyLiquidityHandler_processed [OF go]
  have p: "Pool_get ?ctx' (event_chainId event, ModifyLiquidity_params_id event) = Some ?pool'"
    by (simp add: Pool_get_ModifyLiquidityCommit k(1))
  have t0: "\<exists>t. Token_get ?ctx' (Pool_token0 ?pool') = Some t
              \<and> Token_derivedETH t = Token_derivedETH token0"
    using ModifyLiquidityProcessed_same_token [OF go]
    by (auto simp: Token_get_ModifyLiquidityCommit liquidity_token_simps liquidity_pool_simps
        k(3) [symmetric])
  have t1: "\<exists>t. Token_get ?ctx' (Pool_token1 ?pool') = Some t
              \<and> Token_derivedETH t = Token_derivedETH token1"
    by (simp add: Token_get_ModifyLiquidityCommit liquidity_token_simps liquidity_pool_simps
        k(4) [symmetric])
  have b: "Bundle_get ?ctx' (event_chainId event) = Some bundle"
    using go by (simp add: Bundle_get_ModifyLiquidityCommit Bundle_get_updateTicks
        ModifyLiquidityProcessed_def)
  have e: "Pool_totalValueLockedETH ?pool'
             = Pool_totalValueLockedToken0 ?pool' * Token_derivedETH token0
               + Pool_totalValueLockedToken1 ?pool' * Token_derivedETH token1"
    by (simp add: liquidity_pool_simps)
  have u: "Pool_totalValueLockedUSD ?pool'
             = Pool_totalValueLockedETH ?pool' * Bundle_ethPriceUSD bundle"
    by (rule liquidity_pool_simps(8))
  from t0 obtain a0 where a0: "Token_get ?ctx' (Pool_token0 ?pool') = Some a0"
    "Token_derivedETH a0 = Token_derivedETH token0" by blast
  from t1 obtain a1 where a1: "Token_get ?ctx' (Pool_token1 ?pool') = Some a1"
    "Token_derivedETH a1 = Token_derivedETH token1" by blast
  from e a0(2) a1(2) have e': "Pool_totalValueLockedETH ?pool'
             = Pool_totalValueLockedToken0 ?pool' * Token_derivedETH a0
               + Pool_totalValueLockedToken1 ?pool' * Token_derivedETH a1" by simp
  from r p a0(1) a1(1) b e' u show ?thesis by blast
qed

lemma SwapHandler_post:
  assumes go: "SwapProcessed utils ctx event poolManager pool token0 token1"
  shows "Pool_get (SwapHandler utils ctx event) k
           = (if k = (event_chainId event, Swap_params_id event)
              then Some (swap_writtenPool utils ctx event pool token0 token1)
              else Pool_get ctx k)"
    and "PoolManager_get (SwapHandler utils ctx event) km
           = (if km = (event_chainId event, event_srcAddress event)
              then Some (swap_writtenManager utils ctx event poolManager pool token0 token1)
              else PoolManager_get ctx km)"
    and "Bundle_get (SwapHandler utils ctx event) kb
           = (if kb = event_chainId event then Some (swap_writtenBundle utils ctx event)
              else Bundle_get ctx kb)"
    and "Token_get (SwapHandler utils ctx event) kt
           = (if kt = Pool_token1 pool
              then Some (swap_token utils ctx (getChainConfig utils (event_chainId event)) token1)
              else if kt = Pool_token0 pool
              then Some (swap_token utils ctx (getChainConfig utils (event_chainId event)) token0)
              else Token_get ctx kt)"
    and "Pools (SwapHandler utils ctx event)
           = upsert Pool_id (swap_writtenPool utils ctx event pool token0 token1) (Pools ctx)"
    and "isPreload (SwapHandler utils ctx event) = isPreload ctx"
    and "Ticks (SwapHandler utils ctx event) = Ticks ctx"
  unfolding SwapHandler_processed [OF go] swap_writtenPool_def swap_writtenManager_def
    swap_writtenBundle_def
  by (simp_all add: Pool_get_SwapCommit PoolManager_get_SwapCommit Bundle_get_SwapCommit
      Token_get_SwapCommit SwapCommit_tables swap_bundle_id swap_token_simps
      SwapProcessed_keys [OF go])

lemma swap_written_simps:
  "Pool_id (swap_writtenPool utils ctx event pool token0 token1) = Pool_id pool"
  "Pool_token0 (swap_writtenPool utils ctx event pool token0 token1) = Pool_token0 pool"
  "Pool_token1 (swap_writtenPool utils ctx event pool token0 token1) = Pool_token1 pool"
  "Pool_totalValueLockedToken0 (swap_writtenPool utils ctx event pool token0 token1)
     = Pool_totalValueLockedToken0 pool + swap_amount0 event token0"
  "Pool_totalValueLockedToken1 (swap_writtenPool utils ctx event pool token0 token1)
     = Pool_totalValueLockedToken1 pool + swap_amount1 event token1"
  "Pool_totalValueLockedETH (swap_writtenPool utils ctx event pool token0 token1)
     = (Pool_totalValueLockedToken0 pool + swap_amount0 event token0)
         * findNativePerToken utils ctx token0
             (wrappedNativeAddress (getChainConfig utils (event_chainId event)))
             (stablecoinAddresses (getChainConfig utils (event_chainId event)))
             (minimumNativeLocked (getChainConfig utils (event_chainId event)))
       + (Pool_totalValueLockedToken1 pool + swap_amount1 event token1)
         * findNativePerToken utils ctx token1
             (wrappedNativeAddress (getChainConfig utils (event_chainId event)))
             (stablecoinAddresses (getChainConfig utils (event_chainId event)))
             (minimumNativeLocked (getChainConfig utils (event_chainId event)))"
  "Pool_totalValueLockedUSD (swap_writtenPool utils ctx event pool token0 token1)
     = Pool_totalValueLockedETH (swap_writtenPool utils ctx event pool token0 token1)
       * loadedEthPriceUSD ctx (event_chainId event)"
  "PoolManager_id (swap_writtenManager utils ctx event poolManager pool token0 token1)
     = PoolManager_id poolManager"
  "PoolManager_totalValueLockedETH (swap_writtenManager utils ctx event poolManager pool token0 token1)
     = PoolManager_totalValueLockedETH poolManager - Pool_totalValueLockedETH pool
       + Pool_totalValueLockedETH (swap_writtenPool utils ctx event pool token0 token1)"
  "PoolManager_totalValueLockedUSD (swap_writtenManager utils ctx event poolManager pool token0 token1)
     = PoolManager_totalValueLockedETH
         (swap_writtenManager utils ctx event poolManager pool token0 token1)
       * loadedEthPriceUSD ctx (event_chainId event)"
  "Bundle_id (swap_writtenBundle utils ctx event) = event_chainId event"
  "Bundle_ethPriceUSD (swap_writtenBundle utils ctx event)
     = getNativePriceInUSD utils ctx (event_chainId event)
         (stablecoinWrappedNativePoolId (getChainConfig utils (event_chainId event)))
         (stablecoinIsToken0 (getChainConfig utils (event_chainId event)))"
  unfolding swap_writtenPool_def swap_writtenManager_def swap_writtenBundle_def
  by (simp_all add: swap_pool_simps swap_poolManagerCounted_simps swap_bundle_price
      swap_bundle_id swap_token_simps swap_amount0_def swap_amount1_def)
    (simp_all add: swap_token_def)

lemma ModifyLiquidityHandler_post:
  assumes go: "ModifyLiquidityProcessed utils ctx event poolManager pool token0 token1 bundle"
  shows "\<exists>ctx'. ModifyLiquidityHandler utils ctx event = Inr ctx'
      \<and> (\<forall>k. Pool_get ctx' k
             = (if k = (event_chainId event, ModifyLiquidity_params_id event)
                then Some (liquidity_pool utils event pool token0 token1 bundle)
                else Pool_get ctx k))
      \<and> (\<forall>k. PoolManager_get ctx' k
             = (if k = (event_chainId event, event_srcAddress event)
                then Some (liquidity_poolManager utils event pool token0 token1 bundle poolManager)
                else PoolManager_get ctx k))
      \<and> (\<forall>k. Bundle_get ctx' k = Bundle_get ctx k)
      \<and> Pools ctx' = upsert Pool_id (liquidity_pool utils event pool token0 token1 bundle) (Pools ctx)"
  unfolding ModifyLiquidityHandler_processed [OF go]
  by (simp add: Pool_get_ModifyLiquidityCommit PoolManager_get_ModifyLiquidityCommit
      Bundle_get_ModifyLiquidityCommit ModifyLiquidityCommit_tables updateTicks_frame
      Pool_get_updateTicks PoolManager_get_updateTicks Bundle_get_updateTicks
      ModifyLiquidityProcessed_keys [OF go])

section \<open>The pool's TVL after an event\<close>

text \<open>
  C1, as amended. After every processed swap and every processed liquidity change,
  whatever the events before it, the pool that was updated satisfies, with the tokens as
  stored after the event, \<open>totalValueLockedETH = totalValueLockedToken0 *
  token0.derivedETH + totalValueLockedToken1 * token1.derivedETH\<close> exactly, and its
  \<open>totalValueLockedUSD\<close> is \<open>totalValueLockedETH\<close> times the native price of the bundle
  as it was stored when the event arrived (0 when no bundle was stored). After a
  liquidity change this is the bundle stored after the event too. A swap stores the
  bundle anew, with the refreshed native price.
\<close>

theorem pool_tvl_recomputed:
  "(SwapProcessed utils ctx sev poolManager pool token0 token1 \<longrightarrow>
      (\<exists>pool' t0 t1 b.
           Pool_get (SwapHandler utils ctx sev) (event_chainId sev, Swap_params_id sev) = Some pool'
         \<and> Token_get (SwapHandler utils ctx sev) (Pool_token0 pool') = Some t0
         \<and> Token_get (SwapHandler utils ctx sev) (Pool_token1 pool') = Some t1
         \<and> Bundle_get (SwapHandler utils ctx sev) (event_chainId sev) = Some b
         \<and> Pool_totalValueLockedETH pool'
             = Pool_totalValueLockedToken0 pool' * Token_derivedETH t0
               + Pool_totalValueLockedToken1 pool' * Token_derivedETH t1
         \<and> Pool_totalValueLockedUSD pool'
             = Pool_totalValueLockedETH pool' * loadedEthPriceUSD ctx (event_chainId sev)
         \<and> Bundle_ethPriceUSD b
             = getNativePriceInUSD utils ctx (event_chainId sev)
                 (stablecoinWrappedNativePoolId (getChainConfig utils (event_chainId sev)))
                 (stablecoinIsToken0 (getChainConfig utils (event_chainId sev)))))
   \<and> (ModifyLiquidityProcessed utils ctx lev poolManager pool token0 token1 bundle \<longrightarrow>
      (\<exists>ctx' pool' t0 t1.
           ModifyLiquidityHandler utils ctx lev = Inr ctx'
         \<and> Pool_get ctx' (event_chainId lev, ModifyLiquidity_params_id lev) = Some pool'
         \<and> Token_get ctx' (Pool_token0 pool') = Some t0
         \<and> Token_get ctx' (Pool_token1 pool') = Some t1
         \<and> Bundle_get ctx' (event_chainId lev) = Some bundle
         \<and> Pool_totalValueLockedETH pool'
             = Pool_totalValueLockedToken0 pool' * Token_derivedETH t0
               + Pool_totalValueLockedToken1 pool' * Token_derivedETH t1
         \<and> Pool_totalValueLockedUSD pool'
             = Pool_totalValueLockedETH pool' * Bundle_ethPriceUSD bundle))"
  using SwapHandler_pool_tvl [of utils ctx sev poolManager pool token0 token1]
    ModifyLiquidityHandler_pool_tvl [of utils ctx lev poolManager pool token0 token1 "bundle"]
  by blast

theorem pool_tvl_recomputed_witness:
  "SwapProcessed (exampleUtils 1 2000 0 0) exampleContext
     (exampleSwap ''0xpoolA'' (- 1000000) 500000000000000000) exampleManager
     (examplePool ''0xpoolA'' 10 5 15 30000) exampleToken0 exampleToken1
   \<and> ModifyLiquidityProcessed (exampleUtils 1 2000 0 0) exampleContext
       (exampleModifyLiquidity ''0xpoolA'' (- 60) 60 1000) exampleManager
       (examplePool ''0xpoolA'' 10 5 15 30000) exampleToken0 exampleToken1
       \<lparr>Bundle_id = 1, Bundle_ethPriceUSD = 2000\<rparr>
   \<and> (\<exists>pool' t0 t1 b.
           Pool_get (SwapHandler (exampleUtils 1 2000 0 0) exampleContext
                       (exampleSwap ''0xpoolA'' (- 1000000) 500000000000000000))
             (event_chainId (exampleSwap ''0xpoolA'' (- 1000000) 500000000000000000),
              Swap_params_id (exampleSwap ''0xpoolA'' (- 1000000) 500000000000000000))
             = Some pool'
         \<and> Token_get (SwapHandler (exampleUtils 1 2000 0 0) exampleContext
                       (exampleSwap ''0xpoolA'' (- 1000000) 500000000000000000))
             (Pool_token0 pool') = Some t0
         \<and> Token_get (SwapHandler (exampleUtils 1 2000 0 0) exampleContext
                       (exampleSwap ''0xpoolA'' (- 1000000) 500000000000000000))
             (Pool_token1 pool') = Some t1
         \<and> Pool_totalValueLockedETH pool'
             = Pool_totalValueLockedToken0 pool' * Token_derivedETH t0
               + Pool_totalValueLockedToken1 pool' * Token_derivedETH t1
         \<and> Pool_totalValueLockedUSD pool'
             = Pool_totalValueLockedETH pool'
               * loadedEthPriceUSD exampleContext
                   (event_chainId (exampleSwap ''0xpoolA'' (- 1000000) 500000000000000000)))
   \<and> (\<exists>ctx' pool' t0 t1.
           ModifyLiquidityHandler (exampleUtils 1 2000 0 0) exampleContext
             (exampleModifyLiquidity ''0xpoolA'' (- 60) 60 1000) = Inr ctx'
         \<and> Pool_get ctx'
             (event_chainId (exampleModifyLiquidity ''0xpoolA'' (- 60) 60 1000),
              ModifyLiquidity_params_id (exampleModifyLiquidity ''0xpoolA'' (- 60) 60 1000))
             = Some pool'
         \<and> Token_get ctx' (Pool_token0 pool') = Some t0
         \<and> Token_get ctx' (Pool_token1 pool') = Some t1
         \<and> Bundle_get ctx' (event_chainId (exampleModifyLiquidity ''0xpoolA'' (- 60) 60 1000))
             = Some \<lparr>Bundle_id = 1, Bundle_ethPriceUSD = 2000\<rparr>
         \<and> Pool_totalValueLockedETH pool'
             = Pool_totalValueLockedToken0 pool' * Token_derivedETH t0
               + Pool_totalValueLockedToken1 pool' * Token_derivedETH t1
         \<and> Pool_totalValueLockedUSD pool'
             = Pool_totalValueLockedETH pool'
               * Bundle_ethPriceUSD \<lparr>Bundle_id = 1, Bundle_ethPriceUSD = 2000\<rparr>)"
proof -
  note P1 = example_swap_processed [of 1 2000 0 0 "- 1000000" 500000000000000000]
  note P2 = example_liquidity_processed_A [of 1 2000 0 0 "- 60" 60 1000]
  note T = pool_tvl_recomputed [of "exampleUtils 1 2000 0 0" exampleContext
      "exampleSwap ''0xpoolA'' (- 1000000) 500000000000000000" exampleManager
      "examplePool ''0xpoolA'' 10 5 15 30000" exampleToken0 exampleToken1
      "exampleModifyLiquidity ''0xpoolA'' (- 60) 60 1000"
      "\<lparr>Bundle_id = 1, Bundle_ethPriceUSD = 2000\<rparr>"]
  from T [THEN conjunct1, rule_format, OF P1] T [THEN conjunct2, rule_format, OF P2] P1 P2
  show ?thesis by blast
qed

lemma example_utils:
  "getChainConfig (exampleUtils derived native raw0 raw1) = (\<lambda>_. exampleConfig)"
  "findNativePerToken (exampleUtils derived native raw0 raw1) = (\<lambda>_ _ _ _ _. derived)"
  "getNativePriceInUSD (exampleUtils derived native raw0 raw1) = (\<lambda>_ _ _ _. native)"
  "getAmount0 (exampleUtils derived native raw0 raw1) = (\<lambda>_ _ _ _ _. raw0)"
  "getAmount1 (exampleUtils derived native raw0 raw1) = (\<lambda>_ _ _ _ _. raw1)"
  by (simp_all add: exampleUtils_def)

lemma example_loaded_price: "loadedEthPriceUSD exampleContext 1 = 2000"
  by (simp add: loadedEthPriceUSD_def Bundle_get_def lookup_def exampleContext_def)

lemma example_swap_amounts:
  "swap_amount0 (exampleSwap poolId (- 1000000) 500000000000000000) exampleToken0 = 1"
  "swap_amount1 (exampleSwap poolId (- 1000000) 500000000000000000) exampleToken1 = - (1 / 2)"
  by (simp_all add: swap_amount0_def swap_amount1_def convertTokenToDecimal_def
      example_swap_fields example_fields)

text \<open>
  C1 as stated fails for a swap that refreshes the native price: with helpers that
  price both tokens at 1 and return 2500 for the native price, and a stored bundle
  price of 2000, the pool's \<open>totalValueLockedUSD\<close> after the swap is 31/2 * 2000 =
  31000, while the stored bundle has price 2500.
\<close>

theorem swap_stale_price_counterexample:
  "map_option Pool_totalValueLockedETH
     (Pool_get (SwapHandler (exampleUtils 1 2500 0 0) exampleContext
                  (exampleSwap ''0xpoolA'' (- 1000000) 500000000000000000)) (1, ''0xpoolA''))
     = Some (31 / 2)
   \<and> map_option Pool_totalValueLockedUSD
       (Pool_get (SwapHandler (exampleUtils 1 2500 0 0) exampleContext
                    (exampleSwap ''0xpoolA'' (- 1000000) 500000000000000000)) (1, ''0xpoolA''))
       = Some 31000
   \<and> map_option Bundle_ethPriceUSD
       (Bundle_get (SwapHandler (exampleUtils 1 2500 0 0) exampleContext
                    (exampleSwap ''0xpoolA'' (- 1000000) 500000000000000000)) 1)
       = Some 2500
   \<and> (31000 :: rat) \<noteq> 31 / 2 * 2500"
proof -
  note P1 = example_swap_processed [of 1 2500 0 0 "- 1000000" 500000000000000000]
  show ?thesis
    by (simp add: SwapHandler_post [OF P1] example_swap_fields swap_written_simps
        example_fields example_utils example_swap_amounts example_loaded_price)
qed

section \<open>The manager's TVL\<close>

text \<open>
  C2, as amended. Along every sequence of events in which all events of the chain come
  from the one manager of the chain, at every point the stored manager's
  \<open>totalValueLockedETH\<close> equals the sum of \<open>totalValueLockedETH\<close> over the stored pools
  of that chain, provided it did at the start; each processed event maintains it by
  subtracting the pool's previous \<open>totalValueLockedETH\<close> and adding the new one. The
  manager's \<open>totalValueLockedUSD\<close> is, after each processed event, its
  \<open>totalValueLockedETH\<close> times the native price of the bundle as stored when the event
  arrived.
\<close>

theorem manager_tvl_eth_matches_pools:
  "(managerMatchesPoolsETH ctx chain manager
      \<and> (\<forall>e\<in>set es. eventLogChainId e = chain \<longrightarrow> eventLogSrcAddress e = manager)
     \<longrightarrow> (\<forall>n. managerMatchesPoolsETH (snd (processEvents utils ctx (take n es))) chain manager))
   \<and> (SwapProcessed utils ctx sev poolManager pool token0 token1 \<longrightarrow>
        (\<exists>pool' m'.
            Pool_get (SwapHandler utils ctx sev) (event_chainId sev, Swap_params_id sev) = Some pool'
          \<and> PoolManager_get (SwapHandler utils ctx sev) (event_chainId sev, event_srcAddress sev)
              = Some m'
          \<and> PoolManager_totalValueLockedETH m'
              = PoolManager_totalValueLockedETH poolManager - Pool_totalValueLockedETH pool
                + Pool_totalValueLockedETH pool'
          \<and> PoolManager_totalValueLockedUSD m'
              = PoolManager_totalValueLockedETH m' * loadedEthPriceUSD ctx (event_chainId sev)))
   \<and> (ModifyLiquidityProcessed utils ctx lev poolManager pool token0 token1 bundle \<longrightarrow>
        (\<exists>ctx' pool' m'.
            ModifyLiquidityHandler utils ctx lev = Inr ctx'
          \<and> Pool_get ctx' (event_chainId lev, ModifyLiquidity_params_id lev) = Some pool'
          \<and> PoolManager_get ctx' (event_chainId lev, event_srcAddress lev) = Some m'
          \<and> PoolManager_totalValueLockedETH m'
              = PoolManager_totalValueLockedETH poolManager - Pool_totalValueLockedETH pool
                + Pool_totalValueLockedETH pool'
          \<and> PoolManager_totalValueLockedUSD m'
              = PoolManager_totalValueLockedETH m' * Bundle_ethPriceUSD bundle))"
proof (intro conjI impI allI)
  fix n
  assume a: "managerMatchesPoolsETH ctx chain manager
      \<and> (\<forall>e\<in>set es. eventLogChainId e = chain \<longrightarrow> eventLogSrcAddress e = manager)"
  then have "\<forall>e\<in>set (take n es). eventLogChainId e = chain \<longrightarrow> eventLogSrcAddress e = manager"
    by (meson in_set_takeD)
  with a show "managerMatchesPoolsETH (snd (processEvents utils ctx (take n es))) chain manager"
    using processEvents_preserves_ETH [of ctx chain manager "take n es" utils] by blast
next
  assume go: "SwapProcessed utils ctx sev poolManager pool token0 token1"
  show "\<exists>pool' m'.
            Pool_get (SwapHandler utils ctx sev) (event_chainId sev, Swap_params_id sev) = Some pool'
          \<and> PoolManager_get (SwapHandler utils ctx sev) (event_chainId sev, event_srcAddress sev)
              = Some m'
          \<and> PoolManager_totalValueLockedETH m'
              = PoolManager_totalValueLockedETH poolManager - Pool_totalValueLockedETH pool
                + Pool_totalValueLockedETH pool'
          \<and> PoolManager_totalValueLockedUSD m'
              = PoolManager_totalValueLockedETH m' * loadedEthPriceUSD ctx (event_chainId sev)"
    by (simp add: SwapHandler_post [OF go] swap_written_simps(9,10))
next
  assume go: "ModifyLiquidityProcessed utils ctx lev poolManager pool token0 token1 bundle"
  from ModifyLiquidityHandler_post [OF go]
  show "\<exists>ctx' pool' m'.
            ModifyLiquidityHandler utils ctx lev = Inr ctx'
          \<and> Pool_get ctx' (event_chainId lev, ModifyLiquidity_params_id lev) = Some pool'
          \<and> PoolManager_get ctx' (event_chainId lev, event_srcAddress lev) = Some m'
          \<and> PoolManager_totalValueLockedETH m'
              = PoolManager_totalValueLockedETH poolManager - Pool_totalValueLockedETH pool
                + Pool_totalValueLockedETH pool'
          \<and> PoolManager_totalValueLockedUSD m'
              = PoolManager_totalValueLockedETH m' * Bundle_ethPriceUSD bundle"
    by (auto simp: liquidity_poolManager_simps)
qed

lemma poolsTotalValueLockedUSD_upsert:
  assumes "Pools ctx' = upsert Pool_id pool' (Pools ctx)"
      and "Pool_get ctx (Pool_id pool') = Some pool"
  shows "poolsTotalValueLockedUSD ctx' chain
       = poolsTotalValueLockedUSD ctx chain
         - (if fst (Pool_id pool') = chain then Pool_totalValueLockedUSD pool else 0)
         + (if fst (Pool_id pool') = chain then Pool_totalValueLockedUSD pool' else 0)"
  using assms(2)
  by (simp add: poolsTotalValueLockedUSD_def poolsOfChain_def assms(1) Pool_get_def
      sum_list_filter_upsert [where key = Pool_id and P = "\<lambda>p. fst (Pool_id p) = chain"])

lemma example_sums:
  "poolsTotalValueLockedETH exampleContext 1 = 15"
  "poolsTotalValueLockedUSD exampleContext 1 = 30000"
  "PoolManager_get exampleContext (1, ''0xmanager'') = Some exampleManager"
  by (simp_all add: poolsTotalValueLockedETH_def poolsTotalValueLockedUSD_def poolsOfChain_def
      exampleContext_def example_fields PoolManager_get_def lookup_def)

lemma example_consistent:
  "managerMatchesPoolsETH exampleContext 1 ''0xmanager''"
  "managerMatchesPoolsUSD exampleContext 1 ''0xmanager''"
  by (simp_all add: managerMatchesPoolsETH_def managerMatchesPoolsUSD_def example_sums
      example_fields)

lemma example_swap_token:
  "swap_token (exampleUtils 1 native raw0 raw1) ctx chainConfig exampleToken0 = exampleToken0"
  "swap_token (exampleUtils 1 native raw0 raw1) ctx chainConfig exampleToken1 = exampleToken1"
  by (simp_all add: swap_token_def example_utils exampleToken0_def exampleToken1_def)

lemma example_liquidity_fields:
  "event_chainId (exampleModifyLiquidity poolId lower upper delta) = 1"
  "event_srcAddress (exampleModifyLiquidity poolId lower upper delta) = ''0xmanager''"
  "ModifyLiquidity_params_id (exampleModifyLiquidity poolId lower upper delta) = poolId"
  "ModifyLiquidity_params_tickLower (exampleModifyLiquidity poolId lower upper delta) = lower"
  "ModifyLiquidity_params_tickUpper (exampleModifyLiquidity poolId lower upper delta) = upper"
  "ModifyLiquidity_params_liquidityDelta (exampleModifyLiquidity poolId lower upper delta) = delta"
  by (simp_all add: exampleModifyLiquidity_def)

lemma example_liquidity_amounts:
  "liquidity_amount0 (exampleUtils derived native 2000000 0) event pool exampleToken0 = 2"
  "liquidity_amount1 (exampleUtils derived native 2000000 0) event pool exampleToken1 = 0"
  by (simp_all add: liquidity_amount0_def liquidity_amount1_def liquidity_amount0Raw_def
      liquidity_amount1Raw_def example_utils convertTokenToDecimal_def example_fields)

lemma example_two_events:
  "\<exists>ctx2 m2.
           processEvents (exampleUtils 1 2500 2000000 0) exampleContext
             [SwapLog (exampleSwap ''0xpoolA'' (- 1000000) 500000000000000000),
              ModifyLiquidityLog (exampleModifyLiquidity ''0xpoolB'' (- 60) 60 1000)] = (None, ctx2)
         \<and> PoolManager_get ctx2 (1, ''0xmanager'') = Some m2
         \<and> PoolManager_totalValueLockedETH m2 = 35 / 2
         \<and> PoolManager_totalValueLockedUSD m2 = 43750
         \<and> poolsTotalValueLockedETH ctx2 1 = 35 / 2
         \<and> poolsTotalValueLockedUSD ctx2 1 = 36000"
proof -
  let ?ev1 = "exampleSwap ''0xpoolA'' (- 1000000) 500000000000000000"
  let ?ev2 = "exampleModifyLiquidity ''0xpoolB'' (- 60) 60 1000"
  let ?U = "exampleUtils 1 2500 2000000 0"
  let ?ctx1 = "SwapHandler ?U exampleContext ?ev1"
  let ?A = "examplePool ''0xpoolA'' 10 5 15 30000"
  let ?B = "examplePool ''0xpoolB'' 0 0 0 0"
  let ?A' = "swap_writtenPool ?U exampleContext ?ev1 ?A exampleToken0 exampleToken1"
  let ?M1 = "swap_writtenManager ?U exampleContext ?ev1 exampleManager ?A exampleToken0 exampleToken1"
  let ?b1 = "swap_writtenBundle ?U exampleContext ?ev1"
  have P1: "SwapProcessed ?U exampleContext ?ev1 exampleManager ?A exampleToken0 exampleToken1"
    by (rule example_swap_processed)
  note post1 = SwapHandler_post [OF P1]
  have PB: "ModifyLiquidityProcessed ?U exampleContext ?ev2 exampleManager ?B exampleToken0
      exampleToken1 \<lparr>Bundle_id = 1, Bundle_ethPriceUSD = 2000\<rparr>"
    by (rule example_liquidity_processed)
  have A': "Pool_id ?A' = (1, ''0xpoolA'')" "Pool_totalValueLockedETH ?A' = 31 / 2"
    "Pool_totalValueLockedUSD ?A' = 31000"
    by (simp_all add: swap_written_simps example_fields example_utils example_swap_amounts example_swap_fields example_loaded_price)
  have M1: "PoolManager_totalValueLockedETH ?M1 = 31 / 2"
    by (simp add: swap_written_simps(9) example_fields A')
  have b1: "Bundle_ethPriceUSD ?b1 = 2500"
    by (simp add: swap_written_simps example_utils)
  from PB have B0: "Pool_get exampleContext (1, ''0xpoolB'') = Some ?B"
    by (simp add: ModifyLiquidityProcessed_def example_liquidity_fields)
  have P2: "ModifyLiquidityProcessed ?U ?ctx1 ?ev2 ?M1 ?B exampleToken0 exampleToken1 ?b1"
    using PB unfolding ModifyLiquidityProcessed_def
    by (simp add: post1 example_swap_fields example_liquidity_fields example_utils example_fields example_swap_token)
  from ModifyLiquidityHandler_post [OF P2] obtain ctx2 where
    r: "ModifyLiquidityHandler ?U ?ctx1 ?ev2 = Inr ctx2"
    and m: "PoolManager_get ctx2 (1, ''0xmanager'')
        = Some (liquidity_poolManager ?U ?ev2 ?B exampleToken0 exampleToken1 ?b1 ?M1)"
    and p: "Pools ctx2 = upsert Pool_id (liquidity_pool ?U ?ev2 ?B exampleToken0 exampleToken1 ?b1)
              (Pools ?ctx1)"
    by (auto simp: example_liquidity_fields)
  let ?B' = "liquidity_pool ?U ?ev2 ?B exampleToken0 exampleToken1 ?b1"
  let ?M2 = "liquidity_poolManager ?U ?ev2 ?B exampleToken0 exampleToken1 ?b1 ?M1"
  have B': "Pool_id ?B' = (1, ''0xpoolB'')" "Pool_totalValueLockedETH ?B' = 2"
    "Pool_totalValueLockedUSD ?B' = 5000"
    by (simp_all add: liquidity_pool_simps example_fields example_liquidity_amounts b1)
  have M2: "PoolManager_totalValueLockedETH ?M2 = 35 / 2" "PoolManager_totalValueLockedUSD ?M2 = 43750"
    by (simp_all add: liquidity_poolManager_simps example_fields M1 B' b1)
  have A0: "Pool_get exampleContext (Pool_id ?A') = Some ?A"
    using P1 by (simp add: SwapProcessed_def A' example_swap_fields)
  have s1: "poolsTotalValueLockedETH ?ctx1 1 = 31 / 2" "poolsTotalValueLockedUSD ?ctx1 1 = 31000"
    using poolsTotalValueLockedETH_upsert [OF post1(5) A0, of 1]
      poolsTotalValueLockedUSD_upsert [OF post1(5) A0, of 1]
    by (simp_all add: A' example_sums example_fields)
  have B1: "Pool_get ?ctx1 (Pool_id ?B') = Some ?B"
    by (simp add: post1 B' example_swap_fields B0)
  have s2: "poolsTotalValueLockedETH ctx2 1 = 35 / 2" "poolsTotalValueLockedUSD ctx2 1 = 36000"
    using poolsTotalValueLockedETH_upsert [OF p B1, of 1]
      poolsTotalValueLockedUSD_upsert [OF p B1, of 1]
    by (simp_all add: B' s1 example_fields)
  have run: "processEvents ?U exampleContext [SwapLog ?ev1, ModifyLiquidityLog ?ev2] = (None, ctx2)"
    by (simp add: r)
  from run m M2 s2 show ?thesis by blast
qed

text \<open>
  C2 as stated fails for \<open>totalValueLockedUSD\<close>: from stored figures in which the
  manager holds the sums of its pools, a swap on pool A that refreshes the native price
  from 2000 to 2500, followed by a liquidity change on pool B, leaves the manager with
  35/2 * 2500 = 43750, while the pools' \<open>totalValueLockedUSD\<close> sum to
  31000 + 5000 = 36000.
\<close>

theorem manager_tvl_usd_counterexample:
  "managerMatchesPoolsUSD exampleContext 1 ''0xmanager''
   \<and> \<not> managerMatchesPoolsUSD
         (snd (processEvents (exampleUtils 1 2500 2000000 0) exampleContext
                 [SwapLog (exampleSwap ''0xpoolA'' (- 1000000) 500000000000000000),
                  ModifyLiquidityLog (exampleModifyLiquidity ''0xpoolB'' (- 60) 60 1000)]))
         1 ''0xmanager''"
  using example_two_events example_consistent(2)
  by (auto simp: managerMatchesPoolsUSD_def)

theorem manager_tvl_eth_matches_pools_witness:
  "managerMatchesPoolsETH exampleContext 1 ''0xmanager''
   \<and> eventLogChainId (SwapLog (exampleSwap ''0xpoolA'' (- 1000000) 500000000000000000)) = 1
   \<and> eventLogSrcAddress (SwapLog (exampleSwap ''0xpoolA'' (- 1000000) 500000000000000000))
       = ''0xmanager''
   \<and> eventLogChainId (ModifyLiquidityLog (exampleModifyLiquidity ''0xpoolB'' (- 60) 60 1000)) = 1
   \<and> eventLogSrcAddress (ModifyLiquidityLog (exampleModifyLiquidity ''0xpoolB'' (- 60) 60 1000))
       = ''0xmanager''
   \<and> managerMatchesPoolsETH
         (snd (processEvents (exampleUtils 1 2500 2000000 0) exampleContext
                 (take 2 [SwapLog (exampleSwap ''0xpoolA'' (- 1000000) 500000000000000000),
                          ModifyLiquidityLog (exampleModifyLiquidity ''0xpoolB'' (- 60) 60 1000)])))
         1 ''0xmanager''
   \<and> SwapProcessed (exampleUtils 1 2500 2000000 0) exampleContext
         (exampleSwap ''0xpoolA'' (- 1000000) 500000000000000000) exampleManager
         (examplePool ''0xpoolA'' 10 5 15 30000) exampleToken0 exampleToken1
   \<and> (\<exists>pool' m'.
          Pool_get (SwapHandler (exampleUtils 1 2500 2000000 0) exampleContext
                      (exampleSwap ''0xpoolA'' (- 1000000) 500000000000000000)) (1, ''0xpoolA'')
            = Some pool'
        \<and> PoolManager_get (SwapHandler (exampleUtils 1 2500 2000000 0) exampleContext
                      (exampleSwap ''0xpoolA'' (- 1000000) 500000000000000000)) (1, ''0xmanager'')
            = Some m'
        \<and> PoolManager_totalValueLockedETH m' = 15 - 15 + Pool_totalValueLockedETH pool'
        \<and> PoolManager_totalValueLockedUSD m' = PoolManager_totalValueLockedETH m' * 2000)
   \<and> ModifyLiquidityProcessed (exampleUtils 1 2500 2000000 0) exampleContext
         (exampleModifyLiquidity ''0xpoolA'' (- 60) 60 1000) exampleManager
         (examplePool ''0xpoolA'' 10 5 15 30000) exampleToken0 exampleToken1
         \<lparr>Bundle_id = 1, Bundle_ethPriceUSD = 2000\<rparr>
   \<and> (\<exists>ctx' pool' m'.
          ModifyLiquidityHandler (exampleUtils 1 2500 2000000 0) exampleContext
            (exampleModifyLiquidity ''0xpoolA'' (- 60) 60 1000) = Inr ctx'
        \<and> Pool_get ctx' (1, ''0xpoolA'') = Some pool'
        \<and> PoolManager_get ctx' (1, ''0xmanager'') = Some m'
        \<and> PoolManager_totalValueLockedETH m' = 15 - 15 + Pool_totalValueLockedETH pool'
        \<and> PoolManager_totalValueLockedUSD m' = PoolManager_totalValueLockedETH m' * 2000)"
proof -
  let ?es = "[SwapLog (exampleSwap ''0xpoolA'' (- 1000000) 500000000000000000),
              ModifyLiquidityLog (exampleModifyLiquidity ''0xpoolB'' (- 60) 60 1000)]"
  note P1 = example_swap_processed [of 1 2500 2000000 0 "- 1000000" 500000000000000000]
  note P2 = example_liquidity_processed_A [of 1 2500 2000000 0 "- 60" 60 1000]
  note T = manager_tvl_eth_matches_pools [of exampleContext 1 "''0xmanager''" ?es
      "exampleUtils 1 2500 2000000 0" "exampleSwap ''0xpoolA'' (- 1000000) 500000000000000000"
      exampleManager "examplePool ''0xpoolA'' 10 5 15 30000" exampleToken0 exampleToken1
      "exampleModifyLiquidity ''0xpoolA'' (- 60) 60 1000"
      "\<lparr>Bundle_id = 1, Bundle_ethPriceUSD = 2000\<rparr>"]
  have all: "\<forall>e\<in>set ?es. eventLogChainId e = 1 \<longrightarrow> eventLogSrcAddress e = ''0xmanager''"
    by (simp add: example_swap_fields example_liquidity_fields)
  have seq: "managerMatchesPoolsETH
         (snd (processEvents (exampleUtils 1 2500 2000000 0) exampleContext (take 2 ?es)))
         1 ''0xmanager''"
    using T [THEN conjunct1] example_consistent(1) all by blast
  have sw: "\<exists>pool' m'.
          Pool_get (SwapHandler (exampleUtils 1 2500 2000000 0) exampleContext
                      (exampleSwap ''0xpoolA'' (- 1000000) 500000000000000000)) (1, ''0xpoolA'')
            = Some pool'
        \<and> PoolManager_get (SwapHandler (exampleUtils 1 2500 2000000 0) exampleContext
                      (exampleSwap ''0xpoolA'' (- 1000000) 500000000000000000)) (1, ''0xmanager'')
            = Some m'
        \<and> PoolManager_totalValueLockedETH m' = 15 - 15 + Pool_totalValueLockedETH pool'
        \<and> PoolManager_totalValueLockedUSD m' = PoolManager_totalValueLockedETH m' * 2000"
    using T [THEN conjunct2, THEN conjunct1, rule_format, OF P1]
    by (simp add: example_swap_fields example_fields example_loaded_price)
  have lq: "\<exists>ctx' pool' m'.
          ModifyLiquidityHandler (exampleUtils 1 2500 2000000 0) exampleContext
            (exampleModifyLiquidity ''0xpoolA'' (- 60) 60 1000) = Inr ctx'
        \<and> Pool_get ctx' (1, ''0xpoolA'') = Some pool'
        \<and> PoolManager_get ctx' (1, ''0xmanager'') = Some m'
        \<and> PoolManager_totalValueLockedETH m' = 15 - 15 + Pool_totalValueLockedETH pool'
        \<and> PoolManager_totalValueLockedUSD m' = PoolManager_totalValueLockedETH m' * 2000"
    using T [THEN conjunct2, THEN conjunct2, rule_format, OF P2]
    by (simp add: example_liquidity_fields example_fields)
  have ev: "eventLogChainId (SwapLog (exampleSwap ''0xpoolA'' (- 1000000) 500000000000000000)) = 1"
    "eventLogSrcAddress (SwapLog (exampleSwap ''0xpoolA'' (- 1000000) 500000000000000000))
       = ''0xmanager''"
    "eventLogChainId (ModifyLiquidityLog (exampleModifyLiquidity ''0xpoolB'' (- 60) 60 1000)) = 1"
    "eventLogSrcAddress (ModifyLiquidityLog (exampleModifyLiquidity ''0xpoolB'' (- 60) 60 1000))
       = ''0xmanager''"
    by (simp_all add: example_swap_fields example_liquidity_fields)
  from example_consistent(1) ev seq P1 sw P2 lq show ?thesis by (intro conjI)
qed

end
